(* ===== verification/Prelude.thy ===== *)
theory Prelude
  imports Complex_Main "HOL-Library.Multiset"
begin

text \<open>
  Shared vocabulary of the development: the Python exceptions the modelled code can
  raise, Python floats with their not-a-number value, Python's indexing operations
  with the error they raise, the trailing-window operation every bounded history
  uses, and the arithmetic mean. The named collection \<open>model_defs\<close> gathers the
  defining equations that the component proofs unfold.
\<close>

named_theorems model_defs "defining equations of the model that component proofs unfold"

subsection \<open>Python exceptions\<close>

datatype py_error =
    KeyError string
  | ValueError string
  | IndexError
  | TypeError
  | AttributeError
  | NotImplementedError string
  | ImportError string
  | NameError string

subsection \<open>Trade directions\<close>

text \<open>The strings \<open>'BUY'\<close> and \<open>'SELL'\<close> an indicator returns as its signal; no
  signal is \<open>None\<close>.\<close>

datatype direction = BUY | SELL

subsection \<open>Floats with NaN\<close>

text \<open>
  A Python/numpy float is a real number or NaN. \<open>None\<close> is NaN; every ordered
  comparison with NaN is \<open>False\<close>, which the comparison functions below write out.
\<close>

type_synonym flt = "real option"

definition flt_ge :: "flt \<Rightarrow> real \<Rightarrow> bool" where
  "flt_ge x t = (case x of None \<Rightarrow> False | Some v \<Rightarrow> t \<le> v)"

definition flt_gt :: "flt \<Rightarrow> flt \<Rightarrow> bool" where
  "flt_gt x y = (case (x, y) of (Some a, Some b) \<Rightarrow> b < a | _ \<Rightarrow> False)"

definition flt_le :: "flt \<Rightarrow> flt \<Rightarrow> bool" where
  "flt_le x y = (case (x, y) of (Some a, Some b) \<Rightarrow> a \<le> b | _ \<Rightarrow> False)"

definition flt_abs :: "flt \<Rightarrow> flt" where
  "flt_abs x = map_option abs x"

declare flt_ge_def [model_defs] flt_gt_def [model_defs] flt_le_def [model_defs]
  flt_abs_def [model_defs]

lemma flt_ge_simps [simp]:
  "flt_ge None t = False" "flt_ge (Some v) t = (t \<le> v)"
  by (simp_all add: flt_ge_def)

lemma flt_gt_simps [simp]:
  "flt_gt None y = False" "flt_gt x None = False" "flt_gt (Some a) (Some b) = (b < a)"
  by (simp_all add: flt_gt_def split: option.splits)

lemma flt_le_simps [simp]:
  "flt_le None y = False" "flt_le x None = False" "flt_le (Some a) (Some b) = (a \<le> b)"
  by (simp_all add: flt_le_def split: option.splits)

lemma flt_abs_simps [simp]:
  "flt_abs None = None" "flt_abs (Some v) = Some \<bar>v\<bar>"
  by (simp_all add: flt_abs_def)

subsection \<open>Python indexing\<close>

text \<open>\<open>xs[-1]\<close> and \<open>xs[i]\<close> raise \<open>IndexError\<close> out of range; negative indices count
  from the end.\<close>

definition py_index :: "'a list \<Rightarrow> int \<Rightarrow> py_error + 'a" where
  "py_index xs i =
     (let pos = (if 0 \<le> i then i else i + int (length xs))
      in if pos < 0 \<or> int (length xs) \<le> pos then Inl IndexError else Inr (xs ! nat pos))"

abbreviation py_last :: "'a list \<Rightarrow> py_error + 'a" where
  "py_last xs \<equiv> py_index xs (-1)"

lemma py_last_eq: "py_last xs = (if xs = [] then Inl IndexError else Inr (last xs))"
  by (cases xs rule: rev_cases) (simp_all add: py_index_def nth_append)

lemma py_index_nonneg:
  "py_index xs (int i) = (if i < length xs then Inr (xs ! i) else Inl IndexError)"
  by (simp add: py_index_def)

lemma py_index_second_last:
  "py_index xs (-2) = (if 2 \<le> length xs then Inr (xs ! (length xs - 2)) else Inl IndexError)"
  by (auto simp add: py_index_def nat_diff_distrib)

subsection \<open>Trailing windows\<close>

text \<open>The last \<open>n\<close> elements of a list (all of it when it is shorter): the content of a
  FIFO history of capacity \<open>n\<close>, and the window of a rolling computation.\<close>

definition last_n :: "nat \<Rightarrow> 'a list \<Rightarrow> 'a list" where
  "last_n n xs = drop (length xs - n) xs"

lemma length_last_n [simp]: "length (last_n n xs) = min n (length xs)"
  by (simp add: last_n_def)

lemma last_n_all [simp]: "length xs \<le> n \<Longrightarrow> last_n n xs = xs"
  by (simp add: last_n_def)

lemma last_n_snoc_full:
  assumes "n \<le> length xs"
  shows "last_n n (xs @ [x]) = tl (last_n n xs @ [x])"
proof -
  have "last_n n (xs @ [x]) = drop (Suc (length xs - n)) (xs @ [x])"
    using assms by (simp add: last_n_def Suc_diff_le)
  also have "\<dots> = tl (drop (length xs - n) (xs @ [x]))"
    by (simp only: drop_Suc tl_drop)
  also have "\<dots> = tl (last_n n xs @ [x])"
    by (simp add: last_n_def)
  finally show ?thesis .
qed

lemma last_n_last_n_append: "last_n n (last_n n ys @ zs) = last_n n (ys @ zs)"
proof -
  have "length ys + length zs - (length ys - n + n) + (length ys - n) = length ys + length zs - n"
    by arith
  then show ?thesis by (simp add: last_n_def drop_append min_def)
qed

lemma set_last_n: "set (last_n n xs) \<subseteq> set xs"
  by (simp add: last_n_def set_drop_subset)

subsection \<open>Arithmetic mean\<close>

definition mean :: "real list \<Rightarrow> real" where
  "mean xs = sum_list xs / real (length xs)"

declare mean_def [model_defs]

lemma sum_list_le_const:
  "(\<And>x. x \<in> set xs \<Longrightarrow> x \<le> c) \<Longrightarrow> sum_list xs \<le> real (length xs) * c"
  by (induction xs) (auto simp: algebra_simps intro: add_mono)

lemma sum_list_ge_const:
  "(\<And>x. x \<in> set xs \<Longrightarrow> c \<le> x) \<Longrightarrow> real (length xs) * c \<le> sum_list xs"
  by (induction xs) (auto simp: algebra_simps intro: add_mono)

lemma mean_le_bound:
  assumes "xs \<noteq> []" "\<And>x. x \<in> set xs \<Longrightarrow> x \<le> c"
  shows "mean xs \<le> c"
proof -
  have "sum_list xs \<le> real (length xs) * c" using assms(2) by (rule sum_list_le_const)
  moreover have "0 < real (length xs)" using assms(1) by simp
  ultimately show ?thesis by (simp add: mean_def divide_le_eq mult.commute)
qed

lemma mean_ge_bound:
  assumes "xs \<noteq> []" "\<And>x. x \<in> set xs \<Longrightarrow> c \<le> x"
  shows "c \<le> mean xs"
proof -
  have "real (length xs) * c \<le> sum_list xs" using assms(2) by (rule sum_list_ge_const)
  moreover have "0 < real (length xs)" using assms(1) by simp
  ultimately show ?thesis by (simp add: mean_def le_divide_eq mult.commute)
qed

subsection \<open>Python dictionaries\<close>

text \<open>A dictionary as an association list in insertion order. \<open>d[k] = v\<close> replaces
  the value of an existing key in place and appends a new key at the end;
  \<open>del d[k]\<close> removes the key.\<close>

fun dict_set :: "'k \<Rightarrow> 'v \<Rightarrow> ('k \<times> 'v) list \<Rightarrow> ('k \<times> 'v) list" where
  "dict_set k v [] = [(k, v)]"
| "dict_set k v ((k', v') # xs) = (if k = k' then (k, v) # xs else (k', v') # dict_set k v xs)"

definition dict_del :: "'k \<Rightarrow> ('k \<times> 'v) list \<Rightarrow> ('k \<times> 'v) list" where
  "dict_del k xs = filter (\<lambda>(k', _). k' \<noteq> k) xs"

lemma map_of_dict_set [simp]: "map_of (dict_set k v xs) = (map_of xs)(k \<mapsto> v)"
  by (induction xs) (auto simp: fun_eq_iff)

lemma keys_dict_set [simp]: "fst ` set (dict_set k v xs) = insert k (fst ` set xs)"
proof (induction xs)
  case Nil
  then show ?case by simp
next
  case (Cons kv xs)
  then show ?case by (cases kv) (auto simp: insert_commute)
qed

lemma distinct_dict_set [simp]: "distinct (map fst xs) \<Longrightarrow> distinct (map fst (dict_set k v xs))"
  by (induction xs) (auto simp: image_iff)

lemma dict_set_absent: "k \<notin> fst ` set xs \<Longrightarrow> dict_set k v xs = xs @ [(k, v)]"
  by (induction xs) auto

lemma keys_dict_del [simp]: "fst ` set (dict_del k xs) = fst ` set xs - {k}"
  by (auto simp: dict_del_def image_iff)

lemma distinct_dict_del [simp]: "distinct (map fst xs) \<Longrightarrow> distinct (map fst (dict_del k xs))"
  by (induction xs) (auto simp: dict_del_def image_iff)

lemma dict_del_absent: "k \<notin> fst ` set xs \<Longrightarrow> dict_del k xs = xs"
  by (induction xs) (auto simp: dict_del_def)

lemma dict_del_append_new: "k \<notin> fst ` set xs \<Longrightarrow> dict_del k (xs @ [(k, v)]) = xs"
  using dict_del_absent [of k xs] by (simp add: dict_del_def)

lemma dict_set_map_values:
  "map (\<lambda>(a, b). (a, f b)) (dict_set k v xs) = dict_set k (f v) (map (\<lambda>(a, b). (a, f b)) xs)"
  by (induction xs) auto

lemma set_dict_set_subset: "set (dict_set k v xs) \<subseteq> insert (k, v) (set xs)"
  by (induction xs) (auto split: if_splits)

end
