(* ===== verification/Registry.thy ===== *)
theory Registry
  imports Prelude
begin

text \<open>
  The indicator registry of \<open>src/FuturesQuant/core/indicator/manager.py\<close>
  (class \<open>IndicatorManager\<close>): a dictionary from indicator names to indicator
  instances, and \<open>calculate\<close>, which looks a name up and forwards the call. An
  indicator instance keeps private state that its \<open>calculate\<close> mutates in place, so
  the interface an indicator offers the registry is a calculation step
  \<open>'i \<Rightarrow> 'd \<Rightarrow> 'i \<times> (py_error + 'r)\<close>: the instance after the call (mutated even when
  the call raises, as Python objects are) and the result or the exception. The
  registry's lemmas hold for every indicator type and step.
\<close>

type_synonym 'i registry = "string \<rightharpoonup> 'i"

type_synonym ('i, 'd, 'r) calc_step = "'i \<Rightarrow> 'd \<Rightarrow> 'i \<times> (py_error + 'r)"

text \<open>\<open>get_indicator\<close>: \<open>self.indicators.get(name)\<close>, \<open>None\<close> when absent.\<close>

definition get_indicator :: "'i registry \<Rightarrow> string \<Rightarrow> 'i option" where
  "get_indicator m name = m name"

text \<open>\<open>calculate\<close>: an instance found is always truthy, so the test \<open>if indicator\<close> is
  the test for \<open>None\<close>; otherwise \<open>ValueError\<close>. The instance's new state is written
  back under its name.\<close>

definition not_found_msg :: "string \<Rightarrow> string" where
  "not_found_msg name = ''Indicator '' @ name @ '' not found''"

definition manager_calculate ::
  "('i, 'd, 'r) calc_step \<Rightarrow> 'i registry \<Rightarrow> string \<Rightarrow> 'd \<Rightarrow> 'i registry \<times> (py_error + 'r)" where
  "manager_calculate calc m name d =
     (case get_indicator m name of
        None \<Rightarrow> (m, Inl (ValueError (not_found_msg name)))
      | Some ind \<Rightarrow> (case calc ind d of (ind', r) \<Rightarrow> (m(name \<mapsto> ind'), r)))"

declare get_indicator_def [model_defs] manager_calculate_def [model_defs]

lemma manager_calculate_absent [simp]:
  "m name = None \<Longrightarrow> manager_calculate calc m name d = (m, Inl (ValueError (not_found_msg name)))"
  by (simp add: manager_calculate_def get_indicator_def)

lemma manager_calculate_present [simp]:
  "m name = Some ind \<Longrightarrow>
   manager_calculate calc m name d = (m(name \<mapsto> fst (calc ind d)), snd (calc ind d))"
  by (simp add: manager_calculate_def get_indicator_def split: prod.split)

text \<open>The registry never gains or loses a name through \<open>calculate\<close>.\<close>

lemma manager_calculate_dom: "dom (fst (manager_calculate calc m name d)) = dom m"
  by (cases "m name") (auto simp: manager_calculate_def get_indicator_def split: prod.split)

lemma manager_calculate_other:
  "n \<noteq> name \<Longrightarrow> fst (manager_calculate calc m name d) n = m n"
  by (cases "m name") (auto simp: manager_calculate_def get_indicator_def split: prod.split)

end
