(* ===== verification/Aggregator.thy ===== *)
theory Aggregator
  imports Registry
begin

text \<open>
  \<open>SignalAggregator\<close> of \<open>src/FuturesQuant/tournament/signal/SignalAggregator.py\<close>:
  \<open>aggregate_signals\<close> runs the registry's \<open>calculate\<close> for each agent signal in
  order and stops at the first exception; \<open>summarize_signals\<close> counts the actions
  \<open>BUY\<close>, \<open>SELL\<close> and \<open>HOLD\<close>. An agent signal and an aggregated signal are the
  dictionaries of the source, with their keys as record fields; an aggregated
  signal's \<open>action\<close> is optional because \<open>summarize_signals\<close> reads it with
  \<open>get("action", "HOLD")\<close>.
\<close>

record 'd agent_signal =
  agent :: string
  action :: string
  indicator :: string
  data :: 'd

record 'r aggregated_signal =
  agg_agent :: string
  agg_action :: "string option"
  indicator_signal :: 'r

definition make_aggregated :: "'d agent_signal \<Rightarrow> 'r \<Rightarrow> 'r aggregated_signal" where
  "make_aggregated s r = \<lparr>agg_agent = agent s, agg_action = Some (action s), indicator_signal = r\<rparr>"

text \<open>The loop of \<open>aggregate_signals\<close>, with the list built so far as accumulator.
  An exception leaves the loop at once; the registry keeps what the calls made so far
  did to their instances.\<close>

fun aggregate_loop ::
  "('i, 'd, 'r) calc_step \<Rightarrow> 'i registry \<Rightarrow> 'd agent_signal list \<Rightarrow> 'r aggregated_signal list
   \<Rightarrow> 'i registry \<times> (py_error + 'r aggregated_signal list)" where
  "aggregate_loop calc m [] acc = (m, Inr acc)"
| "aggregate_loop calc m (s # ss) acc =
     (case manager_calculate calc m (indicator s) (data s) of
        (m', Inl e) \<Rightarrow> (m', Inl e)
      | (m', Inr r) \<Rightarrow> aggregate_loop calc m' ss (acc @ [make_aggregated s r]))"

definition aggregate_signals ::
  "('i, 'd, 'r) calc_step \<Rightarrow> 'i registry \<Rightarrow> 'd agent_signal list
   \<Rightarrow> 'i registry \<times> (py_error + 'r aggregated_signal list)" where
  "aggregate_signals calc m sigs = aggregate_loop calc m sigs []"

subsection \<open>Sentiment summary\<close>

record summary =
  buy_count :: nat
  sell_count :: nat
  hold_count :: nat

definition empty_summary :: summary where
  "empty_summary = \<lparr>buy_count = 0, sell_count = 0, hold_count = 0\<rparr>"

text \<open>One iteration: \<open>if action in summary: summary[action] += 1\<close>.\<close>

definition summary_bump :: "summary \<Rightarrow> string \<Rightarrow> summary" where
  "summary_bump s a =
     (if a = ''BUY'' then s\<lparr>buy_count := Suc (buy_count s)\<rparr>
      else if a = ''SELL'' then s\<lparr>sell_count := Suc (sell_count s)\<rparr>
      else if a = ''HOLD'' then s\<lparr>hold_count := Suc (hold_count s)\<rparr>
      else s)"

definition action_or_hold :: "'r aggregated_signal \<Rightarrow> string" where
  "action_or_hold g = (case agg_action g of None \<Rightarrow> ''HOLD'' | Some a \<Rightarrow> a)"

definition summarize_signals :: "'r aggregated_signal list \<Rightarrow> summary" where
  "summarize_signals gs = foldl (\<lambda>s g. summary_bump s (action_or_hold g)) empty_summary gs"

declare make_aggregated_def [model_defs] aggregate_signals_def [model_defs]
  empty_summary_def [model_defs] summary_bump_def [model_defs] action_or_hold_def [model_defs]
  summarize_signals_def [model_defs]

subsection \<open>The abstract contract of the summary\<close>

text \<open>What the summary promises: each bucket is the number of signals whose action is
  that label.\<close>

definition summary_spec :: "string list \<Rightarrow> summary" where
  "summary_spec acts =
     \<lparr>buy_count = count_list acts ''BUY'', sell_count = count_list acts ''SELL'',
      hold_count = count_list acts ''HOLD''\<rparr>"

lemma summary_bump_spec:
  "summary_bump (summary_spec acts) a = summary_spec (acts @ [a])"
  by (simp add: summary_bump_def summary_spec_def)

lemma foldl_summary_bump_spec:
  "foldl (\<lambda>s g. summary_bump s (action_or_hold g)) (summary_spec acts) gs
   = summary_spec (acts @ map action_or_hold gs)"
  by (induction gs arbitrary: acts) (simp_all add: summary_bump_spec)

lemma empty_summary_spec: "empty_summary = summary_spec []"
  by (simp add: empty_summary_def summary_spec_def)

subsection \<open>The loop of \<open>aggregate_signals\<close>\<close>

lemma aggregate_loop_Inr:
  "aggregate_loop calc m ss acc = (m', Inr out) \<Longrightarrow>
   \<exists>rs. length rs = length ss \<and> out = acc @ map2 make_aggregated ss rs"
proof (induction ss arbitrary: m acc)
  case Nil
  then show ?case by simp
next
  case (Cons s ss)
  obtain m1 r where step: "manager_calculate calc m (indicator s) (data s) = (m1, r)"
    by fastforce
  show ?case
  proof (cases r)
    case (Inl e)
    with Cons.prems step show ?thesis by simp
  next
    case (Inr v)
    with Cons.prems step have "aggregate_loop calc m1 ss (acc @ [make_aggregated s v]) = (m', Inr out)"
      by simp
    then obtain rs where "length rs = length ss" "out = (acc @ [make_aggregated s v]) @ map2 make_aggregated ss rs"
      using Cons.IH by blast
    then show ?thesis by (intro exI [of _ "v # rs"]) simp
  qed
qed

lemma aggregate_loop_all_found:
  "snd (aggregate_loop calc m ss acc) = Inr out \<Longrightarrow> \<forall>s \<in> set ss. indicator s \<in> dom m"
proof (induction ss arbitrary: m acc)
  case Nil
  then show ?case by simp
next
  case (Cons s ss)
  obtain m1 r where step: "manager_calculate calc m (indicator s) (data s) = (m1, r)"
    by fastforce
  show ?case
  proof (cases "m (indicator s)")
    case None
    with Cons.prems step show ?thesis by auto
  next
    case (Some ind)
    show ?thesis
    proof (cases r)
      case (Inl e)
      with Cons.prems step show ?thesis by simp
    next
      case (Inr v)
      with Cons.prems step have "snd (aggregate_loop calc m1 ss (acc @ [make_aggregated s v])) = Inr out"
        by simp
      then have "\<forall>s \<in> set ss. indicator s \<in> dom m1" by (rule Cons.IH)
      moreover have "dom m1 = dom m"
        using manager_calculate_dom [of calc m "indicator s" "data s"] step by simp
      ultimately show ?thesis using Some by auto
    qed
  qed
qed

lemma aggregate_loop_dom: "dom (fst (aggregate_loop calc m ss acc)) = dom m"
proof (induction ss arbitrary: m acc)
  case Nil
  then show ?case by simp
next
  case (Cons s ss)
  obtain m1 r where step: "manager_calculate calc m (indicator s) (data s) = (m1, r)"
    by fastforce
  have "dom m1 = dom m" using manager_calculate_dom [of calc m "indicator s" "data s"] step by simp
  with Cons.IH step show ?case by (cases r) simp_all
qed

lemma aggregate_loop_Inl:
  "m (indicator s) = None \<Longrightarrow> s \<in> set ss \<Longrightarrow> \<exists>e. snd (aggregate_loop calc m ss acc) = Inl e"
  using aggregate_loop_all_found [of calc m ss acc] by (cases "snd (aggregate_loop calc m ss acc)") auto

lemma aggregate_loop_append:
  "aggregate_loop calc m (xs @ ys) acc
   = (case aggregate_loop calc m xs acc of
        (m', Inl e) \<Rightarrow> (m', Inl e)
      | (m', Inr acc') \<Rightarrow> aggregate_loop calc m' ys acc')"
  by (induction xs arbitrary: m acc) (simp_all split: prod.split sum.split)

lemma map2_make_aggregated:
  "length ss = length rs \<Longrightarrow>
   map agg_agent (map2 make_aggregated ss rs) = map agent ss
   \<and> map agg_action (map2 make_aggregated ss rs) = map (\<lambda>s. Some (action s)) ss"
  by (induction ss rs rule: list_induct2) (simp_all add: make_aggregated_def)

subsection \<open>Properties of the aggregator\<close>

text \<open>C1: A batch that succeeds returns one aggregated signal per input signal, in input
  order, each carrying the submitting agent and its action.\<close>

theorem aggregate_signals_order:
  assumes "snd (aggregate_signals calc m sigs) = Inr out"
  shows "length out = length sigs \<and> map agg_agent out = map agent sigs
         \<and> map agg_action out = map (\<lambda>s. Some (action s)) sigs"
proof -
  from assms obtain m' where "aggregate_loop calc m sigs [] = (m', Inr out)"
    by (cases "aggregate_loop calc m sigs []") (simp add: aggregate_signals_def)
  then obtain rs where "length rs = length sigs" "out = map2 make_aggregated sigs rs"
    using aggregate_loop_Inr by fastforce
  then show ?thesis using map2_make_aggregated [of sigs rs] by simp
qed

theorem aggregate_signals_order_witness:
  "snd (aggregate_signals (\<lambda>(i::nat) (d::nat). (Suc i, Inr (d + i))) [''MLMI'' \<mapsto> 0]
     [\<lparr>agent = ''A'', action = ''BUY'', indicator = ''MLMI'', data = 5\<rparr>])
     = Inr [\<lparr>agg_agent = ''A'', agg_action = Some ''BUY'', indicator_signal = 5\<rparr>]
   \<and> length [\<lparr>agg_agent = ''A'', agg_action = Some ''BUY'', indicator_signal = (5::nat)\<rparr>] = 1"
proof -
  have h: "snd (aggregate_signals (\<lambda>(i::nat) (d::nat). (Suc i, Inr (d + i))) [''MLMI'' \<mapsto> 0]
     [\<lparr>agent = ''A'', action = ''BUY'', indicator = ''MLMI'', data = 5\<rparr>])
     = Inr [\<lparr>agg_agent = ''A'', agg_action = Some ''BUY'', indicator_signal = 5\<rparr>]"
    by (simp add: aggregate_signals_def make_aggregated_def)
  show ?thesis using h aggregate_signals_order [OF h] by simp
qed

text \<open>C2: Fail-fast. When any signal of the batch names an indicator the registry does
  not hold, the call raises and returns no list, partial or whole.\<close>

theorem aggregate_signals_unregistered_fails:
  assumes "s \<in> set sigs" and "m (indicator s) = None"
  shows "\<exists>e. snd (aggregate_signals calc m sigs) = Inl e"
  using aggregate_loop_Inl [where m = m and s = s and ss = sigs, OF assms(2,1)]
  by (simp add: aggregate_signals_def)

theorem aggregate_signals_unregistered_fails_witness:
  "\<lparr>agent = ''B'', action = ''SELL'', indicator = ''Nope'', data = 2::nat\<rparr>
     \<in> set [\<lparr>agent = ''A'', action = ''BUY'', indicator = ''MLMI'', data = 1\<rparr>,
            \<lparr>agent = ''B'', action = ''SELL'', indicator = ''Nope'', data = 2\<rparr>]
   \<and> [''MLMI'' \<mapsto> (0::nat)] ''Nope'' = None
   \<and> (\<exists>e. snd (aggregate_signals (\<lambda>i d. (Suc i, Inr (d + i))) [''MLMI'' \<mapsto> (0::nat)]
            [\<lparr>agent = ''A'', action = ''BUY'', indicator = ''MLMI'', data = 1\<rparr>,
             \<lparr>agent = ''B'', action = ''SELL'', indicator = ''Nope'', data = 2\<rparr>])
          = (Inl e :: py_error + nat aggregated_signal list))"
  using aggregate_signals_unregistered_fails
    [of "\<lparr>agent = ''B'', action = ''SELL'', indicator = ''Nope'', data = 2::nat\<rparr>"
        "[\<lparr>agent = ''A'', action = ''BUY'', indicator = ''MLMI'', data = 1\<rparr>,
          \<lparr>agent = ''B'', action = ''SELL'', indicator = ''Nope'', data = 2\<rparr>]"
        "[''MLMI'' \<mapsto> (0::nat)]" "\<lambda>i d. (Suc i, Inr (d + i))"]
  by simp

text \<open>C17: \<open>summarize_signals\<close> implements its contract: each bucket counts the
  signals whose action (\<open>HOLD\<close> when the key is missing) is that label, and every other
  action is dropped; the three counts add up to the number of recognised actions.\<close>

theorem summarize_signals_spec:
  "summarize_signals gs = summary_spec (map action_or_hold gs)
   \<and> buy_count (summarize_signals gs) + sell_count (summarize_signals gs) + hold_count (summarize_signals gs)
     = length (filter (\<lambda>a. a \<in> {''BUY'', ''SELL'', ''HOLD''}) (map action_or_hold gs))"
proof -
  have eq: "summarize_signals gs = summary_spec (map action_or_hold gs)"
    using foldl_summary_bump_spec [of "[]" gs] by (simp add: summarize_signals_def empty_summary_spec)
  have "count_list as ''BUY'' + count_list as ''SELL'' + count_list as ''HOLD''
        = length (filter (\<lambda>a. a \<in> {''BUY'', ''SELL'', ''HOLD''}) as)" for as :: "string list"
    by (induction as) auto
  then show ?thesis using eq by (simp add: summary_spec_def)
qed

text \<open>The spec's example: three \<open>BUY\<close>, two \<open>SELL\<close>, one \<open>HOLD\<close> and one
  \<open>WAIT\<close> give the counts 3, 2 and 1.\<close>

theorem summarize_signals_example:
  "summarize_signals
     (map (\<lambda>a. \<lparr>agg_agent = ''agent'', agg_action = Some a, indicator_signal = ()\<rparr>)
        [''BUY'', ''SELL'', ''BUY'', ''HOLD'', ''WAIT'', ''SELL'', ''BUY''])
   = \<lparr>buy_count = 3, sell_count = 2, hold_count = 1\<rparr>"
  by (simp add: summarize_signals_def empty_summary_def summary_bump_def action_or_hold_def)

text \<open>C19: The batch is not atomic for the indicators: when a signal names an
  unregistered indicator after signals whose calculations all succeeded, the call raises
  \<open>ValueError\<close> for that name and returns no list, but the registry keeps every
  state the earlier calculations left in their indicators (the registry after running
  the earlier signals alone), whatever follows in the batch.\<close>

theorem aggregate_signals_not_atomic:
  assumes "snd (aggregate_signals calc m pre) = Inr out" and "m (indicator s) = None"
  shows "aggregate_signals calc m (pre @ s # post)
         = (fst (aggregate_signals calc m pre), Inl (ValueError (not_found_msg (indicator s))))"
proof -
  obtain m' where pre: "aggregate_loop calc m pre [] = (m', Inr out)"
    using assms(1) by (cases "aggregate_loop calc m pre []") (simp add: aggregate_signals_def)
  have "dom m' = dom m" using aggregate_loop_dom [of calc m pre "[]"] pre by simp
  then have "m' (indicator s) = None" using assms(2) by blast
  then show ?thesis using pre by (simp add: aggregate_signals_def aggregate_loop_append)
qed

theorem aggregate_signals_not_atomic_witness:
  "snd (aggregate_signals (\<lambda>(i::nat) (d::nat). (Suc i, Inr (d + i))) [''MLMI'' \<mapsto> 0]
     [\<lparr>agent = ''A'', action = ''BUY'', indicator = ''MLMI'', data = 1\<rparr>])
     = Inr [\<lparr>agg_agent = ''A'', agg_action = Some ''BUY'', indicator_signal = 1\<rparr>]
   \<and> [''MLMI'' \<mapsto> (0::nat)] ''Nope'' = None
   \<and> aggregate_signals (\<lambda>(i::nat) (d::nat). (Suc i, Inr (d + i))) [''MLMI'' \<mapsto> 0]
       [\<lparr>agent = ''A'', action = ''BUY'', indicator = ''MLMI'', data = 1\<rparr>,
        \<lparr>agent = ''B'', action = ''SELL'', indicator = ''Nope'', data = 2\<rparr>,
        \<lparr>agent = ''C'', action = ''HOLD'', indicator = ''MLMI'', data = 3\<rparr>]
     = ([''MLMI'' \<mapsto> 1], Inl (ValueError (not_found_msg ''Nope'')))"
proof -
  have h: "snd (aggregate_signals (\<lambda>(i::nat) (d::nat). (Suc i, Inr (d + i))) [''MLMI'' \<mapsto> 0]
     [\<lparr>agent = ''A'', action = ''BUY'', indicator = ''MLMI'', data = 1\<rparr>])
     = Inr [\<lparr>agg_agent = ''A'', agg_action = Some ''BUY'', indicator_signal = 1\<rparr>]"
    by (simp add: aggregate_signals_def make_aggregated_def)
  have n: "[''MLMI'' \<mapsto> (0::nat)] (indicator \<lparr>agent = ''B'', action = ''SELL'', indicator = ''Nope'', data = 2::nat\<rparr>) = None"
    by simp
  show ?thesis
    using h aggregate_signals_not_atomic [OF h n, of "[\<lparr>agent = ''C'', action = ''HOLD'', indicator = ''MLMI'', data = 3\<rparr>]"]
    by (simp add: aggregate_signals_def)
qed

end
