(* ===== verification/Rolling_Buffer.thy ===== *)
theory Rolling_Buffer
  imports Prelude
begin

text \<open>
  The bounded FIFO history of the indicators (the spec's RollingBuffer), as
  \<open>CrossCorrelationPair.calculate\<close> keeps it in
  \<open>src/FuturesQuant/core/indicator/cross_correlation_pair.py\<close>: append the new value,
  then, when the list is longer than the capacity, \<open>pop(0)\<close> once. Its abstract
  contract is \<open>last_n\<close>: the buffer is the last \<open>cap\<close> values ever pushed.
\<close>

definition fifo_push :: "nat \<Rightarrow> 'a list \<Rightarrow> 'a \<Rightarrow> 'a list" where
  "fifo_push cap h x = (let h' = h @ [x] in if cap < length h' then tl h' else h')"

declare fifo_push_def [model_defs]

lemma length_fifo_push:
  "length (fifo_push cap h x) = (if cap < Suc (length h) then length h else Suc (length h))"
  by (simp add: fifo_push_def Let_def)

text \<open>A single \<open>pop(0)\<close> is enough to keep the capacity only when the buffer was
  within it before the push.\<close>

lemma fifo_push_bounded: "length h \<le> cap \<Longrightarrow> length (fifo_push cap h x) \<le> cap"
  by (simp add: length_fifo_push)

lemma fifo_push_last_n:
  assumes "length h \<le> cap"
  shows "fifo_push cap h x = last_n cap (h @ [x])"
proof (cases "cap < Suc (length h)")
  case True
  then have "cap = length h" using assms by simp
  then show ?thesis using last_n_snoc_full [of cap h x] by (simp add: fifo_push_def)
next
  case False
  then show ?thesis by (simp add: fifo_push_def)
qed

lemma fifo_run_last_n:
  "length h \<le> cap \<Longrightarrow> foldl (fifo_push cap) h xs = last_n cap (h @ xs)"
proof (induction xs arbitrary: h)
  case Nil
  then show ?case by simp
next
  case (Cons x xs)
  have "foldl (fifo_push cap) h (x # xs) = foldl (fifo_push cap) (last_n cap (h @ [x])) xs"
    using fifo_push_last_n [OF Cons.prems] by simp
  also have "\<dots> = last_n cap (last_n cap (h @ [x]) @ xs)"
    by (rule Cons.IH) simp
  also have "\<dots> = last_n cap (h @ x # xs)"
    by (simp add: last_n_last_n_append)
  finally show ?case .
qed

end
