(* ===== verification/Pandas.thy ===== *)
theory Pandas
  imports Prelude
begin

text \<open>
  The pandas/numpy operations the indicators call, on a float64 series modelled as a
  list of \<open>flt\<close> (NaN is \<open>None\<close>): \<open>rolling(window=p)\<close> with its default
  \<open>min_periods = p\<close> (a window with fewer than \<open>p\<close> values or any NaN gives NaN),
  \<open>pct_change\<close>, and the Pearson correlation that \<open>rolling(...).corr(...)\<close> computes
  on each window. Division by zero in \<open>pct_change\<close> gives an infinite or NaN return
  in numpy; both make every correlation over that window NaN, so the model writes NaN.
  The section ends with the Cauchy-Schwarz inequality on lists and the bound
  \<open>|corr| \<le> 1\<close> it gives.
\<close>

type_synonym series = "flt list"

text \<open>A data frame is its list of named columns, all of one length; \<open>len(df)\<close> is that
  length and \<open>df[name]\<close> raises \<open>KeyError\<close> for a missing column.\<close>

type_synonym frame = "(string \<times> real list) list"

definition frame_len :: "frame \<Rightarrow> nat" where
  "frame_len df = (case df of [] \<Rightarrow> 0 | (_, c) # _ \<Rightarrow> length c)"

definition frame_col :: "frame \<Rightarrow> string \<Rightarrow> py_error + real list" where
  "frame_col df name = (case map_of df name of None \<Rightarrow> Inl (KeyError name) | Some c \<Rightarrow> Inr c)"

definition wf_frame :: "frame \<Rightarrow> bool" where
  "wf_frame df = (\<forall>c \<in> snd ` set df. length c = frame_len df)"

declare frame_len_def [model_defs] frame_col_def [model_defs]

lemma frame_col_length:
  assumes "wf_frame df" and "frame_col df name = Inr c"
  shows "length c = frame_len df"
proof -
  from assms(2) have "map_of df name = Some c" by (simp add: frame_col_def split: option.splits)
  then have "(name, c) \<in> set df" by (rule map_of_SomeD)
  then show ?thesis using assms(1) by (force simp: wf_frame_def)
qed

definition lift_series :: "real list \<Rightarrow> series" where
  "lift_series xs = map Some xs"

text \<open>The window of a rolling computation of size \<open>p\<close> that ends at position \<open>i\<close>.\<close>

definition window_at :: "nat \<Rightarrow> 'a list \<Rightarrow> nat \<Rightarrow> 'a list" where
  "window_at p xs i = take p (drop (Suc i - p) xs)"

definition rolling_apply :: "nat \<Rightarrow> (real list \<Rightarrow> flt) \<Rightarrow> series \<Rightarrow> series" where
  "rolling_apply p f xs =
     map (\<lambda>i. if Suc i < p then None
              else (case those (window_at p xs i) of None \<Rightarrow> None | Some w \<Rightarrow> f w))
         [0..<length xs]"

declare lift_series_def [model_defs] window_at_def [model_defs] rolling_apply_def [model_defs]

lemma length_rolling_apply [simp]: "length (rolling_apply p f xs) = length xs"
  by (simp add: rolling_apply_def)

lemma length_window_at: "i < length xs \<Longrightarrow> p \<le> Suc i \<Longrightarrow> length (window_at p xs i) = p"
  by (simp add: window_at_def)

lemma those_Some_iff: "those xs = Some ys \<longleftrightarrow> xs = map Some ys"
proof (induction xs arbitrary: ys)
  case Nil
  then show ?case by auto
next
  case (Cons x xs)
  then show ?case by (cases x) (auto split: option.splits)
qed

lemma those_lift [simp]: "those (map Some ys) = Some ys"
  by (simp add: those_Some_iff)

lemma those_None_iff: "those xs = None \<longleftrightarrow> None \<in> set xs"
proof (induction xs)
  case Nil
  then show ?case by simp
next
  case (Cons x xs)
  then show ?case by (cases x) (auto split: option.splits)
qed

lemma nth_rolling_apply:
  "i < length xs \<Longrightarrow> rolling_apply p f xs ! i =
     (if Suc i < p then None
      else (case those (window_at p xs i) of None \<Rightarrow> None | Some w \<Rightarrow> f w))"
  by (simp add: rolling_apply_def)

text \<open>Every defined value of a rolling computation is a value of \<open>f\<close> on a window
  without NaN.\<close>

lemma rolling_apply_Some:
  assumes "rolling_apply p f xs ! i = Some v" and "i < length xs"
  shows "\<exists>w. those (window_at p xs i) = Some w \<and> f w = Some v"
  using assms by (auto simp: nth_rolling_apply split: if_splits option.splits)

subsection \<open>Returns\<close>

text \<open>\<open>pct_change\<close>: \<open>x[i] / x[i-1] - 1\<close>, NaN first.\<close>

definition pct_step :: "real \<Rightarrow> real \<Rightarrow> flt" where
  "pct_step prev cur = (if prev = 0 then None else Some (cur / prev - 1))"

definition pct_change :: "real list \<Rightarrow> series" where
  "pct_change xs = (case xs of [] \<Rightarrow> [] | _ # rest \<Rightarrow> None # map2 pct_step xs rest)"

declare pct_step_def [model_defs] pct_change_def [model_defs]

lemma length_pct_change [simp]: "length (pct_change xs) = length xs"
  by (cases xs) (simp_all add: pct_change_def)

lemma pct_change_hd: "xs \<noteq> [] \<Longrightarrow> hd (pct_change xs) = None"
  by (cases xs) (simp_all add: pct_change_def)

subsection \<open>Pearson correlation of one window\<close>

text \<open>pandas divides the sample covariance by the product of the sample standard
  deviations (both with \<open>ddof = 1\<close>); the factors \<open>n - 1\<close> cancel, leaving the
  centred sums below. A zero variance makes the quotient \<open>0/0\<close>: NaN.\<close>

definition centred :: "real list \<Rightarrow> real list" where
  "centred xs = map (\<lambda>x. x - mean xs) xs"

definition sum_sq :: "real list \<Rightarrow> real" where
  "sum_sq xs = sum_list (map (\<lambda>x. x\<^sup>2) xs)"

definition sum_prod :: "real list \<Rightarrow> real list \<Rightarrow> real" where
  "sum_prod xs ys = sum_list (map2 (*) xs ys)"

definition corr_window :: "real list \<Rightarrow> real list \<Rightarrow> flt" where
  "corr_window xs ys =
     (let a = centred xs; b = centred ys
      in if sum_sq a * sum_sq b = 0 then None
         else Some (sum_prod a b / sqrt (sum_sq a * sum_sq b)))"

definition rolling_corr :: "nat \<Rightarrow> series \<Rightarrow> series \<Rightarrow> series" where
  "rolling_corr p xs ys =
     map (\<lambda>i. if Suc i < p then None
              else (case (those (window_at p xs i), those (window_at p ys i)) of
                      (Some w1, Some w2) \<Rightarrow> corr_window w1 w2
                    | _ \<Rightarrow> None))
         [0..<length xs]"

declare centred_def [model_defs] sum_sq_def [model_defs] sum_prod_def [model_defs]
  corr_window_def [model_defs] rolling_corr_def [model_defs]

lemma length_rolling_corr [simp]: "length (rolling_corr p xs ys) = length xs"
  by (simp add: rolling_corr_def)

lemma sum_sq_nonneg: "0 \<le> sum_sq xs"
  by (induction xs) (simp_all add: sum_sq_def)

lemma sum_sq_Cons [simp]: "sum_sq (x # xs) = x\<^sup>2 + sum_sq xs"
  by (simp add: sum_sq_def)

lemma sum_sq_Nil [simp]: "sum_sq [] = 0"
  by (simp add: sum_sq_def)

lemma sum_prod_Cons [simp]: "sum_prod (x # xs) (y # ys) = x * y + sum_prod xs ys"
  by (simp add: sum_prod_def)

lemma sum_prod_Nil [simp]: "sum_prod [] ys = 0"
  by (simp add: sum_prod_def)

lemma sum_sq_zero_iff: "sum_sq xs = 0 \<longleftrightarrow> (\<forall>x \<in> set xs. x = 0)"
proof (induction xs)
  case Nil
  then show ?case by simp
next
  case (Cons x xs)
  have "0 \<le> x\<^sup>2" "0 \<le> sum_sq xs" by (simp_all add: sum_sq_nonneg)
  with Cons.IH show ?case by (auto simp: add_nonneg_eq_0_iff)
qed

text \<open>The weighted sum of squares that the Cauchy-Schwarz proof expands.\<close>

lemma sum_sq_combination:
  "length xs = length ys \<Longrightarrow>
   sum_sq (map2 (\<lambda>a b. a * B - b * C) xs ys)
   = B\<^sup>2 * sum_sq xs - 2 * B * C * sum_prod xs ys + C\<^sup>2 * sum_sq ys"
  by (induction xs ys rule: list_induct2) (simp_all add: power2_eq_square algebra_simps)

lemma sum_prod_zero_right:
  "length xs = length ys \<Longrightarrow> \<forall>y \<in> set ys. y = 0 \<Longrightarrow> sum_prod xs ys = 0"
  by (induction xs ys rule: list_induct2) simp_all

theorem cauchy_schwarz_list:
  assumes "length xs = length ys"
  shows "(sum_prod xs ys)\<^sup>2 \<le> sum_sq xs * sum_sq ys"
proof (cases "sum_sq ys = 0")
  case True
  then have "sum_prod xs ys = 0"
    using assms sum_prod_zero_right sum_sq_zero_iff by blast
  then show ?thesis using sum_sq_nonneg [of xs] sum_sq_nonneg [of ys] by simp
next
  case False
  define A B C where "A = sum_sq xs" and "B = sum_sq ys" and "C = sum_prod xs ys"
  have "0 < B" using False sum_sq_nonneg [of ys] by (simp add: B_def)
  have "0 \<le> sum_sq (map2 (\<lambda>a b. a * B - b * C) xs ys)" by (rule sum_sq_nonneg)
  also have "\<dots> = B * (A * B - C\<^sup>2)"
    using sum_sq_combination [OF assms, of B C]
    by (simp add: A_def B_def C_def power2_eq_square algebra_simps)
  finally have "0 \<le> A * B - C\<^sup>2"
    using \<open>0 < B\<close> by (simp add: zero_le_mult_iff)
  then show ?thesis by (simp add: A_def B_def C_def)
qed

lemma length_centred [simp]: "length (centred xs) = length xs"
  by (simp add: centred_def)

lemma abs_le_sqrt_of_sq_le: "a\<^sup>2 \<le> b \<Longrightarrow> \<bar>a\<bar> \<le> sqrt b"
  using real_sqrt_le_mono [of "a\<^sup>2" b] by simp

text \<open>Every correlation of two windows of equal length lies in \<open>[-1, 1]\<close>.\<close>

lemma corr_window_bound:
  assumes "length xs = length ys" and "corr_window xs ys = Some r"
  shows "\<bar>r\<bar> \<le> 1"
proof -
  define a b where "a = centred xs" and "b = centred ys"
  have len: "length a = length b" using assms(1) by (simp add: a_def b_def)
  have nz: "sum_sq a * sum_sq b \<noteq> 0" and r: "r = sum_prod a b / sqrt (sum_sq a * sum_sq b)"
    using assms(2) by (simp_all add: corr_window_def a_def b_def Let_def split: if_splits)
  have pos: "0 < sqrt (sum_sq a * sum_sq b)"
    using nz sum_sq_nonneg [of a] sum_sq_nonneg [of b] by (simp add: zero_less_mult_iff)
  have "\<bar>sum_prod a b\<bar> \<le> sqrt (sum_sq a * sum_sq b)"
    by (rule abs_le_sqrt_of_sq_le) (rule cauchy_schwarz_list [OF len])
  then show ?thesis using pos by (simp add: r abs_divide)
qed

lemma rolling_corr_bound:
  assumes "rolling_corr p xs ys ! i = Some r" and "i < length xs" and "length xs = length ys"
  shows "\<bar>r\<bar> \<le> 1"
proof -
  from assms(1,2) obtain w1 w2 where w1: "those (window_at p xs i) = Some w1"
    and w2: "those (window_at p ys i) = Some w2" and c: "corr_window w1 w2 = Some r"
    by (auto simp: rolling_corr_def split: if_splits option.splits)
  have "length w1 = length (window_at p xs i)" using w1 by (simp add: those_Some_iff)
  moreover have "length w2 = length (window_at p ys i)" using w2 by (simp add: those_Some_iff)
  ultimately have "length w1 = length w2" using assms(3) by (simp add: window_at_def)
  then show ?thesis using c by (rule corr_window_bound)
qed

lemma py_last_rolling_corr_bound:
  assumes "py_last (rolling_corr p xs ys) = Inr (Some r)" and "length xs = length ys"
  shows "\<bar>r\<bar> \<le> 1"
proof -
  from assms(1) have ne': "rolling_corr p xs ys \<noteq> []" and l: "last (rolling_corr p xs ys) = Some r"
    by (auto simp: py_last_eq split: if_splits)
  from ne' have ne: "xs \<noteq> []" by (metis length_0_conv length_rolling_corr)
  from ne' l have "rolling_corr p xs ys ! (length (rolling_corr p xs ys) - 1) = Some r"
    by (simp add: last_conv_nth)
  then have "rolling_corr p xs ys ! (length xs - 1) = Some r" by simp
  moreover have "length xs - 1 < length xs" using ne by simp
  ultimately show ?thesis using assms(2) by (rule rolling_corr_bound)
qed

subsection \<open>Differences, masks, rolling mean and deviation, exponential smoothing\<close>

text \<open>\<open>diff\<close>: NaN first, then the difference to the previous value (NaN if either is).\<close>

definition flt_sub :: "flt \<Rightarrow> flt \<Rightarrow> flt" where
  "flt_sub a b = (case (a, b) of (Some u, Some v) \<Rightarrow> Some (u - v) | _ \<Rightarrow> None)"

definition diff :: "series \<Rightarrow> series" where
  "diff xs = (case xs of [] \<Rightarrow> [] | _ # rest \<Rightarrow> None # map2 (\<lambda>prev cur. flt_sub cur prev) xs rest)"

text \<open>\<open>delta.where(delta > 0, 0)\<close> keeps a value where the test holds and puts 0
  elsewhere; the test is \<open>False\<close> on NaN, so NaN becomes 0. \<open>-delta.where(delta < 0, 0)\<close>
  likewise keeps the magnitude of the falls.\<close>

definition where_gain :: "series \<Rightarrow> series" where
  "where_gain xs = map (\<lambda>d. case d of Some v \<Rightarrow> Some (if 0 < v then v else 0) | None \<Rightarrow> Some 0) xs"

definition where_loss :: "series \<Rightarrow> series" where
  "where_loss xs = map (\<lambda>d. case d of Some v \<Rightarrow> Some (if v < 0 then - v else 0) | None \<Rightarrow> Some 0) xs"

definition window_mean :: "real list \<Rightarrow> flt" where
  "window_mean w = (if w = [] then None else Some (mean w))"

definition rolling_mean :: "nat \<Rightarrow> series \<Rightarrow> series" where
  "rolling_mean p xs = rolling_apply p window_mean xs"

text \<open>\<open>rolling(...).std()\<close>: the sample standard deviation, \<open>ddof = 1\<close>; NaN for a
  window of one value.\<close>

definition window_std :: "real list \<Rightarrow> flt" where
  "window_std w = (if length w < 2 then None
                   else Some (sqrt (sum_sq (centred w) / (real (length w) - 1))))"

definition rolling_std :: "nat \<Rightarrow> series \<Rightarrow> series" where
  "rolling_std p xs = rolling_apply p window_std xs"

text \<open>\<open>ewm(span=p, adjust=False).mean()\<close> on a series without NaN:
  \<open>y[0] = x[0]\<close>, \<open>y[t] = (1 - a) y[t-1] + a x[t]\<close> with \<open>a = 2 / (p + 1)\<close>.\<close>

definition ewm_alpha :: "nat \<Rightarrow> real" where
  "ewm_alpha p = 2 / (real p + 1)"

fun ewm_from :: "real \<Rightarrow> real \<Rightarrow> real list \<Rightarrow> real list" where
  "ewm_from a prev [] = []"
| "ewm_from a prev (x # xs) = (let y = (1 - a) * prev + a * x in y # ewm_from a y xs)"

definition ewm_mean :: "nat \<Rightarrow> real list \<Rightarrow> real list" where
  "ewm_mean p xs = (case xs of [] \<Rightarrow> [] | x # rest \<Rightarrow> x # ewm_from (ewm_alpha p) x rest)"

declare flt_sub_def [model_defs] diff_def [model_defs] where_gain_def [model_defs]
  where_loss_def [model_defs] window_mean_def [model_defs] rolling_mean_def [model_defs]
  window_std_def [model_defs] rolling_std_def [model_defs] ewm_alpha_def [model_defs]
  ewm_mean_def [model_defs]

lemma length_rolling_mean [simp]: "length (rolling_mean p xs) = length xs"
  and length_rolling_std [simp]: "length (rolling_std p xs) = length xs"
  by (simp_all add: rolling_mean_def rolling_std_def)

lemma length_diff [simp]: "length (diff xs) = length xs"
  by (cases xs) (simp_all add: diff_def)

lemma length_where_gain [simp]: "length (where_gain xs) = length xs"
  and length_where_loss [simp]: "length (where_loss xs) = length xs"
  by (simp_all add: where_gain_def where_loss_def)

lemma where_gain_nonneg: "v \<in> set (where_gain xs) \<Longrightarrow> \<exists>r. v = Some r \<and> 0 \<le> r"
  by (auto simp: where_gain_def split: option.splits)

lemma where_loss_nonneg: "v \<in> set (where_loss xs) \<Longrightarrow> \<exists>r. v = Some r \<and> 0 \<le> r"
  by (auto simp: where_loss_def split: option.splits)

lemma set_window_at: "set (window_at p xs i) \<subseteq> set xs"
  by (auto simp: window_at_def dest: in_set_takeD in_set_dropD)

text \<open>A rolling mean of a series without negative values has no negative value.\<close>

lemma rolling_mean_nonneg:
  assumes "\<And>v. v \<in> set xs \<Longrightarrow> \<exists>r. v = Some r \<and> 0 \<le> r"
    and "rolling_mean p xs ! i = Some m" and "i < length xs"
  shows "0 \<le> m"
proof -
  obtain w where w: "those (window_at p xs i) = Some w" and m: "window_mean w = Some m"
    using rolling_apply_Some [OF assms(2) [unfolded rolling_mean_def] assms(3)] by blast
  have "\<forall>x \<in> set w. 0 \<le> x"
  proof
    fix x assume "x \<in> set w"
    then have "Some x \<in> set (window_at p xs i)" using w by (auto simp: those_Some_iff)
    then have "Some x \<in> set xs" using set_window_at [of p xs i] by blast
    then show "0 \<le> x" using assms(1) by blast
  qed
  moreover have "w \<noteq> []" and "m = mean w" using m by (simp_all add: window_mean_def split: if_splits)
  ultimately show ?thesis using mean_ge_bound [of w 0] by simp
qed

text \<open>A window that covers the whole series takes in the leading NaN of
  \<open>pct_change\<close>; the correlation at the last row is then NaN.\<close>

lemma rolling_corr_full_window_nan:
  assumes "length xs = p" and "0 < p" and "None \<in> set xs"
  shows "py_last (rolling_corr p xs ys) = Inr None"
proof -
  have "window_at p xs (p - 1) = xs" using assms(1,2) by (simp add: window_at_def)
  then have w: "those (window_at p xs (p - Suc 0)) = None" using assms(3) by (simp add: those_None_iff)
  have "rolling_corr p xs ys ! (p - 1) = None"
    using assms(1,2) by (simp add: rolling_corr_def w)
  moreover have "rolling_corr p xs ys \<noteq> []" using assms(1,2) by (metis length_rolling_corr list.size(3) neq0_conv)
  ultimately show ?thesis using assms(1) by (simp add: py_last_eq last_conv_nth)
qed

lemma None_in_pct_change: "xs \<noteq> [] \<Longrightarrow> None \<in> set (pct_change xs)"
  by (cases xs) (simp_all add: pct_change_def)

lemma last_map2:
  "length xs = length ys \<Longrightarrow> xs \<noteq> [] \<Longrightarrow> last (map2 f xs ys) = f (last xs) (last ys)"
  by (induction xs ys rule: list_induct2) auto

end
