(* ===== verification/Cross_Correlation.thy ===== *)
theory Cross_Correlation
  imports Rolling_Buffer Pandas
begin

text \<open>
  The divergence detector \<open>CrossCorrelationPair\<close> of
  \<open>src/FuturesQuant/core/indicator/cross_correlation_pair.py\<close>. Its instance state is
  the record \<open>ccp_state\<close>: the three constructor parameters and the two histories.
  \<open>ccp_calculate\<close> is \<open>calculate\<close>: the early return on short data, the returns
  and their rolling correlation at the last row, the spread at the last row, the
  bounded push of both onto the histories (\<open>ccp_store\<close>), and the signal decision
  (\<open>ccp_signal\<close>) with the spread z-score against the history (\<open>spread_zscore\<close>).
\<close>

record ccp_state =
  lookback_period :: nat
  correlation_threshold :: real
  divergence_threshold :: real
  historical_correlation :: "flt list"
  historical_spread :: "real list"

definition ccp_init :: "nat \<Rightarrow> real \<Rightarrow> real \<Rightarrow> ccp_state" where
  "ccp_init lp ct dt =
     \<lparr>lookback_period = lp, correlation_threshold = ct, divergence_threshold = dt,
      historical_correlation = [], historical_spread = []\<rparr>"

text \<open>The dictionary \<open>calculate\<close> returns.\<close>

record ccp_result =
  correlation :: flt
  spread :: real
  signal :: "direction option"
  strength :: real

definition ccp_neutral :: ccp_result where
  "ccp_neutral = \<lparr>correlation = Some 0, spread = 0, signal = None, strength = 0\<rparr>"

text \<open>Both histories are appended to; the length of the correlation history alone
  decides the single \<open>pop(0)\<close> on both.\<close>

definition ccp_store :: "ccp_state \<Rightarrow> flt \<Rightarrow> real \<Rightarrow> ccp_state" where
  "ccp_store st c s =
     (let hc = historical_correlation st @ [c]; hs = historical_spread st @ [s]
      in if lookback_period st < length hc
         then st\<lparr>historical_correlation := tl hc, historical_spread := tl hs\<rparr>
         else st\<lparr>historical_correlation := hc, historical_spread := hs\<rparr>)"

text \<open>\<open>np.std\<close> has \<open>ddof = 0\<close>. On an empty history \<open>np.mean\<close> is NaN. A zero
  standard deviation means all history values are equal; the current spread is among
  them (it was pushed first), so the numerator is 0 too and the quotient is NaN.\<close>

definition np_std :: "real list \<Rightarrow> real" where
  "np_std xs = sqrt (mean (map (\<lambda>x. (x - mean xs)\<^sup>2) xs))"

definition spread_zscore :: "real list \<Rightarrow> real \<Rightarrow> flt" where
  "spread_zscore h s =
     (if h = [] then None
      else if np_std h = 0 then None
      else Some ((s - mean h) / np_std h))"

definition ccp_signal :: "ccp_state \<Rightarrow> flt \<Rightarrow> real \<Rightarrow> ccp_result" where
  "ccp_signal st c s =
     (let none = \<lparr>correlation = c, spread = s, signal = None, strength = 0\<rparr>
      in case c of
           None \<Rightarrow> none
         | Some cv \<Rightarrow>
             if correlation_threshold st \<le> \<bar>cv\<bar> then
               (case spread_zscore (historical_spread st) s of
                  None \<Rightarrow> none
                | Some z \<Rightarrow>
                    if divergence_threshold st \<le> \<bar>z\<bar> then
                      \<lparr>correlation = c, spread = s,
                       signal = Some (if 0 < z then SELL else BUY),
                       strength = min \<bar>cv\<bar> \<bar>z\<bar>\<rparr>
                    else none)
             else none)"

definition ccp_calculate :: "ccp_state \<Rightarrow> frame \<Rightarrow> ccp_state \<times> (py_error + ccp_result)" where
  "ccp_calculate st df =
     (if frame_len df < lookback_period st then (st, Inr ccp_neutral)
      else case frame_col df ''asset1'' of
        Inl e \<Rightarrow> (st, Inl e)
      | Inr a1 \<Rightarrow> (case frame_col df ''asset2'' of
        Inl e \<Rightarrow> (st, Inl e)
      | Inr a2 \<Rightarrow>
          (case py_last (rolling_corr (lookback_period st) (pct_change a1) (pct_change a2)) of
             Inl e \<Rightarrow> (st, Inl e)
           | Inr c \<Rightarrow> (case py_last (map2 (-) a1 a2) of
               Inl e \<Rightarrow> (st, Inl e)
             | Inr s \<Rightarrow> (let st' = ccp_store st c s in (st', Inr (ccp_signal st' c s)))))))"

definition get_historical_values :: "ccp_state \<Rightarrow> flt list \<times> real list" where
  "get_historical_values st = (historical_correlation st, historical_spread st)"

declare ccp_init_def [model_defs] ccp_neutral_def [model_defs] ccp_store_def [model_defs]
  np_std_def [model_defs] spread_zscore_def [model_defs] ccp_signal_def [model_defs]
  get_historical_values_def [model_defs]

subsection \<open>The histories\<close>

definition ccp_inv :: "ccp_state \<Rightarrow> bool" where
  "ccp_inv st \<longleftrightarrow> length (historical_correlation st) = length (historical_spread st)
                \<and> length (historical_correlation st) \<le> lookback_period st"

lemma ccp_inv_init: "ccp_inv (ccp_init lp ct dt)"
  by (simp add: ccp_inv_def ccp_init_def)

text \<open>Under the invariant the paired push is a FIFO push on each history.\<close>

lemma ccp_store_fifo:
  assumes "ccp_inv st"
  shows "historical_correlation (ccp_store st c s) = fifo_push (lookback_period st) (historical_correlation st) c"
    and "historical_spread (ccp_store st c s) = fifo_push (lookback_period st) (historical_spread st) s"
  using assms by (simp_all add: ccp_store_def ccp_inv_def fifo_push_def Let_def)

lemma ccp_store_params [simp]:
  "lookback_period (ccp_store st c s) = lookback_period st"
  "correlation_threshold (ccp_store st c s) = correlation_threshold st"
  "divergence_threshold (ccp_store st c s) = divergence_threshold st"
  by (simp_all add: ccp_store_def Let_def)

lemma ccp_store_inv: "ccp_inv st \<Longrightarrow> ccp_inv (ccp_store st c s)"
  by (simp add: ccp_inv_def ccp_store_fifo length_fifo_push)

lemma ccp_calculate_cases:
  "fst (ccp_calculate st df) = st \<or> (\<exists>c s. fst (ccp_calculate st df) = ccp_store st c s)"
  by (auto simp add: ccp_calculate_def Let_def split: sum.split)

lemma ccp_calculate_params [simp]:
  "lookback_period (fst (ccp_calculate st df)) = lookback_period st"
  "correlation_threshold (fst (ccp_calculate st df)) = correlation_threshold st"
  "divergence_threshold (fst (ccp_calculate st df)) = divergence_threshold st"
  using ccp_calculate_cases [of st df] by auto

lemma ccp_calculate_Inr_cases:
  assumes "ccp_calculate st df = (st', Inr r)"
  obtains "st' = st" "r = ccp_neutral"
  | a1 a2 c s where "frame_col df ''asset1'' = Inr a1" "frame_col df ''asset2'' = Inr a2"
      "py_last (rolling_corr (lookback_period st) (pct_change a1) (pct_change a2)) = Inr c"
      "py_last (map2 (-) a1 a2) = Inr s" "st' = ccp_store st c s" "r = ccp_signal st' c s"
proof (cases "frame_len df < lookback_period st")
  case True
  then show ?thesis using assms that(1) by (simp add: ccp_calculate_def)
next
  case False
  show ?thesis
  proof (cases "frame_col df ''asset1''")
    case (Inl e)
    then show ?thesis using assms False by (simp add: ccp_calculate_def)
  next
    case a1: (Inr a1)
    show ?thesis
    proof (cases "frame_col df ''asset2''")
      case (Inl e)
      then show ?thesis using assms False a1 by (simp add: ccp_calculate_def)
    next
      case a2: (Inr a2)
      show ?thesis
      proof (cases "py_last (rolling_corr (lookback_period st) (pct_change a1) (pct_change a2))")
        case (Inl e)
        then show ?thesis using assms False a1 a2 by (simp add: ccp_calculate_def)
      next
        case c: (Inr c)
        show ?thesis
        proof (cases "py_last (map2 (-) a1 a2)")
          case (Inl e)
          then show ?thesis using assms False a1 a2 c by (simp add: ccp_calculate_def)
        next
          case s: (Inr s)
          have "ccp_calculate st df = (ccp_store st c s, Inr (ccp_signal (ccp_store st c s) c s))"
            using False a1 a2 c s by (simp add: ccp_calculate_def Let_def)
          then have "st' = ccp_store st c s" "r = ccp_signal st' c s"
            using assms by simp_all
          then show ?thesis using that(2) a1 a2 c s by blast
        qed
      qed
    qed
  qed
qed

subsection \<open>The signal decision\<close>

lemma ccp_signal_fields:
  "correlation (ccp_signal st c s) = c" "spread (ccp_signal st c s) = s"
  by (simp_all add: ccp_signal_def Let_def split: option.split)

lemma ccp_signal_Some:
  assumes "signal (ccp_signal st c s) = Some d"
  shows "\<exists>cv z. c = Some cv \<and> correlation_threshold st \<le> \<bar>cv\<bar>
           \<and> spread_zscore (historical_spread st) s = Some z \<and> divergence_threshold st \<le> \<bar>z\<bar>
           \<and> (d = SELL \<longleftrightarrow> 0 < z) \<and> strength (ccp_signal st c s) = min \<bar>cv\<bar> \<bar>z\<bar>"
proof (cases c)
  case None
  then show ?thesis using assms by (simp add: ccp_signal_def)
next
  case c: (Some cv)
  show ?thesis
  proof (cases "correlation_threshold st \<le> \<bar>cv\<bar>")
    case False
    then show ?thesis using assms c by (simp add: ccp_signal_def)
  next
    case thr: True
    show ?thesis
    proof (cases "spread_zscore (historical_spread st) s")
      case None
      then show ?thesis using assms c thr by (simp add: ccp_signal_def)
    next
      case z: (Some z)
      have "divergence_threshold st \<le> \<bar>z\<bar>"
        using assms c thr z by (auto simp add: ccp_signal_def split: if_splits)
      moreover have "d = (if 0 < z then SELL else BUY)"
        using assms c thr z calculation by (simp add: ccp_signal_def)
      ultimately show ?thesis using c thr z by (simp add: ccp_signal_def)
    qed
  qed
qed

lemma ccp_signal_strength:
  "0 \<le> strength (ccp_signal st c s)
   \<and> (\<forall>cv. c = Some cv \<longrightarrow> strength (ccp_signal st c s) \<le> \<bar>cv\<bar>)"
  by (auto simp: ccp_signal_def Let_def split: option.splits)

text \<open>The correlation \<open>calculate\<close> computes from the two columns of a well-formed
  frame lies in \<open>[-1, 1]\<close>.\<close>

lemma frame_corr_bound:
  assumes "wf_frame df" "frame_col df ''asset1'' = Inr a1" "frame_col df ''asset2'' = Inr a2"
    and "py_last (rolling_corr p (pct_change a1) (pct_change a2)) = Inr (Some v)"
  shows "\<bar>v\<bar> \<le> 1"
proof -
  have "length a1 = length a2"
    using frame_col_length [OF assms(1,2)] frame_col_length [OF assms(1,3)] by simp
  then show ?thesis using assms(4) py_last_rolling_corr_bound by fastforce
qed

lemma ccp_signal_none_strength: "strength (ccp_signal st None s) = 0"
  by (simp add: ccp_signal_def)

subsection \<open>Properties of the detector\<close>

text \<open>C3: With fewer rows than the lookback period, \<open>calculate\<close> returns the neutral
  result (no signal, strength 0) whatever the data holds, and leaves both histories
  untouched.\<close>

theorem ccp_insufficient_data:
  assumes "frame_len df < lookback_period st"
  shows "ccp_calculate st df = (st, Inr ccp_neutral)
         \<and> signal ccp_neutral = None \<and> strength ccp_neutral = 0"
  using assms by (simp add: ccp_calculate_def ccp_neutral_def)

theorem ccp_insufficient_data_witness:
  "frame_len [(''asset1'', [5, 7]), (''asset2'', [1, 9])] < lookback_period (ccp_init 20 0.7 0.2)
   \<and> ccp_calculate (ccp_init 20 0.7 0.2) [(''asset1'', [5, 7]), (''asset2'', [1, 9])]
       = (ccp_init 20 0.7 0.2, Inr ccp_neutral)"
  using ccp_insufficient_data [of "[(''asset1'', [5, 7]), (''asset2'', [1, 9])]" "ccp_init 20 0.7 0.2"]
  by (simp add: frame_len_def ccp_init_def)

text \<open>C4: Every call of \<open>calculate\<close> keeps the two histories of equal length and
  within the lookback period.\<close>

theorem ccp_calculate_inv:
  assumes "ccp_inv st"
  shows "ccp_inv (fst (ccp_calculate st df))"
  using ccp_calculate_cases [of st df] assms ccp_store_inv by auto

theorem ccp_calculate_inv_witness:
  "ccp_inv (ccp_init 3 0.5 0.5)
   \<and> ccp_inv (fst (ccp_calculate (ccp_init 3 0.5 0.5) [(''asset1'', [2, 4, 12, 12]), (''asset2'', [1, 2, 6, 6])]))"
  using ccp_calculate_inv [OF ccp_inv_init [of 3 "0.5" "0.5"],
      of "[(''asset1'', [2, 4, 12, 12]), (''asset2'', [1, 2, 6, 6])]"] ccp_inv_init
  by simp

text \<open>C5: The histories are bounded FIFO buffers: after any sequence of stores from a
  fresh instance, they hold exactly the last \<open>lookback_period\<close> correlations and
  spreads stored, oldest first.\<close>

theorem ccp_store_run_last_n:
  "get_historical_values (foldl (\<lambda>st (c, s). ccp_store st c s) (ccp_init lp ct dt) ps)
   = (last_n lp (map fst ps), last_n lp (map snd ps))"
proof -
  have run: "ccp_inv st \<Longrightarrow>
      ccp_inv (foldl (\<lambda>st (c, s). ccp_store st c s) st ps)
      \<and> lookback_period (foldl (\<lambda>st (c, s). ccp_store st c s) st ps) = lookback_period st
      \<and> historical_correlation (foldl (\<lambda>st (c, s). ccp_store st c s) st ps)
          = foldl (fifo_push (lookback_period st)) (historical_correlation st) (map fst ps)
      \<and> historical_spread (foldl (\<lambda>st (c, s). ccp_store st c s) st ps)
          = foldl (fifo_push (lookback_period st)) (historical_spread st) (map snd ps)" for st
  proof (induction ps arbitrary: st)
    case Nil
    then show ?case by simp
  next
    case (Cons p ps)
    obtain c s where p: "p = (c, s)" by fastforce
    have "ccp_inv (ccp_store st c s)" using Cons.prems by (rule ccp_store_inv)
    from Cons.IH [OF this] show ?case
      using Cons.prems by (simp add: p ccp_store_fifo)
  qed
  show ?thesis
  proof -
    have e: "foldl (fifo_push lp) [] xs = last_n lp xs" for xs :: "'a list"
      using fifo_run_last_n [of "[]" lp xs] by simp
    show ?thesis
      using run [OF ccp_inv_init [of lp ct dt]]
      by (simp add: get_historical_values_def e) (simp add: ccp_init_def e)
  qed
qed

text \<open>A run of \<open>calculate\<close> on concrete data: three prices per asset after one
  earlier spread of 4, with returns that move together, a correlation of 1 and a spread
  one standard deviation above the history's mean.\<close>

lemma ccp_example:
  "ccp_calculate ((ccp_init 3 0.5 0.5)\<lparr>historical_correlation := [None], historical_spread := [4]\<rparr>)
     [(''asset1'', [2, 4, 12, 12]), (''asset2'', [1, 2, 6, 6])]
   = ((ccp_init 3 0.5 0.5)\<lparr>historical_correlation := [None, Some 1], historical_spread := [4, 6]\<rparr>,
      Inr \<lparr>correlation = Some 1, spread = 6, signal = Some SELL, strength = 1\<rparr>)"
  by (simp add: ccp_calculate_def model_defs py_index_def those_Some_iff numeral_eq_Suc)

lemma ccp_example_wf: "wf_frame [(''asset1'', [2, 4, 12, 12]), (''asset2'', [1, 2, 6, 6])]"
  by (simp add: wf_frame_def frame_len_def)

text \<open>C6: Every correlation \<open>calculate\<close> reports for a well-formed frame lies in
  \<open>[-1, 1]\<close> (the Pearson bound, by Cauchy-Schwarz).\<close>

theorem ccp_correlation_bound:
  assumes "ccp_calculate st df = (st', Inr r)" and "wf_frame df" and "correlation r = Some v"
  shows "\<bar>v\<bar> \<le> 1"
  using assms(1)
proof (cases rule: ccp_calculate_Inr_cases)
  case 1
  then show ?thesis using assms(3) by (simp add: ccp_neutral_def)
next
  case (2 a1 a2 c s)
  have "c = Some v" using 2(6) assms(3) by (simp add: ccp_signal_fields)
  with 2 assms(2) show ?thesis using frame_corr_bound by blast
qed

theorem ccp_correlation_bound_witness:
  "ccp_calculate ((ccp_init 3 0.5 0.5)\<lparr>historical_correlation := [None], historical_spread := [4]\<rparr>)
     [(''asset1'', [2, 4, 12, 12]), (''asset2'', [1, 2, 6, 6])]
     = ((ccp_init 3 0.5 0.5)\<lparr>historical_correlation := [None, Some 1], historical_spread := [4, 6]\<rparr>,
        Inr \<lparr>correlation = Some 1, spread = 6, signal = Some SELL, strength = 1\<rparr>)
   \<and> wf_frame [(''asset1'', [2, 4, 12, 12]), (''asset2'', [1, 2, 6, 6])]
   \<and> correlation \<lparr>correlation = Some 1, spread = 6, signal = Some SELL, strength = 1::real\<rparr> = Some 1
   \<and> \<bar>1::real\<bar> \<le> 1"
  using ccp_example ccp_example_wf ccp_correlation_bound [OF ccp_example ccp_example_wf, of 1] by simp

text \<open>C7: \<open>calculate\<close> signals only when the correlation reaches its threshold and the
  spread's z-score against the history (the current spread included) reaches the
  divergence threshold; it sells when the z-score is positive and buys otherwise, with
  strength the smaller of the absolute correlation and the absolute z-score.\<close>

theorem ccp_signal_decision:
  assumes "ccp_calculate st df = (st', Inr r)" and "signal r = Some d"
  shows "\<exists>cv z. correlation r = Some cv \<and> correlation_threshold st \<le> \<bar>cv\<bar>
           \<and> spread_zscore (historical_spread st') (spread r) = Some z
           \<and> divergence_threshold st \<le> \<bar>z\<bar> \<and> (d = SELL \<longleftrightarrow> 0 < z)
           \<and> strength r = min \<bar>cv\<bar> \<bar>z\<bar>"
  using assms(1)
proof (cases rule: ccp_calculate_Inr_cases)
  case 1
  then show ?thesis using assms(2) by (simp add: ccp_neutral_def)
next
  case (2 a1 a2 c s)
  then show ?thesis
    using ccp_signal_Some [of st' c s d] assms(2) by (simp add: ccp_signal_fields)
qed

theorem ccp_signal_decision_witness:
  "ccp_calculate ((ccp_init 3 0.5 0.5)\<lparr>historical_correlation := [None], historical_spread := [4]\<rparr>)
     [(''asset1'', [2, 4, 12, 12]), (''asset2'', [1, 2, 6, 6])]
     = ((ccp_init 3 0.5 0.5)\<lparr>historical_correlation := [None, Some 1], historical_spread := [4, 6]\<rparr>,
        Inr \<lparr>correlation = Some 1, spread = 6, signal = Some SELL, strength = 1\<rparr>)
   \<and> (\<exists>cv z. cv = (1::real) \<and> correlation_threshold (ccp_init 3 0.5 0.5) \<le> \<bar>cv\<bar>
        \<and> spread_zscore [4, 6] 6 = Some z \<and> divergence_threshold (ccp_init 3 0.5 0.5) \<le> \<bar>z\<bar>
        \<and> 0 < z \<and> min \<bar>cv\<bar> \<bar>z\<bar> = 1)"
proof -
  have "\<exists>cv z. correlation (\<lparr>correlation = Some 1, spread = 6, signal = Some SELL, strength = 1\<rparr> :: ccp_result) = Some cv
      \<and> correlation_threshold ((ccp_init 3 0.5 0.5)\<lparr>historical_correlation := [None], historical_spread := [4]\<rparr>) \<le> \<bar>cv\<bar>
      \<and> spread_zscore [4, 6] 6 = Some z
      \<and> divergence_threshold ((ccp_init 3 0.5 0.5)\<lparr>historical_correlation := [None], historical_spread := [4]\<rparr>) \<le> \<bar>z\<bar>
      \<and> (SELL = SELL \<longleftrightarrow> 0 < z) \<and> 1 = min \<bar>cv\<bar> \<bar>z\<bar>"
    using ccp_signal_decision [OF ccp_example, of SELL] by simp
  then show ?thesis using ccp_example by (simp add: ccp_init_def)
qed

text \<open>C8: The strength \<open>calculate\<close> reports for a well-formed frame lies in
  \<open>[0, 1]\<close>.\<close>

theorem ccp_strength_bounds:
  assumes "ccp_calculate st df = (st', Inr r)" and "wf_frame df"
  shows "0 \<le> strength r \<and> strength r \<le> 1"
  using assms(1)
proof (cases rule: ccp_calculate_Inr_cases)
  case 1
  then show ?thesis by (simp add: ccp_neutral_def)
next
  case (2 a1 a2 c s)
  show ?thesis
  proof (cases c)
    case None
    then show ?thesis using 2(6) by (simp add: ccp_signal_none_strength)
  next
    case (Some cv)
    have "\<bar>cv\<bar> \<le> 1" using frame_corr_bound [OF assms(2) 2(1,2)] 2(3) Some by blast
    then show ?thesis using 2(6) Some ccp_signal_strength [of st' c s] by auto
  qed
qed

theorem ccp_strength_bounds_witness:
  "ccp_calculate ((ccp_init 3 0.5 0.5)\<lparr>historical_correlation := [None], historical_spread := [4]\<rparr>)
     [(''asset1'', [2, 4, 12, 12]), (''asset2'', [1, 2, 6, 6])]
     = ((ccp_init 3 0.5 0.5)\<lparr>historical_correlation := [None, Some 1], historical_spread := [4, 6]\<rparr>,
        Inr \<lparr>correlation = Some 1, spread = 6, signal = Some SELL, strength = 1\<rparr>)
   \<and> wf_frame [(''asset1'', [2, 4, 12, 12]), (''asset2'', [1, 2, 6, 6])]
   \<and> 0 \<le> strength \<lparr>correlation = Some 1, spread = 6, signal = Some SELL, strength = 1::real\<rparr>
   \<and> strength \<lparr>correlation = Some 1, spread = 6, signal = Some SELL, strength = 1::real\<rparr> \<le> 1"
  using ccp_example ccp_example_wf ccp_strength_bounds [OF ccp_example ccp_example_wf] by simp

text \<open>C9: With exactly \<open>lookback_period\<close> rows, the window of returns at the last row
  includes the first return, which \<open>pct_change\<close> leaves NaN: the correlation is NaN
  and no signal is ever given, although the early return lets the data through.\<close>

theorem ccp_exact_lookback_no_signal:
  assumes "wf_frame df" and "0 < lookback_period st" and "frame_len df = lookback_period st"
    and "frame_col df ''asset1'' = Inr a1" and "frame_col df ''asset2'' = Inr a2"
  shows "snd (ccp_calculate st df)
         = Inr \<lparr>correlation = None, spread = last a1 - last a2, signal = None, strength = 0\<rparr>"
proof -
  have l1: "length a1 = lookback_period st" and l2: "length a2 = lookback_period st"
    using frame_col_length [OF assms(1,4)] frame_col_length [OF assms(1,5)] assms(3) by simp_all
  then have ne: "a1 \<noteq> []" "a2 \<noteq> []" using assms(2) by auto
  have c: "py_last (rolling_corr (lookback_period st) (pct_change a1) (pct_change a2)) = Inr None"
    using l1 assms(2) None_in_pct_change [OF ne(1)] by (intro rolling_corr_full_window_nan) simp_all
  have s: "py_last (map2 (-) a1 a2) = Inr (last a1 - last a2)"
    using l1 l2 ne by (simp add: py_last_eq last_map2)
  show ?thesis
    using assms(3,4,5) c s by (simp add: ccp_calculate_def Let_def ccp_signal_def)
qed

theorem ccp_exact_lookback_no_signal_witness:
  "snd (ccp_calculate (ccp_init 3 0.7 0.2) [(''asset1'', [2, 4, 12]), (''asset2'', [1, 2, 6])])
   = Inr \<lparr>correlation = None, spread = 6, signal = None, strength = 0\<rparr>"
proof -
  have "wf_frame [(''asset1'', [2, 4, 12]), (''asset2'', [1, 2, 6])]"
    by (simp add: wf_frame_def frame_len_def)
  then show ?thesis
    using ccp_exact_lookback_no_signal [of "[(''asset1'', [2, 4, 12]), (''asset2'', [1, 2, 6])]"
        "ccp_init 3 0.7 0.2" "[2, 4, 12]" "[1, 2, 6]"]
    by (simp add: ccp_init_def frame_len_def frame_col_def)
qed

end
