(* ===== verification/Indicators.thy ===== *)
theory Indicators
  imports Pandas
begin

text \<open>
  The technical indicators of \<open>src/FuturesQuant/core/indicator/manager.py\<close>: the module
  function \<open>calculate_rsi\<close> and the classes \<open>SMA\<close>, \<open>EMA\<close>, \<open>RSI\<close>, \<open>MACD\<close> and
  \<open>BollingerBands\<close>, each a \<open>calculate(data)\<close> over the frame's columns. They keep no
  state between calls. The RSI is computed from the rolling means of gains and losses;
  where the mean loss is 0, numpy's division gives \<open>inf\<close> (RSI 100) or, when the mean
  gain is 0 too, NaN, which \<open>rsi_value\<close> writes out.
\<close>

subsection \<open>RSI\<close>

definition rsi_value :: "flt \<Rightarrow> flt \<Rightarrow> flt" where
  "rsi_value g l =
     (case (g, l) of
        (Some gv, Some lv) \<Rightarrow>
          if lv = 0 then (if gv = 0 then None else Some 100)
          else Some (100 - 100 / (1 + gv / lv))
      | _ \<Rightarrow> None)"

definition calculate_rsi :: "nat \<Rightarrow> series \<Rightarrow> series" where
  "calculate_rsi p close =
     (let delta = diff close
      in map2 rsi_value (rolling_mean p (where_gain delta)) (rolling_mean p (where_loss delta)))"

declare rsi_value_def [model_defs] calculate_rsi_def [model_defs]

lemma length_calculate_rsi [simp]: "length (calculate_rsi p xs) = length xs"
  by (simp add: calculate_rsi_def Let_def)

lemma rsi_value_bounds:
  assumes "rsi_value (Some g) (Some l) = Some r" and "0 \<le> g" and "0 \<le> l"
  shows "0 \<le> r \<and> r \<le> 100"
proof (cases "l = 0")
  case True
  then show ?thesis using assms(1) by (simp add: rsi_value_def split: if_splits)
next
  case False
  then have l: "0 < l" using assms(3) by simp
  have q: "1 \<le> 1 + g / l" using assms(2) l by simp
  then have "100 / (1 + g / l) \<le> 100" by (simp add: divide_le_eq)
  moreover have "0 \<le> 100 / (1 + g / l)" using q by simp
  moreover have "r = 100 - 100 / (1 + g / l)" using assms(1) False by (simp add: rsi_value_def)
  ultimately show ?thesis by linarith
qed

text \<open>C10: Every value the RSI computes (module \<open>calculate_rsi\<close>, \<open>RSI.calculate\<close> and
  \<open>MLMI.calculate_rsi\<close> share this code) that is not NaN lies in \<open>[0, 100]\<close>, for every
  period and every input, NaN inputs included.\<close>

theorem rsi_bounds:
  assumes "calculate_rsi p xs ! i = Some r" and "i < length xs"
  shows "0 \<le> r \<and> r \<le> 100"
proof -
  define g l where "g = rolling_mean p (where_gain (diff xs))" and "l = rolling_mean p (where_loss (diff xs))"
  have lg: "length g = length xs" and ll: "length l = length xs"
    by (simp_all add: g_def l_def rolling_mean_def)
  have r: "rsi_value (g ! i) (l ! i) = Some r"
    using assms lg ll by (simp add: calculate_rsi_def g_def l_def Let_def)
  then obtain gv lv where gv: "g ! i = Some gv" and lv: "l ! i = Some lv"
    by (cases "g ! i"; cases "l ! i") (simp_all add: rsi_value_def)
  have "0 \<le> gv"
    using rolling_mean_nonneg [of "where_gain (diff xs)" p i gv] gv assms(2) where_gain_nonneg
    by (simp add: g_def)
  moreover have "0 \<le> lv"
    using rolling_mean_nonneg [of "where_loss (diff xs)" p i lv] lv assms(2) where_loss_nonneg
    by (simp add: l_def)
  ultimately show ?thesis using rsi_value_bounds r gv lv by simp
qed

theorem rsi_bounds_witness:
  "calculate_rsi 2 (lift_series [1, 2, 1, 3]) ! 3 = Some (200 / 3)
   \<and> 0 \<le> (200 / 3 :: real) \<and> (200 / 3 :: real) \<le> 100"
proof -
  have e: "calculate_rsi 2 (lift_series [1, 2, 1, 3]) ! 3 = Some (200 / 3)"
    by (simp add: model_defs calculate_rsi_def numeral_eq_Suc those_Some_iff)
  show ?thesis using e rsi_bounds [OF e] by simp
qed

subsection \<open>The indicator classes\<close>

definition sma_calculate :: "nat \<Rightarrow> frame \<Rightarrow> py_error + series" where
  "sma_calculate p df =
     (case frame_col df ''close'' of Inl e \<Rightarrow> Inl e | Inr c \<Rightarrow> Inr (rolling_mean p (lift_series c)))"

definition ema_calculate :: "nat \<Rightarrow> frame \<Rightarrow> py_error + series" where
  "ema_calculate p df =
     (case frame_col df ''close'' of Inl e \<Rightarrow> Inl e | Inr c \<Rightarrow> Inr (lift_series (ewm_mean p c)))"

definition rsi_calculate :: "nat \<Rightarrow> frame \<Rightarrow> py_error + series" where
  "rsi_calculate p df =
     (case frame_col df ''close'' of Inl e \<Rightarrow> Inl e | Inr c \<Rightarrow> Inr (calculate_rsi p (lift_series c)))"

record macd_output =
  macd_line :: "real list"
  signal_line :: "real list"
  histogram :: "real list"

definition macd_calculate :: "nat \<Rightarrow> nat \<Rightarrow> nat \<Rightarrow> frame \<Rightarrow> py_error + macd_output" where
  "macd_calculate fast slow sig df =
     (case frame_col df ''close'' of
        Inl e \<Rightarrow> Inl e
      | Inr c \<Rightarrow>
          (let m = map2 (-) (ewm_mean fast c) (ewm_mean slow c);
               s = ewm_mean sig m
           in Inr \<lparr>macd_line = m, signal_line = s, histogram = map2 (-) m s\<rparr>))"

record bollinger_output =
  middle :: series
  upper :: series
  lower :: series

definition band_offset :: "flt \<Rightarrow> flt \<Rightarrow> real \<Rightarrow> flt" where
  "band_offset m sd k = (case (m, sd) of (Some a, Some b) \<Rightarrow> Some (a + b * k) | _ \<Rightarrow> None)"

definition bollinger_calculate :: "nat \<Rightarrow> real \<Rightarrow> frame \<Rightarrow> py_error + bollinger_output" where
  "bollinger_calculate p k df =
     (case frame_col df ''high'' of Inl e \<Rightarrow> Inl e | Inr h \<Rightarrow>
      case frame_col df ''low'' of Inl e \<Rightarrow> Inl e | Inr l \<Rightarrow>
      case frame_col df ''close'' of Inl e \<Rightarrow> Inl e | Inr c \<Rightarrow>
        (let tp = lift_series (map (\<lambda>x. x / 3) (map2 (+) (map2 (+) h l) c));
             mid = rolling_mean p tp;
             sd = rolling_std p tp
         in Inr \<lparr>middle = mid, upper = map2 (\<lambda>m s. band_offset m s k) mid sd,
                 lower = map2 (\<lambda>m s. band_offset m s (- k)) mid sd\<rparr>))"

declare sma_calculate_def [model_defs] ema_calculate_def [model_defs] rsi_calculate_def [model_defs]
  macd_calculate_def [model_defs] band_offset_def [model_defs] bollinger_calculate_def [model_defs]

subsection \<open>Bollinger bands\<close>

lemma bollinger_calculate_Inr:
  assumes "bollinger_calculate p k df = Inr out"
  shows "\<exists>tp. middle out = rolling_mean p tp
              \<and> upper out = map2 (\<lambda>m s. band_offset m s k) (rolling_mean p tp) (rolling_std p tp)
              \<and> lower out = map2 (\<lambda>m s. band_offset m s (- k)) (rolling_mean p tp) (rolling_std p tp)"
  using assms by (auto simp: bollinger_calculate_def Let_def split: sum.splits)

lemma rolling_std_nonneg:
  assumes "rolling_std p xs ! i = Some s" and "i < length xs"
  shows "0 \<le> s"
proof -
  obtain w where "window_std w = Some s"
    using rolling_apply_Some [OF assms(1) [unfolded rolling_std_def] assms(2)] by blast
  then show ?thesis by (auto simp: window_std_def sum_sq_nonneg split: if_splits)
qed

text \<open>C30: Wherever the three Bollinger bands are defined (not NaN) and the width
  factor \<open>std_dev\<close> is not negative, the lower band lies below the middle band and
  the middle band below the upper one.\<close>

theorem bollinger_band_order:
  assumes "bollinger_calculate p k df = Inr out" and "0 \<le> k"
    and "i < length (upper out)"
    and "middle out ! i = Some m" and "upper out ! i = Some u" and "lower out ! i = Some l"
  shows "l \<le> m \<and> m \<le> u"
proof -
  obtain tp where mid: "middle out = rolling_mean p tp"
    and up: "upper out = map2 (\<lambda>m s. band_offset m s k) (rolling_mean p tp) (rolling_std p tp)"
    and lo: "lower out = map2 (\<lambda>m s. band_offset m s (- k)) (rolling_mean p tp) (rolling_std p tp)"
    using bollinger_calculate_Inr [OF assms(1)] by blast
  have i: "i < length tp" using assms(3) up by simp
  have m: "rolling_mean p tp ! i = Some m" using assms(4) mid by simp
  have "band_offset (Some m) (rolling_std p tp ! i) k = Some u"
    using assms(5) up i m by simp
  then obtain s where s: "rolling_std p tp ! i = Some s" and u: "u = m + s * k"
    by (cases "rolling_std p tp ! i") (auto simp: band_offset_def)
  have "l = m + s * (- k)" using assms(6) lo i m s by (simp add: band_offset_def)
  moreover have "0 \<le> s * k" using rolling_std_nonneg [OF s i] assms(2) by simp
  ultimately show ?thesis using u by simp
qed

theorem bollinger_band_order_witness:
  "bollinger_calculate 2 2 [(''high'', [3, 6]), (''low'', [3, 6]), (''close'', [3, 6])]
     = Inr \<lparr>middle = [None, Some (9 / 2)], upper = [None, Some (9 / 2 + sqrt (9 / 2) * 2)],
            lower = [None, Some (9 / 2 + sqrt (9 / 2) * (- 2))]\<rparr>
   \<and> 9 / 2 + sqrt (9 / 2) * (- 2) \<le> (9 / 2::real) \<and> (9 / 2::real) \<le> 9 / 2 + sqrt (9 / 2) * 2"
proof -
  have e: "bollinger_calculate 2 2 [(''high'', [3, 6]), (''low'', [3, 6]), (''close'', [3, 6])]
     = Inr \<lparr>middle = [None, Some (9 / 2)], upper = [None, Some (9 / 2 + sqrt (9 / 2) * 2)],
            lower = [None, Some (9 / 2 + sqrt (9 / 2) * (- 2))]\<rparr>"
    by (simp add: model_defs Let_def numeral_eq_Suc those_Some_iff centred_def sum_sq_def)
  show ?thesis using e bollinger_band_order [OF e, of 1 "9 / 2"] by simp
qed


end
