(* ===== verification/MLMI.thy ===== *)
theory MLMI
  imports Indicators
begin

text \<open>
  The momentum predictor \<open>MLMI\<close> of \<open>src/FuturesQuant/core/indicator/mlmi.py\<close>. The
  instance state \<open>mlmi_state\<close> holds the parameters and four growing lists: the two
  feature lists \<open>parameter1\<close>/\<open>parameter2\<close>, \<open>price_array\<close> and the labels
  \<open>result_array\<close>. The feature type is a parameter \<open>'f\<close>: \<open>store_previous_trade\<close> only
  copies features, \<open>knn_predict\<close> is modelled on float features as its signature
  says, and \<open>calculate\<close> passes whole series (\<open>rsi_slow\<close>, \<open>rsi_quick\<close>) as features.
  Each stateful method returns the state it leaves behind (mutated even when it then
  raises) with its result or exception.
\<close>

record 'f mlmi_state =
  num_neighbors :: nat
  momentum_window :: nat
  parameter1 :: "'f list"
  parameter2 :: "'f list"
  price_array :: "real list"
  result_array :: "int list"

definition mlmi_init :: "nat \<Rightarrow> nat \<Rightarrow> 'f mlmi_state" where
  "mlmi_init nn mw =
     \<lparr>num_neighbors = nn, momentum_window = mw, parameter1 = [], parameter2 = [],
      price_array = [], result_array = []\<rparr>"

subsection \<open>\<open>store_previous_trade\<close>\<close>

text \<open>The branch taken when samples exist: it repeats the last sample and its price and
  appends a label that compares the last two prices (lines 110-114). The statements run
  one after the other, so an \<open>IndexError\<close> on \<open>parameter2[-1]\<close> or
  \<open>price_array[-1]\<close> leaves the appends made before it.\<close>

definition spt_repeat_last :: "'f mlmi_state \<Rightarrow> 'f mlmi_state \<times> (py_error + unit)" where
  "spt_repeat_last s =
     (let s1 = s\<lparr>parameter1 := parameter1 s @ [last (parameter1 s)]\<rparr>
      in case py_last (parameter2 s1) of
           Inl e \<Rightarrow> (s1, Inl e)
         | Inr q \<Rightarrow>
             (let s2 = s1\<lparr>parameter2 := parameter2 s1 @ [q]\<rparr>
              in case py_last (price_array s2) of
                   Inl e \<Rightarrow> (s2, Inl e)
                 | Inr pr \<Rightarrow>
                     (let pa = price_array s2 @ [pr]
                      in (s2\<lparr>price_array := pa,
                             result_array := result_array s2
                               @ [if pa ! (length pa - 2) \<le> last pa then 1 else -1]\<rparr>, Inr ()))))"

definition store_previous_trade :: "'f mlmi_state \<Rightarrow> 'f \<Rightarrow> 'f \<Rightarrow> 'f mlmi_state \<times> (py_error + unit)" where
  "store_previous_trade s p1 p2 =
     (case (if parameter1 s \<noteq> [] then spt_repeat_last s else (s, Inr ())) of
        (s1, Inl e) \<Rightarrow> (s1, Inl e)
      | (s1, Inr _) \<Rightarrow>
          (s1\<lparr>parameter1 := parameter1 s1 @ [p1], parameter2 := parameter2 s1 @ [p2],
              price_array := price_array s1
                @ [if price_array s1 \<noteq> [] then last (price_array s1) else 0]\<rparr>, Inr ()))"

declare mlmi_init_def [model_defs] spt_repeat_last_def [model_defs]
  store_previous_trade_def [model_defs]

subsection \<open>\<open>knn_predict\<close>\<close>

text \<open>\<open>np.argsort\<close> returns the indices in ascending order of distance; the model
  breaks ties by index (numpy's default \<open>quicksort\<close> leaves their order unspecified).
  \<open>[self.result_array[i] for i in nearest_indices]\<close> raises \<open>IndexError\<close> on the first
  index past the labels.\<close>

definition knn_distance :: "real \<Rightarrow> real \<Rightarrow> real \<Rightarrow> real \<Rightarrow> real" where
  "knn_distance p1 p2 a b = sqrt ((p1 - a)\<^sup>2 + (p2 - b)\<^sup>2)"

definition argsort :: "real list \<Rightarrow> nat list" where
  "argsort ds = sort_key (\<lambda>i. ds ! i) [0..<length ds]"

definition py_gather :: "'a list \<Rightarrow> nat list \<Rightarrow> py_error + 'a list" where
  "py_gather xs idx = (if list_all (\<lambda>i. i < length xs) idx then Inr (map ((!) xs) idx) else Inl IndexError)"

definition knn_predict :: "real mlmi_state \<Rightarrow> real \<Rightarrow> real \<Rightarrow> py_error + int" where
  "knn_predict s p1 p2 =
     (if length (parameter1 s) < 2 then Inr 0
      else if length (parameter2 s) < length (parameter1 s) then Inl IndexError
      else
        (let ds = map2 (knn_distance p1 p2) (parameter1 s) (parameter2 s);
             k = min (num_neighbors s) (length ds)
         in case py_gather (result_array s) (take k (argsort ds)) of
              Inl e \<Rightarrow> Inl e
            | Inr ns \<Rightarrow> Inr (sum_list ns)))"

declare knn_distance_def [model_defs] argsort_def [model_defs] py_gather_def [model_defs]
  knn_predict_def [model_defs]

text \<open>The reference the predictor is checked against, with no sorting: sample \<open>j\<close>
  comes before sample \<open>i\<close> when it is nearer, or as near with a smaller index; the
  rank of \<open>i\<close> is the number of samples before it, and the prediction is the sum of
  the labels of the samples of rank below \<open>k\<close>, or \<open>IndexError\<close> when one of
  them has no label.\<close>

definition knn_before :: "real list \<Rightarrow> nat \<Rightarrow> nat \<Rightarrow> bool" where
  "knn_before ds j i \<longleftrightarrow> ds ! j < ds ! i \<or> (ds ! j = ds ! i \<and> j < i)"

definition knn_rank :: "real list \<Rightarrow> nat \<Rightarrow> nat" where
  "knn_rank ds i = length (filter (\<lambda>j. knn_before ds j i) [0..<length ds])"

definition knn_reference :: "real mlmi_state \<Rightarrow> real \<Rightarrow> real \<Rightarrow> py_error + int" where
  "knn_reference s p1 p2 =
     (if length (parameter1 s) < 2 then Inr 0
      else if length (parameter2 s) < length (parameter1 s) then Inl IndexError
      else
        (let ds = map2 (knn_distance p1 p2) (parameter1 s) (parameter2 s);
             near = filter (\<lambda>i. knn_rank ds i < min (num_neighbors s) (length ds)) [0..<length ds]
         in if list_all (\<lambda>i. i < length (result_array s)) near
            then Inr (sum_list (map ((!) (result_array s)) near)) else Inl IndexError))"

subsection \<open>Series helpers and \<open>calculate\<close>\<close>

text \<open>\<open>calculate_wma\<close>: each full window weighted \<open>1, ..., p\<close> from oldest to newest.\<close>

definition wma_window :: "real list \<Rightarrow> flt" where
  "wma_window w =
     (let ws = map real [1..<Suc (length w)]
      in if w = [] then None else Some (sum_list (map2 (*) ws w) / sum_list ws))"

definition calculate_wma :: "series \<Rightarrow> nat \<Rightarrow> series" where
  "calculate_wma xs p = rolling_apply p wma_window xs"

text \<open>\<open>MLMI.calculate_rsi\<close> has the body of the module function \<open>calculate_rsi\<close>.\<close>

definition mlmi_calculate_rsi :: "series \<Rightarrow> nat \<Rightarrow> series" where
  "mlmi_calculate_rsi xs p = calculate_rsi p xs"

text \<open>\<open>crossover\<close>: \<open>s1[-1] > s2[-1] and s1[-2] <= s2[-2]\<close>, with \<open>and\<close> short-circuiting
  before the second pair of reads; \<open>crossunder\<close> with the comparisons mirrored.\<close>

definition crossover :: "series \<Rightarrow> series \<Rightarrow> py_error + bool" where
  "crossover s1 s2 =
     (case (py_last s1, py_last s2) of
        (Inl e, _) \<Rightarrow> Inl e
      | (_, Inl e) \<Rightarrow> Inl e
      | (Inr a, Inr b) \<Rightarrow>
          if flt_gt a b then
            (case (py_index s1 (-2), py_index s2 (-2)) of
               (Inl e, _) \<Rightarrow> Inl e
             | (_, Inl e) \<Rightarrow> Inl e
             | (Inr c, Inr d) \<Rightarrow> Inr (flt_le c d))
          else Inr False)"

definition crossunder :: "series \<Rightarrow> series \<Rightarrow> py_error + bool" where
  "crossunder s1 s2 =
     (case (py_last s1, py_last s2) of
        (Inl e, _) \<Rightarrow> Inl e
      | (_, Inl e) \<Rightarrow> Inl e
      | (Inr a, Inr b) \<Rightarrow>
          if flt_gt b a then
            (case (py_index s1 (-2), py_index s2 (-2)) of
               (Inl e, _) \<Rightarrow> Inl e
             | (_, Inl e) \<Rightarrow> Inl e
             | (Inr c, Inr d) \<Rightarrow> Inr (flt_le d c))
          else Inr False)"

text \<open>A value \<open>calculate\<close> handles: the scalar prediction or a series.
  \<open>calculate_std\<close> calls \<open>data.rolling\<close>, which a number does not have.\<close>

datatype pyval = PyScalar real | PySeries series

definition calculate_std :: "pyval \<Rightarrow> nat \<Rightarrow> py_error + series" where
  "calculate_std v p = (case v of PyScalar _ \<Rightarrow> Inl AttributeError | PySeries xs \<Rightarrow> Inr (rolling_std p xs))"

text \<open>\<open>knn_predict\<close> as \<open>calculate\<close> calls it, with whole series as features.
  Arithmetic on two series aligns them on their indices (here \<open>0, 1, ...\<close>): the result
  is as long as the longer operand, NaN where either is missing or NaN.\<close>

definition series_align :: "(real \<Rightarrow> real \<Rightarrow> real) \<Rightarrow> series \<Rightarrow> series \<Rightarrow> series" where
  "series_align f a b =
     map (\<lambda>i. case (if i < length a then a ! i else None, if i < length b then b ! i else None) of
                (Some u, Some v) \<Rightarrow> Some (f u v) | _ \<Rightarrow> None)
       [0..<max (length a) (length b)]"

text \<open>\<open>np.sqrt(np.power(p1 - f, 2) + np.power(p2 - g, 2))\<close> for one stored sample.\<close>

definition series_distance :: "series \<Rightarrow> series \<Rightarrow> series \<Rightarrow> series \<Rightarrow> series" where
  "series_distance q1 q2 f g =
     map (map_option sqrt)
       (series_align (+) (map (map_option power2) (series_align (-) q1 f))
                         (map (map_option power2) (series_align (-) q2 g)))"

text \<open>\<open>np.argsort\<close> of the list of distance series first builds an array from it:
  series of different lengths make it raise \<open>ValueError\<close> (an inhomogeneous shape);
  otherwise it is two-dimensional and each row is sorted, NaN last. \<open>[:k]\<close> keeps the
  first \<open>k\<close> rows, and \<open>self.result_array[i]\<close> with a row \<open>i\<close> (an array) as index
  raises \<open>TypeError\<close>; with no row the list is empty and \<open>np.sum\<close> gives \<open>0.0\<close>. The
  prediction is a number on every path that returns.\<close>

definition argsort_row :: "series \<Rightarrow> nat list" where
  "argsort_row r =
     sort_key (\<lambda>i. the (r ! i)) (filter (\<lambda>i. r ! i \<noteq> None) [0..<length r])
     @ filter (\<lambda>i. r ! i = None) [0..<length r]"

definition knn_predict_series :: "series mlmi_state \<Rightarrow> series \<Rightarrow> series \<Rightarrow> py_error + real" where
  "knn_predict_series s q1 q2 =
     (if length (parameter1 s) < 2 then Inr 0
      else if length (parameter2 s) < length (parameter1 s) then Inl IndexError
      else
        (let distances = map2 (series_distance q1 q2) (parameter1 s) (parameter2 s)
         in if \<not> list_all (\<lambda>d. length d = length (hd distances)) distances
            then Inl (ValueError ''inhomogeneous shape'')
            else
              (let k = min (num_neighbors s) (length distances);
                   nearest_indices = take k (map argsort_row distances)
               in case nearest_indices of [] \<Rightarrow> Inr 0 | _ \<Rightarrow> Inl TypeError)))"

record mlmi_result =
  prediction :: real
  prediction_ma :: real
  mlmi_upper :: real
  mlmi_lower :: real
  mlmi_upper_ :: real
  mlmi_lower_ :: real
  mlmi_signal :: "direction option"

definition mlmi_zero :: mlmi_result where
  "mlmi_zero = \<lparr>prediction = 0, prediction_ma = 0, mlmi_upper = 0, mlmi_lower = 0,
                 mlmi_upper_ = 0, mlmi_lower_ = 0, mlmi_signal = None\<rparr>"

text \<open>Lines 79-106 of \<open>calculate\<close>: the prediction, its moving average over the
  one-element series \<open>pd.Series(prediction)\<close>, the channel bounds \<open>np.max\<close> and
  \<open>np.min\<close> of the number (the number itself), then \<open>calculate_std(prediction, 20)\<close>.
  Were the deviation a series, \<open>upper_\<close> would be one too (whatever \<open>calculate_ema\<close>
  computes from it) and \<open>if prediction > upper_\<close> would raise on the ambiguous truth
  value of a series.\<close>

definition mlmi_predict_signal ::
  "series mlmi_state \<Rightarrow> series \<Rightarrow> series \<Rightarrow> py_error + mlmi_result" where
  "mlmi_predict_signal s rsi_slow rsi_quick =
     (case knn_predict_series s rsi_slow rsi_quick of
        Inl e \<Rightarrow> Inl e
      | Inr pred \<Rightarrow>
          (let pred_ma = calculate_wma (lift_series [pred]) 20;
               upper = pred;
               lower = pred
           in case calculate_std (PyScalar pred) 20 of
                Inl e \<Rightarrow> Inl e
              | Inr _ \<Rightarrow> Inl (ValueError ''truth value of a Series is ambiguous'')))"

definition mlmi_calculate :: "series mlmi_state \<Rightarrow> frame \<Rightarrow> series mlmi_state \<times> (py_error + mlmi_result)" where
  "mlmi_calculate s df =
     (if frame_len df < momentum_window s then (s, Inr mlmi_zero)
      else case frame_col df ''close'' of
        Inl e \<Rightarrow> (s, Inl e)
      | Inr close \<Rightarrow>
        (let c = lift_series close;
             ma_quick = calculate_wma c 5;
             ma_slow = calculate_wma c 20;
             rsi_quick = calculate_wma (mlmi_calculate_rsi c 5) (momentum_window s);
             rsi_slow = calculate_wma (mlmi_calculate_rsi c 20) (momentum_window s)
         in case crossover ma_quick ma_slow of
              Inl e \<Rightarrow> (s, Inl e)
            | Inr pos \<Rightarrow> (case crossunder ma_quick ma_slow of
              Inl e \<Rightarrow> (s, Inl e)
            | Inr neg \<Rightarrow>
                (case (if pos \<or> neg then store_previous_trade s rsi_slow rsi_quick else (s, Inr ())) of
                   (s1, Inl e) \<Rightarrow> (s1, Inl e)
                 | (s1, Inr _) \<Rightarrow> (s1, mlmi_predict_signal s1 rsi_slow rsi_quick)))))"

declare wma_window_def [model_defs] calculate_wma_def [model_defs]
  mlmi_calculate_rsi_def [model_defs] crossover_def [model_defs] crossunder_def [model_defs]
  calculate_std_def [model_defs] series_align_def [model_defs] series_distance_def [model_defs]
  argsort_row_def [model_defs] knn_predict_series_def [model_defs] mlmi_zero_def [model_defs]
  mlmi_predict_signal_def [model_defs]

subsection \<open>The training lists\<close>

text \<open>What \<open>store_previous_trade\<close> keeps true from a fresh instance: the three
  per-sample lists have one length, every stored price is 0 (the method never sees a
  price: it stores 0 and then copies), every label is \<open>+1\<close>, and each call after the
  first adds two samples and one label.\<close>

definition mlmi_inv :: "'f mlmi_state \<Rightarrow> bool" where
  "mlmi_inv s \<longleftrightarrow>
     length (parameter2 s) = length (parameter1 s) \<and> length (price_array s) = length (parameter1 s)
     \<and> (\<forall>x \<in> set (price_array s). x = 0) \<and> (\<forall>l \<in> set (result_array s). l = 1)
     \<and> (parameter1 s = [] \<and> result_array s = []
        \<or> length (parameter1 s) = 2 * length (result_array s) + 1)"

lemma mlmi_inv_init: "mlmi_inv (mlmi_init nn mw)"
  by (simp add: mlmi_inv_def mlmi_init_def)

lemma store_previous_trade_first:
  assumes "mlmi_inv s" and "parameter1 s = []"
  shows "store_previous_trade s a b
         = (s\<lparr>parameter1 := [a], parameter2 := [b], price_array := [0]\<rparr>, Inr ())"
  using assms by (simp add: mlmi_inv_def store_previous_trade_def)

lemma store_previous_trade_next:
  assumes "mlmi_inv s" and "parameter1 s \<noteq> []"
  shows "store_previous_trade s a b
         = (s\<lparr>parameter1 := parameter1 s @ [last (parameter1 s), a],
              parameter2 := parameter2 s @ [last (parameter2 s), b],
              price_array := price_array s @ [0, 0], result_array := result_array s @ [1]\<rparr>, Inr ())"
proof -
  have ne2: "parameter2 s \<noteq> []" and nep: "price_array s \<noteq> []"
    using assms by (auto simp: mlmi_inv_def)
  have "last (price_array s) = 0" using nep assms(1) by (simp add: mlmi_inv_def)
  moreover have "price_array s ! (length (price_array s) - 1) = 0"
    using nep calculation by (simp add: last_conv_nth)
  ultimately show ?thesis
    using assms(2) ne2 nep
    by (simp add: store_previous_trade_def spt_repeat_last_def py_last_eq nth_append)
qed

lemma store_previous_trade_inv:
  assumes "mlmi_inv s"
  shows "mlmi_inv (fst (store_previous_trade s a b)) \<and> snd (store_previous_trade s a b) = Inr ()"
proof (cases "parameter1 s = []")
  case True
  then show ?thesis using assms by (simp add: store_previous_trade_first mlmi_inv_def)
next
  case False
  then show ?thesis using assms by (auto simp add: store_previous_trade_next mlmi_inv_def)
qed

text \<open>A sequence of \<open>store_previous_trade\<close> calls, stopping at the first exception.\<close>

fun spt_run :: "'f mlmi_state \<Rightarrow> ('f \<times> 'f) list \<Rightarrow> 'f mlmi_state \<times> (py_error + unit)" where
  "spt_run s [] = (s, Inr ())"
| "spt_run s ((a, b) # ps) =
     (case store_previous_trade s a b of (s', Inl e) \<Rightarrow> (s', Inl e) | (s', Inr _) \<Rightarrow> spt_run s' ps)"

lemma spt_run_labels:
  assumes "mlmi_inv s"
  shows "snd (spt_run s ps) = Inr () \<and> mlmi_inv (fst (spt_run s ps))
         \<and> result_array (fst (spt_run s ps))
            = result_array s @ replicate (if parameter1 s = [] then length ps - 1 else length ps) 1"
  using assms
proof (induction ps arbitrary: s)
  case Nil
  then show ?case by simp
next
  case (Cons p ps)
  obtain a b where p: "p = (a, b)" by fastforce
  obtain s1 where st: "store_previous_trade s a b = (s1, Inr ())" and inv1: "mlmi_inv s1"
    using store_previous_trade_inv [OF Cons.prems, of a b] by (cases "store_previous_trade s a b") auto
  have run: "spt_run s (p # ps) = spt_run s1 ps" by (simp add: p st)
  have IH: "snd (spt_run s1 ps) = Inr () \<and> mlmi_inv (fst (spt_run s1 ps))
     \<and> result_array (fst (spt_run s1 ps))
        = result_array s1 @ replicate (if parameter1 s1 = [] then length ps - 1 else length ps) 1"
    by (rule Cons.IH [OF inv1])
  show ?case
  proof (cases "parameter1 s = []")
    case True
    have "s1 = s\<lparr>parameter1 := [a], parameter2 := [b], price_array := [0]\<rparr>"
      using store_previous_trade_first [OF Cons.prems True, of a b] st by simp
    then have "parameter1 s1 \<noteq> []" "result_array s1 = result_array s" by simp_all
    then show ?thesis using IH True by (simp add: run)
  next
    case False
    have "s1 = s\<lparr>parameter1 := parameter1 s @ [last (parameter1 s), a],
              parameter2 := parameter2 s @ [last (parameter2 s), b],
              price_array := price_array s @ [0, 0], result_array := result_array s @ [1]\<rparr>"
      using store_previous_trade_next [OF Cons.prems False, of a b] st by simp
    then have "parameter1 s1 \<noteq> []" "result_array s1 = result_array s @ [1]" by simp_all
    then show ?thesis using IH False by (simp add: run replicate_append_same)
  qed
qed
subsection \<open>Ranking by distance\<close>

lemma argsort_perm: "distinct (argsort ds) \<and> set (argsort ds) = {0..<length ds} \<and> length (argsort ds) = length ds"
  by (simp add: argsort_def)

lemma sum_list_unit_bound:
  "(\<forall>x \<in> set xs. \<bar>x\<bar> \<le> (1::int)) \<Longrightarrow> \<bar>sum_list xs\<bar> \<le> int (length xs)"
  by (induction xs) (auto simp: abs_le_iff)

subsection \<open>Properties of the predictor\<close>

text \<open>C11: From a fresh instance, \<open>store_previous_trade\<close> never raises and every label it
  records is \<open>+1\<close>: after \<open>n\<close> calls \<open>result_array\<close> is \<open>n - 1\<close> copies of 1, whatever
  the features. The label compares the last two entries of \<open>price_array\<close>, and the
  method has just appended a copy of the last entry.\<close>

theorem mlmi_labels_always_up:
  "snd (spt_run (mlmi_init nn mw) ps) = Inr ()
   \<and> result_array (fst (spt_run (mlmi_init nn mw) ps)) = replicate (length ps - 1) 1"
  using spt_run_labels [OF mlmi_inv_init, of nn mw ps] by (simp add: mlmi_init_def)

text \<open>C12: In every state \<open>store_previous_trade\<close> builds, with two samples or more,
  \<open>knn_predict\<close> raises \<open>IndexError\<close> as soon as \<open>num_neighbors\<close> exceeds the number of
  labels (which the default 200 does until more than 199 samples exist): the feature
  lists hold \<open>2n - 1\<close> entries but the labels only \<open>n - 1\<close>.\<close>

theorem knn_predict_index_error:
  assumes "mlmi_inv s" and "2 \<le> length (parameter1 s)"
    and "length (result_array s) < num_neighbors s"
  shows "knn_predict s p1 p2 = Inl IndexError"
proof -
  define ds where "ds = map2 (knn_distance p1 p2) (parameter1 s) (parameter2 s)"
  define k where "k = min (num_neighbors s) (length ds)"
  define idx where "idx = take k (argsort ds)"
  have n: "length (parameter1 s) = 2 * length (result_array s) + 1"
    and l2: "length (parameter2 s) = length (parameter1 s)"
    using assms(1,2) by (auto simp: mlmi_inv_def)
  have lds: "length ds = length (parameter1 s)" using l2 by (simp add: ds_def)
  have lr: "length (result_array s) < k" using assms(3) n lds by (simp add: k_def)
  have di: "distinct idx" and li: "length idx = k"
    using argsort_perm [of ds] by (simp_all add: idx_def k_def)
  have "\<not> list_all (\<lambda>i. i < length (result_array s)) idx"
  proof
    assume "list_all (\<lambda>i. i < length (result_array s)) idx"
    then have "set idx \<subseteq> {0..<length (result_array s)}" by (auto simp: list_all_iff)
    then have "card (set idx) \<le> card {0..<length (result_array s)}"
      by (rule card_mono [OF finite_atLeastLessThan])
    then have "k \<le> length (result_array s)" using di li by (simp add: distinct_card)
    with lr show False by simp
  qed
  then have g: "py_gather (result_array s) idx = Inl IndexError" by (simp add: py_gather_def)
  have "knn_predict s p1 p2 = (case py_gather (result_array s) idx of Inl e \<Rightarrow> Inl e | Inr ns \<Rightarrow> Inr (sum_list ns))"
    using assms(2) l2 unfolding knn_predict_def Let_def ds_def k_def idx_def by simp
  then show ?thesis by (simp add: g)
qed

theorem knn_predict_index_error_witness:
  "knn_predict (fst (spt_run (mlmi_init 200 20) [(1, 2), (3, 4)])) 0 0 = Inl IndexError"
proof -
  have inv: "mlmi_inv (fst (spt_run (mlmi_init 200 20) [(1::real, 2::real), (3, 4)]))"
    using spt_run_labels [OF mlmi_inv_init] by blast
  have st: "fst (spt_run (mlmi_init 200 20) [(1::real, 2::real), (3, 4)])
      = \<lparr>num_neighbors = 200, momentum_window = 20, parameter1 = [1, 1, 3], parameter2 = [2, 2, 4],
         price_array = [0, 0, 0], result_array = [1]\<rparr>"
    by (simp add: mlmi_init_def store_previous_trade_def spt_repeat_last_def py_index_def)
  from inv have inv': "mlmi_inv \<lparr>num_neighbors = 200, momentum_window = 20, parameter1 = [1, 1, 3::real],
      parameter2 = [2, 2, 4::real], price_array = [0, 0, 0], result_array = [1]\<rparr>"
    by (simp only: st)
  show ?thesis unfolding st using knn_predict_index_error [OF inv', of 0 0] by simp
qed

text \<open>C13: Whenever \<open>knn_predict\<close> returns and every label is \<open>+1\<close> or \<open>-1\<close>, the
  prediction is a sum of at most \<open>min(num_neighbors, number of samples)\<close> labels, so its
  absolute value is bounded by that number.\<close>

theorem knn_predict_bound:
  assumes "knn_predict s p1 p2 = Inr v" and "\<forall>l \<in> set (result_array s). l = 1 \<or> l = -1"
  shows "\<bar>v\<bar> \<le> int (min (num_neighbors s) (length (parameter1 s)))"
proof (cases "length (parameter1 s) < 2")
  case True
  then show ?thesis using assms(1) by (simp add: knn_predict_def)
next
  case False
  define ds where "ds = map2 (knn_distance p1 p2) (parameter1 s) (parameter2 s)"
  define k where "k = min (num_neighbors s) (length ds)"
  define idx where "idx = take k (argsort ds)"
  have l2: "\<not> length (parameter2 s) < length (parameter1 s)"
  proof
    assume "length (parameter2 s) < length (parameter1 s)"
    then have "knn_predict s p1 p2 = Inl IndexError" using False by (simp add: knn_predict_def)
    then show False using assms(1) by simp
  qed
  have eq: "knn_predict s p1 p2
      = (case py_gather (result_array s) idx of Inl e \<Rightarrow> Inl e | Inr ns \<Rightarrow> Inr (sum_list ns))"
    using False l2 unfolding knn_predict_def Let_def ds_def k_def idx_def by simp
  then obtain ns where g: "py_gather (result_array s) idx = Inr ns" and v: "v = sum_list ns"
    using assms(1) by (cases "py_gather (result_array s) idx") auto
  from g have ns: "ns = map ((!) (result_array s)) idx"
    and all: "list_all (\<lambda>i. i < length (result_array s)) idx"
    by (simp_all add: py_gather_def split: if_splits)
  have "\<forall>x \<in> set ns. \<bar>x\<bar> \<le> 1"
  proof
    fix x assume "x \<in> set ns"
    then obtain i where i: "i \<in> set idx" and x: "x = result_array s ! i" using ns by auto
    then have "x \<in> set (result_array s)" using all by (simp add: list_all_iff)
    then show "\<bar>x\<bar> \<le> 1" using assms(2) by auto
  qed
  then have "\<bar>v\<bar> \<le> int (length ns)" using v sum_list_unit_bound by simp
  moreover have "length ds = length (parameter1 s)" using l2 by (simp add: ds_def)
  then have "length ns = min (num_neighbors s) (length (parameter1 s))"
    using argsort_perm [of ds] by (simp add: ns idx_def k_def)
  ultimately show ?thesis by simp
qed

theorem knn_predict_bound_witness:
  "knn_predict \<lparr>num_neighbors = 1, momentum_window = 20, parameter1 = [0, 3], parameter2 = [0, 4],
      price_array = [0, 0], result_array = [1, -1]\<rparr> 0 0 = Inr 1
   \<and> \<bar>1::int\<bar> \<le> int (min 1 (length [0::real, 3]))"
proof -
  have e: "knn_predict \<lparr>num_neighbors = 1, momentum_window = 20, parameter1 = [0, 3], parameter2 = [0, 4],
      price_array = [0, 0], result_array = [1, -1]\<rparr> 0 0 = Inr 1"
    by (simp add: knn_predict_def knn_distance_def argsort_def py_gather_def)
  show ?thesis using knn_predict_bound [OF e] e by simp
qed

subsection \<open>The order of the nearest samples\<close>

text \<open>The stable sort of the indices by distance lists them in the order
  \<open>knn_before\<close>, which is strict and total: the sample at position \<open>p\<close> has exactly
  \<open>p\<close> samples before it, so the first \<open>k\<close> positions hold exactly the samples of rank
  below \<open>k\<close>.\<close>

lemma sorted_wrt_insort_key_before:
  assumes "sorted_wrt (knn_before ds) ys" and "\<forall>y \<in> set ys. x < y"
  shows "sorted_wrt (knn_before ds) (insort_key ((!) ds) x ys)"
  using assms
proof (induction ys)
  case Nil
  then show ?case by simp
next
  case (Cons y ys)
  have "\<forall>z \<in> set ys. ds ! y \<le> ds ! z" using Cons.prems(1) by (auto simp: knn_before_def)
  then show ?case using Cons by (auto simp: knn_before_def set_insort_key)
qed

lemma sorted_wrt_sort_key_before:
  "sorted_wrt (<) xs \<Longrightarrow> sorted_wrt (knn_before ds) (sort_key ((!) ds) xs)"
  by (induction xs) (simp_all add: sorted_wrt_insort_key_before)

lemma argsort_before: "sorted_wrt (knn_before ds) (argsort ds)"
  unfolding argsort_def by (rule sorted_wrt_sort_key_before) (simp add: sorted_wrt_upt)

lemma before_take_pos:
  assumes "sorted_wrt (knn_before ds) L" and "p < length L"
  shows "{j \<in> set L. knn_before ds j (L ! p)} = set (take p L)"
proof (intro set_eqI iffI)
  fix j assume "j \<in> {j \<in> set L. knn_before ds j (L ! p)}"
  then obtain q where q: "q < length L" "j = L ! q" and b: "knn_before ds j (L ! p)"
    by (auto simp: in_set_conv_nth)
  have "q < p"
  proof (rule ccontr)
    assume "\<not> q < p"
    then consider "q = p" | "p < q" by linarith
    then show False
    proof cases
      case 1
      then show False using b q by (simp add: knn_before_def)
    next
      case 2
      then have "knn_before ds (L ! p) (L ! q)" using assms(1) q(1) by (simp add: sorted_wrt_iff_nth_less)
      then show False using b q by (auto simp: knn_before_def)
    qed
  qed
  then show "j \<in> set (take p L)" using q by (auto simp: in_set_conv_nth)
next
  fix j assume "j \<in> set (take p L)"
  then obtain q where "q < p" "j = L ! q" using assms(2) by (auto simp: in_set_conv_nth)
  then show "j \<in> {j \<in> set L. knn_before ds j (L ! p)}"
    using assms by (simp add: sorted_wrt_iff_nth_less)
qed

lemma knn_rank_argsort:
  assumes "p < length ds"
  shows "knn_rank ds (argsort ds ! p) = p"
proof -
  have set: "set (argsort ds) = {0..<length ds}" and d: "distinct (argsort ds)"
    and l: "length (argsort ds) = length ds"
    using argsort_perm [of ds] by simp_all
  have "knn_rank ds (argsort ds ! p) = card {j \<in> set (argsort ds). knn_before ds j (argsort ds ! p)}"
    unfolding knn_rank_def set by (simp add: distinct_length_filter Int_def conj_commute)
  also have "\<dots> = card (set (take p (argsort ds)))"
    using before_take_pos [OF argsort_before] assms l by simp
  also have "\<dots> = p" using d assms l by (simp add: distinct_card)
  finally show ?thesis .
qed

lemma set_take_argsort:
  "set (take k (argsort ds)) = set (filter (\<lambda>i. knn_rank ds i < k) [0..<length ds])"
proof (intro set_eqI iffI)
  fix i assume "i \<in> set (take k (argsort ds))"
  then obtain p where "p < k" "p < length ds" "i = argsort ds ! p"
    using argsort_perm [of ds] by (auto simp: in_set_conv_nth)
  moreover have "argsort ds ! p \<in> set (argsort ds)"
    using calculation argsort_perm [of ds] nth_mem [of p "argsort ds"] by simp
  ultimately show "i \<in> set (filter (\<lambda>i. knn_rank ds i < k) [0..<length ds])"
    using argsort_perm [of ds] knn_rank_argsort by auto
next
  fix i assume "i \<in> set (filter (\<lambda>i. knn_rank ds i < k) [0..<length ds])"
  then have m: "i \<in> set (argsort ds)" and r: "knn_rank ds i < k" using argsort_perm [of ds] by auto
  have "\<exists>p < length (argsort ds). argsort ds ! p = i" using m by (simp only: in_set_conv_nth)
  then obtain p where "p < length ds" "i = argsort ds ! p" using argsort_perm [of ds] by auto
  then show "i \<in> set (take k (argsort ds))"
    using r knn_rank_argsort argsort_perm [of ds] by (auto simp: in_set_conv_nth)
qed

lemma sum_list_take_argsort:
  "sum_list (map ((!) (xs :: 'a :: comm_monoid_add list)) (take k (argsort ds)))
   = sum_list (map ((!) xs) (filter (\<lambda>i. knn_rank ds i < k) [0..<length ds]))"
proof -
  let ?near = "filter (\<lambda>i. knn_rank ds i < k) [0..<length ds]"
  have "distinct (take k (argsort ds))" using argsort_perm [of ds] by simp
  then have "sum_list (map ((!) xs) (take k (argsort ds))) = sum ((!) xs) (set (take k (argsort ds)))"
    by (rule sum_list_distinct_conv_sum_set)
  also have "\<dots> = sum ((!) xs) (set ?near)" by (simp only: set_take_argsort)
  also have "\<dots> = sum_list (map ((!) xs) ?near)"
    by (rule sum_list_distinct_conv_sum_set [symmetric]) simp
  finally show ?thesis .
qed

lemma take_argsort_gather:
  "(case py_gather (xs :: 'a :: comm_monoid_add list) (take k (argsort ds)) of Inl e \<Rightarrow> Inl e | Inr ns \<Rightarrow> Inr (sum_list ns))
   = (let near = filter (\<lambda>i. knn_rank ds i < k) [0..<length ds]
      in if list_all (\<lambda>i. i < length xs) near then Inr (sum_list (map ((!) xs) near)) else Inl IndexError)"
proof -
  let ?near = "filter (\<lambda>i. knn_rank ds i < k) [0..<length ds]"
  have "list_all (\<lambda>i. i < length xs) (take k (argsort ds)) = list_all (\<lambda>i. i < length xs) ?near"
    unfolding list_all_iff set_take_argsort ..
  then show ?thesis by (simp add: py_gather_def sum_list_take_argsort Let_def)
qed

text \<open>C14: \<open>knn_predict\<close> computes the k-nearest-neighbour prediction: on every state
  and query it returns what the sorting-free reference \<open>knn_reference\<close> returns, the
  sum of the labels of the \<open>min(num_neighbors, samples)\<close> samples nearest to the query
  (ties broken by index), or the same exception.\<close>

theorem knn_predict_reference: "knn_predict s p1 p2 = knn_reference s p1 p2"
proof -
  define ds where "ds = map2 (knn_distance p1 p2) (parameter1 s) (parameter2 s)"
  define k where "k = min (num_neighbors s) (length ds)"
  have "(case py_gather (result_array s) (take k (argsort ds)) of Inl e \<Rightarrow> Inl e | Inr ns \<Rightarrow> Inr (sum_list ns))
        = (let near = filter (\<lambda>i. knn_rank ds i < k) [0..<length ds]
           in if list_all (\<lambda>i. i < length (result_array s)) near
              then Inr (sum_list (map ((!) (result_array s)) near)) else Inl IndexError)"
    by (rule take_argsort_gather)
  then show ?thesis
    unfolding knn_predict_def knn_reference_def Let_def ds_def [symmetric] k_def [symmetric] by simp
qed

text \<open>C15: With fewer rows than \<open>momentum_window\<close>, \<open>calculate\<close> returns the zeroed
  result with no signal and leaves the training lists untouched.\<close>

theorem mlmi_insufficient_data:
  assumes "frame_len df < momentum_window s"
  shows "mlmi_calculate s df = (s, Inr mlmi_zero) \<and> mlmi_signal mlmi_zero = None"
  using assms by (simp add: mlmi_calculate_def mlmi_zero_def)

theorem mlmi_insufficient_data_witness:
  "mlmi_calculate (mlmi_init 200 20) [(''close'', [1, 2, 3])] = (mlmi_init 200 20, Inr mlmi_zero)"
  using mlmi_insufficient_data [of "[(''close'', [1, 2, 3])]" "mlmi_init 200 20"]
  by (simp add: frame_len_def mlmi_init_def)

text \<open>The series path on three stored samples of two-element features: with the default
  200 neighbours the subscript by a row raises \<open>TypeError\<close>; with none the sum of the
  empty list is \<open>0.0\<close>; features of different lengths make \<open>np.argsort\<close> raise.\<close>

lemma knn_predict_series_examples:
  "knn_predict_series \<lparr>num_neighbors = 200, momentum_window = 20,
      parameter1 = [[Some 1, Some 2], [Some 1, Some 2], [Some 3, None]],
      parameter2 = [[Some 0, Some 0], [Some 0, Some 0], [Some 1, Some 1]],
      price_array = [0, 0, 0], result_array = [1]\<rparr> [Some 1, Some 1] [Some 0, Some 0] = Inl TypeError"
  "knn_predict_series \<lparr>num_neighbors = 0, momentum_window = 20,
      parameter1 = [[Some 1, Some 2], [Some 1, Some 2], [Some 3, None]],
      parameter2 = [[Some 0, Some 0], [Some 0, Some 0], [Some 1, Some 1]],
      price_array = [0, 0, 0], result_array = [1]\<rparr> [Some 1, Some 1] [Some 0, Some 0] = Inr 0"
  "knn_predict_series \<lparr>num_neighbors = 200, momentum_window = 20,
      parameter1 = [[Some 1, Some 2], [Some 1, Some 2], [Some 3, None, Some 4]],
      parameter2 = [[Some 0, Some 0], [Some 0, Some 0], [Some 1, Some 1]],
      price_array = [0, 0, 0], result_array = [1]\<rparr> [Some 1, Some 1] [Some 0, Some 0]
     = Inl (ValueError ''inhomogeneous shape'')"
  by (simp_all add: knn_predict_series_def series_distance_def series_align_def argsort_row_def upt_rec)

text \<open>Past the prediction the method always raises: the prediction is a number, and
  \<open>calculate_std\<close> calls \<open>.rolling\<close> on it.\<close>

lemma mlmi_predict_signal_raises: "\<exists>e. mlmi_predict_signal s q1 q2 = Inl e"
  by (cases "knn_predict_series s q1 q2") (simp_all add: mlmi_predict_signal_def calculate_std_def Let_def)

lemma mlmi_calculate_raises_gen:
  assumes "momentum_window s \<le> frame_len df"
  shows "\<exists>e. snd (mlmi_calculate s df) = Inl e"
proof (cases "frame_col df ''close''")
  case (Inl e)
  then show ?thesis using assms by (simp add: mlmi_calculate_def)
next
  case (Inr close)
  let ?c = "lift_series close"
  let ?mq = "calculate_wma ?c 5" and ?ms = "calculate_wma ?c 20"
  let ?rq = "calculate_wma (mlmi_calculate_rsi ?c 5) (momentum_window s)"
  let ?rs = "calculate_wma (mlmi_calculate_rsi ?c 20) (momentum_window s)"
  have tail: "\<exists>e. snd (case (if pos \<or> neg then store_previous_trade s ?rs ?rq else (s, Inr ())) of
        (s1, Inl e) \<Rightarrow> (s1, Inl e) | (s1, Inr _) \<Rightarrow> (s1, mlmi_predict_signal s1 ?rs ?rq)) = Inl e"
    for pos neg
    using mlmi_predict_signal_raises by (auto split: prod.split sum.split)
  have "\<exists>e. snd (case crossover ?mq ?ms of Inl e \<Rightarrow> (s, Inl e)
      | Inr pos \<Rightarrow> (case crossunder ?mq ?ms of Inl e \<Rightarrow> (s, Inl e)
      | Inr neg \<Rightarrow> (case (if pos \<or> neg then store_previous_trade s ?rs ?rq else (s, Inr ())) of
           (s1, Inl e) \<Rightarrow> (s1, Inl e) | (s1, Inr _) \<Rightarrow> (s1, mlmi_predict_signal s1 ?rs ?rq)))) = Inl e"
    using tail by (simp split: sum.split)
  then show ?thesis using assms Inr by (simp add: mlmi_calculate_def Let_def)
qed

lemma spt_repeat_last_window:
  "spt_repeat_last s = (s1, r) \<Longrightarrow> momentum_window s1 = momentum_window s"
  by (auto simp: spt_repeat_last_def Let_def split: sum.splits)

lemma store_previous_trade_window:
  "store_previous_trade s p1 p2 = (s1, r) \<Longrightarrow> momentum_window s1 = momentum_window s"
  by (auto simp: store_previous_trade_def dest: spt_repeat_last_window split: if_splits sum.splits prod.splits)

text \<open>\<open>calculate\<close> never changes the momentum window of the instance.\<close>

lemma mlmi_calculate_window: "momentum_window (fst (mlmi_calculate s df)) = momentum_window s"
  by (auto simp: mlmi_calculate_def Let_def dest: store_previous_trade_window split: sum.splits prod.splits)

text \<open>C16: With at least \<open>momentum_window\<close> rows, \<open>calculate\<close> always raises: either an
  earlier step raises, or the prediction is a number and \<open>calculate_std\<close> calls
  \<open>.rolling\<close> on it. The documented result dictionary is never returned.\<close>

theorem mlmi_calculate_raises:
  assumes "momentum_window s \<le> frame_len df"
  shows "\<exists>e. snd (mlmi_calculate s df) = Inl e"
  by (rule mlmi_calculate_raises_gen [OF assms])

theorem mlmi_calculate_raises_witness:
  "momentum_window (mlmi_init 200 2 :: series mlmi_state) \<le> frame_len [(''close'', [1, 2, 3])]
   \<and> snd (mlmi_calculate (mlmi_init 200 2) [(''close'', [1, 2, 3])]) = Inl AttributeError
   \<and> (\<exists>e. snd (mlmi_calculate (mlmi_init 200 2) [(''close'', [1, 2, 3])]) = Inl e)"
proof -
  have w: "momentum_window (mlmi_init 200 2 :: series mlmi_state) \<le> frame_len [(''close'', [1, 2, 3])]"
    by (simp add: frame_len_def mlmi_init_def)
  have r: "snd (mlmi_calculate (mlmi_init 200 2) [(''close'', [1, 2, 3])]) = Inl AttributeError"
    by (simp add: mlmi_calculate_def model_defs rolling_apply_def window_at_def lift_series_def
                  calculate_rsi_def numeral_eq_Suc py_index_def)
  show ?thesis using w r mlmi_calculate_raises [OF w] by simp
qed

end
