(* ===== verification/Moving_Averages.thy ===== *)
theory Moving_Averages
  imports MLMI
begin

text \<open>
  The list-based moving averages of \<open>src/strategies/indicators/moving_averages.py\<close>:
  \<open>simple_moving_average\<close>, \<open>exponential_moving_average\<close> and
  \<open>weighted_moving_average\<close>. Each takes a Python list of floats and an integer
  period, raises \<open>ValueError\<close> when the period is not positive or longer than the
  data, and otherwise returns a list of the data's length whose first \<open>period - 1\<close>
  entries are \<open>None\<close>. The lemmas relate them to the pandas computations of
  \<open>Pandas\<close> and of the indicator classes: the simple average is the rolling mean, the
  exponential average follows the recursion of \<open>ewm(adjust=False)\<close> from a
  different seed, and the weighted average is the window-weighted average of the
  reversed window.
\<close>

subsection \<open>Argument checks\<close>

text \<open>The two guards every function of the module starts with.\<close>

definition check_period :: "real list \<Rightarrow> int \<Rightarrow> py_error + nat" where
  "check_period data period =
     (if period \<le> 0 then Inl (ValueError ''Period must be a positive integer.'')
      else if int (length data) < period
      then Inl (ValueError ''Data length must be greater than or equal to the period.'')
      else Inr (nat period))"

subsection \<open>Simple moving average\<close>

text \<open>\<open>sum(data[i - period + 1:i + 1]) / period\<close> for \<open>i \<ge> period - 1\<close>, \<open>None\<close> before.\<close>

definition sma_at :: "real list \<Rightarrow> nat \<Rightarrow> nat \<Rightarrow> flt" where
  "sma_at data p i =
     (if i < p - 1 then None
      else Some (sum_list (drop (Suc i - p) (take (Suc i) data)) / real p))"

definition simple_moving_average :: "real list \<Rightarrow> int \<Rightarrow> py_error + series" where
  "simple_moving_average data period =
     (case check_period data period of
        Inl e \<Rightarrow> Inl e
      | Inr p \<Rightarrow> Inr (map (sma_at data p) [0..<length data]))"

subsection \<open>Exponential moving average\<close>

text \<open>The loop \<open>ema[i] = (data[i] - ema[i - 1]) * multiplier + ema[i - 1]\<close> for
  \<open>i = period, ..., len(data) - 1\<close>, started from \<open>ema[period - 1]\<close>.\<close>

fun ema_steps :: "real \<Rightarrow> real \<Rightarrow> real list \<Rightarrow> real list" where
  "ema_steps m prev [] = []"
| "ema_steps m prev (x # xs) = (let y = (x - prev) * m + prev in y # ema_steps m y xs)"

definition exponential_moving_average :: "real list \<Rightarrow> int \<Rightarrow> py_error + series" where
  "exponential_moving_average data period =
     (case check_period data period of
        Inl e \<Rightarrow> Inl e
      | Inr p \<Rightarrow>
          (let sma_initial = sum_list (take p data) / real p;
               multiplier = 2 / (real p + 1)
           in Inr (replicate (p - 1) None
                   @ map Some (sma_initial # ema_steps multiplier sma_initial (drop p data)))))"

subsection \<open>Weighted moving average\<close>

text \<open>\<open>sum(data[i - j] * weights[j] for j in range(period)) / sum(weights)\<close> with
  \<open>weights = [1, ..., period]\<close>: the weight \<open>j + 1\<close> goes to the value \<open>j\<close> steps
  before position \<open>i\<close>.\<close>

definition wma_at :: "real list \<Rightarrow> nat \<Rightarrow> nat \<Rightarrow> flt" where
  "wma_at data p i =
     (if i < p - 1 then None
      else Some (sum_list (map (\<lambda>j. data ! (i - j) * real (Suc j)) [0..<p])
                 / sum_list (map real [1..<Suc p])))"

definition weighted_moving_average :: "real list \<Rightarrow> int \<Rightarrow> py_error + series" where
  "weighted_moving_average data period =
     (case check_period data period of
        Inl e \<Rightarrow> Inl e
      | Inr p \<Rightarrow> Inr (map (wma_at data p) [0..<length data]))"

declare check_period_def [model_defs] sma_at_def [model_defs]
  simple_moving_average_def [model_defs] exponential_moving_average_def [model_defs]
  wma_at_def [model_defs] weighted_moving_average_def [model_defs]

subsection \<open>Shared facts\<close>

lemma check_period_Inr:
  "check_period data period = Inr p \<longleftrightarrow>
     0 < period \<and> period \<le> int (length data) \<and> p = nat period"
  by (auto simp: check_period_def)

lemma check_period_Inr_bounds:
  assumes "check_period data period = Inr p"
  shows "0 < p" and "p \<le> length data" and "period = int p"
  using assms by (auto simp: check_period_Inr)

lemma check_period_Inl:
  "check_period data period = Inl e \<longleftrightarrow>
     (period \<le> 0 \<and> e = ValueError ''Period must be a positive integer.'')
     \<or> (0 < period \<and> int (length data) < period
        \<and> e = ValueError ''Data length must be greater than or equal to the period.'')"
  by (auto simp: check_period_def)

text \<open>The slice \<open>data[i - p + 1:i + 1]\<close> is the rolling window ending at \<open>i\<close>.\<close>

lemma slice_window_at:
  assumes "p \<le> Suc i"
  shows "drop (Suc i - p) (take (Suc i) xs) = window_at p xs i"
proof -
  have "Suc i - (Suc i - p) = p" using assms by simp
  then show ?thesis by (simp only: window_at_def drop_take)
qed

lemma length_slice:
  "i < length xs \<Longrightarrow> p \<le> Suc i \<Longrightarrow> length (drop (Suc i - p) (take (Suc i) xs)) = p"
  by simp

lemma window_at_map: "window_at p (map f xs) i = map f (window_at p xs i)"
  by (simp add: window_at_def take_map drop_map)

lemma rolling_mean_lift_nth:
  assumes "i < length xs" and "0 < p"
  shows "rolling_mean p (lift_series xs) ! i =
           (if Suc i < p then None else Some (sum_list (window_at p xs i) / real p))"
proof (cases "Suc i < p")
  case False
  then have len: "length (window_at p xs i) = p" using assms(1) by (simp add: length_window_at)
  then have "window_at p xs i \<noteq> []" using assms(2) by auto
  then show ?thesis using False assms len
    by (simp add: rolling_mean_def nth_rolling_apply lift_series_def window_at_map
                  window_mean_def mean_def)
qed (simp add: rolling_mean_def nth_rolling_apply lift_series_def assms)

subsection \<open>The simple average is the pandas rolling mean\<close>

lemma sma_at_rolling_mean:
  assumes "i < length xs" and "0 < p"
  shows "sma_at xs p i = rolling_mean p (lift_series xs) ! i"
proof (cases "Suc i < p")
  case True
  then show ?thesis using assms by (simp add: sma_at_def rolling_mean_lift_nth)
next
  case False
  then show ?thesis using assms
    by (simp add: sma_at_def rolling_mean_lift_nth slice_window_at)
qed


subsection \<open>Exponential average: length and bounds\<close>

lemma length_ema_steps [simp]: "length (ema_steps m prev xs) = length xs"
  by (induction xs arbitrary: prev) (simp_all add: Let_def)

text \<open>The list recursion is the recursion of \<open>ewm(span=p, adjust=False)\<close>.\<close>

lemma ema_steps_ewm_from: "ema_steps m prev xs = ewm_from m prev xs"
  by (induction xs arbitrary: prev) (simp_all add: Let_def algebra_simps)

lemma convex_step_bounds:
  fixes lo hi x prev m :: real
  assumes "lo \<le> prev" "prev \<le> hi" "lo \<le> x" "x \<le> hi" "0 \<le> m" "m \<le> 1"
  shows "lo \<le> (x - prev) * m + prev \<and> (x - prev) * m + prev \<le> hi"
proof -
  have eq: "(x - prev) * m + prev = (1 - m) * prev + m * x" by algebra
  have "(1 - m) * lo + m * lo \<le> (1 - m) * prev + m * x"
    using assms by (intro add_mono mult_left_mono) simp_all
  moreover have "(1 - m) * prev + m * x \<le> (1 - m) * hi + m * hi"
    using assms by (intro add_mono mult_left_mono) simp_all
  ultimately show ?thesis unfolding eq by (simp add: algebra_simps)
qed

lemma ema_steps_bounds:
  assumes "lo \<le> prev" "prev \<le> hi" "0 \<le> m" "m \<le> 1"
    and "\<forall>x \<in> set xs. lo \<le> x \<and> x \<le> hi"
  shows "\<forall>y \<in> set (ema_steps m prev xs). lo \<le> y \<and> y \<le> hi"
  using assms(1,2,5)
proof (induction xs arbitrary: prev)
  case Nil
  then show ?case by simp
next
  case (Cons x xs)
  have x: "lo \<le> x" "x \<le> hi" using Cons.prems(3) by simp_all
  have y: "lo \<le> (x - prev) * m + prev \<and> (x - prev) * m + prev \<le> hi"
    using convex_step_bounds [OF Cons.prems(1,2) x assms(3,4)] .
  have "\<forall>y \<in> set (ema_steps m ((x - prev) * m + prev) xs). lo \<le> y \<and> y \<le> hi"
    using y Cons.prems(3) by (intro Cons.IH) simp_all
  then show ?case using y by (simp add: Let_def)
qed

lemma multiplier_unit:
  assumes "0 < p"
  shows "0 \<le> 2 / (real p + 1) \<and> 2 / (real p + 1) \<le> (1::real)"
proof -
  have "2 \<le> real p + 1" using assms by simp
  then show ?thesis by simp
qed

lemma sum_take_mean_bounds:
  assumes "0 < p" "p \<le> length xs" "\<forall>x \<in> set xs. lo \<le> x \<and> x \<le> hi"
  shows "lo \<le> sum_list (take p xs) / real p \<and> sum_list (take p xs) / real p \<le> hi"
proof -
  have ne: "take p xs \<noteq> []" and len: "length (take p xs) = p" using assms(1,2) by auto
  have "\<forall>x \<in> set (take p xs). lo \<le> x \<and> x \<le> hi" using assms(3) in_set_takeD by fast
  then have "lo \<le> mean (take p xs) \<and> mean (take p xs) \<le> hi"
    using mean_ge_bound [OF ne] mean_le_bound [OF ne] by blast
  then show ?thesis unfolding mean_def len .
qed

lemma exponential_moving_average_Inr:
  assumes "check_period data period = Inr p"
  shows "exponential_moving_average data period =
           Inr (replicate (p - 1) None
                @ map Some (sum_list (take p data) / real p
                            # ema_steps (2 / (real p + 1)) (sum_list (take p data) / real p) (drop p data)))"
  using assms by (simp add: exponential_moving_average_def Let_def)


subsection \<open>Weighted average: the weights run backwards\<close>

lemma nth_window_at:
  assumes "k < p" "p \<le> Suc i" "i < length xs"
  shows "window_at p xs i ! k = xs ! (Suc i - p + k)"
  using assms by (simp add: window_at_def)

lemma wma_terms_rev_window:
  assumes "i < length data" "p \<le> Suc i"
  shows "map2 (*) (map real [1..<Suc p]) (rev (window_at p data i))
           = map (\<lambda>j. data ! (i - j) * real (Suc j)) [0..<p]"
proof (rule nth_equalityI)
  have len: "length (window_at p data i) = p" using assms by (simp add: length_window_at)
  then show "length (map2 (*) (map real [1..<Suc p]) (rev (window_at p data i)))
               = length (map (\<lambda>j. data ! (i - j) * real (Suc j)) [0..<p])" by (simp del: upt_Suc)
  fix j assume "j < length (map2 (*) (map real [1..<Suc p]) (rev (window_at p data i)))"
  then have j: "j < p" using len by (simp del: upt_Suc)
  have idx: "Suc i - p + (p - Suc j) = i - j" using j assms(2) by arith
  have "rev (window_at p data i) ! j = data ! (i - j)"
    using j len assms by (simp add: rev_nth nth_window_at idx)
  then show "map2 (*) (map real [1..<Suc p]) (rev (window_at p data i)) ! j
               = map (\<lambda>j. data ! (i - j) * real (Suc j)) [0..<p] ! j"
    using j len by (simp del: upt_Suc)
qed

lemma wma_at_rev_window:
  assumes "i < length data" "0 < p" "p \<le> Suc i"
  shows "wma_at data p i = wma_window (rev (window_at p data i))"
proof -
  have len: "length (window_at p data i) = p" using assms by (simp add: length_window_at)
  then have "rev (window_at p data i) \<noteq> []" using assms(2) by auto
  moreover have "\<not> i < p - 1" using assms(3) by simp
  ultimately show ?thesis
    using wma_terms_rev_window [OF assms(1,3)] len by (simp add: wma_at_def wma_window_def Let_def)
qed


lemma ema_output_nth_None:
  assumes "i < p - 1 + length ys"
  shows "((replicate (p - 1) None @ map Some (ys :: real list)) ! i = None) = (i < p - 1)"
  using assms by (simp add: nth_append)

lemma moving_averages_Inl:
  "(simple_moving_average data period = Inl e \<longleftrightarrow> check_period data period = Inl e)
   \<and> (exponential_moving_average data period = Inl e \<longleftrightarrow> check_period data period = Inl e)
   \<and> (weighted_moving_average data period = Inl e \<longleftrightarrow> check_period data period = Inl e)"
  by (cases "check_period data period")
     (simp_all add: simple_moving_average_def exponential_moving_average_def
                    weighted_moving_average_def Let_def)

subsection \<open>Properties\<close>

text \<open>C20: On every input it accepts, \<open>simple_moving_average\<close> returns exactly the
  pandas rolling mean \<open>Series.rolling(window=period).mean()\<close> of the data (which the
  \<open>SMA\<close> indicator classes compute): \<open>None\<close> before the first full window, the
  window's mean after.\<close>

theorem sma_refines_rolling_mean:
  assumes "simple_moving_average data period = Inr r"
  shows "r = rolling_mean (nat period) (lift_series data)"
proof -
  obtain p where p: "check_period data period = Inr p"
    using assms by (cases "check_period data period") (simp_all add: simple_moving_average_def)
  then have r: "r = map (sma_at data p) [0..<length data]"
    using assms by (simp add: simple_moving_average_def)
  have "0 < p" and np: "nat period = p" using check_period_Inr_bounds [OF p] by simp_all
  then show ?thesis unfolding r np
    by (intro nth_equalityI) (simp_all add: sma_at_rolling_mean lift_series_def)
qed

theorem sma_refines_rolling_mean_witness:
  "simple_moving_average [1, 2, 3] 2 = Inr [None, Some (3 / 2), Some (5 / 2)]
   \<and> [None, Some (3 / 2), Some (5 / 2)] = rolling_mean (nat 2) (lift_series [1, 2, 3])"
proof -
  have e: "simple_moving_average [1, 2, 3] 2 = Inr [None, Some (3 / 2), Some (5 / 2)]"
    by (simp add: simple_moving_average_def check_period_def sma_at_def upt_rec)
  show ?thesis using e sma_refines_rolling_mean [OF e] by simp
qed

text \<open>C21: The three moving averages raise the same \<open>ValueError\<close>s, exactly when
  the period is not positive (first message) or, the period being positive, when the
  data is shorter than the period (second message); they raise nothing else.\<close>

theorem moving_averages_value_error:
  "(simple_moving_average data period = Inl e \<longleftrightarrow> check_period data period = Inl e)
   \<and> (exponential_moving_average data period = Inl e \<longleftrightarrow> check_period data period = Inl e)
   \<and> (weighted_moving_average data period = Inl e \<longleftrightarrow> check_period data period = Inl e)
   \<and> (check_period data period = Inl e \<longleftrightarrow>
        (period \<le> 0 \<and> e = ValueError ''Period must be a positive integer.'')
        \<or> (0 < period \<and> int (length data) < period
           \<and> e = ValueError ''Data length must be greater than or equal to the period.''))"
  using moving_averages_Inl [of data period e] check_period_Inl [of data period e] by blast

theorem moving_averages_value_error_witness:
  "exponential_moving_average [1, 2] 3
     = Inl (ValueError ''Data length must be greater than or equal to the period.'')"
proof -
  have "check_period [1, 2] 3
          = Inl (ValueError ''Data length must be greater than or equal to the period.'')"
    by (simp add: check_period_def)
  then show ?thesis using moving_averages_value_error [of "[1, 2]" 3] by blast
qed


lemma check_period_of_Inr:
  assumes "simple_moving_average data period = Inr r
           \<or> exponential_moving_average data period = Inr r
           \<or> weighted_moving_average data period = Inr r"
  obtains p where "check_period data period = Inr p"
  using assms by (cases "check_period data period")
    (auto simp: simple_moving_average_def exponential_moving_average_def weighted_moving_average_def)

text \<open>C22: Every value \<open>exponential_moving_average\<close> computes lies between the
  smallest and the largest data value: the seed is a mean of the first window and
  each step \<open>(x - prev) * 2 / (period + 1) + prev\<close> is a convex combination,
  since \<open>2 / (period + 1) \<le> 1\<close> for a positive period.\<close>

theorem ema_bounds:
  assumes "\<forall>x \<in> set data. lo \<le> x \<and> x \<le> hi"
    and "exponential_moving_average data period = Inr e" and "Some v \<in> set e"
  shows "lo \<le> v \<and> v \<le> hi"
proof -
  obtain p where p: "check_period data period = Inr p"
    using check_period_of_Inr [of data period e] assms(2) by blast
  have p0: "0 < p" and pl: "p \<le> length data" using check_period_Inr_bounds [OF p] by simp_all
  define s0 where "s0 = sum_list (take p data) / real p"
  have e: "e = replicate (p - 1) None @ map Some (s0 # ema_steps (2 / (real p + 1)) s0 (drop p data))"
    using assms(2) p by (simp add: exponential_moving_average_def Let_def s0_def)
  have s0: "lo \<le> s0 \<and> s0 \<le> hi" using sum_take_mean_bounds [OF p0 pl assms(1)] by (simp add: s0_def)
  have "\<forall>x \<in> set (drop p data). lo \<le> x \<and> x \<le> hi" using assms(1) in_set_dropD by fast
  then have "\<forall>y \<in> set (ema_steps (2 / (real p + 1)) s0 (drop p data)). lo \<le> y \<and> y \<le> hi"
    using s0 multiplier_unit [OF p0] by (intro ema_steps_bounds) simp_all
  moreover have "v \<in> set (s0 # ema_steps (2 / (real p + 1)) s0 (drop p data))"
    using assms(3) e by auto
  ultimately show ?thesis using s0 by auto
qed

theorem ema_bounds_witness:
  "exponential_moving_average [1, 3, 2] 2 = Inr [None, Some 2, Some 2]
   \<and> 1 \<le> (2::real) \<and> (2::real) \<le> 3"
proof -
  have e: "exponential_moving_average [1, 3, 2] 2 = Inr [None, Some 2, Some (2::real)]"
    by (simp add: exponential_moving_average_def check_period_def Let_def)
  have b: "\<forall>x \<in> set [1, 3, 2]. 1 \<le> x \<and> x \<le> (3::real)" by simp
  show ?thesis using e b ema_bounds [OF b e, of 2] by simp
qed


text \<open>C23: At every position with a full window, \<open>weighted_moving_average\<close> is the
  linearly weighted average (weights \<open>1, ..., period\<close> from oldest to newest, the
  \<open>MLMI.calculate_wma\<close> window function) of the window read backwards: the newest
  value gets weight 1 and the oldest the weight \<open>period\<close>, the opposite of the
  glossary's "weighting recent observations linearly higher".\<close>

theorem wma_reversed:
  assumes "weighted_moving_average data period = Inr r"
    and "i < length data" and "nat period \<le> Suc i"
  shows "r ! i = MLMI.wma_window (rev (window_at (nat period) data i))"
proof -
  obtain p where p: "check_period data period = Inr p"
    using check_period_of_Inr [of data period r] assms(1) by blast
  have p0: "0 < p" and np: "nat period = p" using check_period_Inr_bounds [OF p] by simp_all
  have "r = map (wma_at data p) [0..<length data]"
    using assms(1) p by (simp add: weighted_moving_average_def)
  then have "r ! i = wma_at data p i" using assms(2) by simp
  then show ?thesis using wma_at_rev_window [OF assms(2) p0] assms(3) np by simp
qed

theorem wma_reversed_witness:
  "weighted_moving_average [0, 3] 2 = Inr [None, Some 1]
   \<and> Some 1 = MLMI.wma_window (rev (window_at (nat 2) [0, 3] 1))
   \<and> MLMI.calculate_wma (lift_series [0, 3]) 2 ! 1 = Some 2"
proof -
  have e: "weighted_moving_average [0, 3] 2 = Inr [None, Some (1::real)]"
    by (simp add: weighted_moving_average_def check_period_def wma_at_def upt_rec)
  have "[None, Some (1::real)] ! 1 = MLMI.wma_window (rev (window_at (nat 2) [0, 3] 1))"
    using wma_reversed [OF e] by simp
  moreover have "MLMI.calculate_wma (lift_series [0, 3]) 2 ! 1 = Some 2"
    by (simp add: calculate_wma_def rolling_apply_def window_at_def lift_series_def
                  wma_window_def upt_rec)
  ultimately show ?thesis using e by simp
qed

text \<open>C24: An accepted call of any of the three functions returns a list as long as
  the data, whose entry \<open>i\<close> is \<open>None\<close> exactly when \<open>i < period - 1\<close>.\<close>

theorem moving_average_shape:
  assumes "simple_moving_average data period = Inr r
           \<or> exponential_moving_average data period = Inr r
           \<or> weighted_moving_average data period = Inr r"
  shows "length r = length data \<and> (\<forall>i < length data. (r ! i = None) = (i < nat period - 1))"
proof -
  obtain p where p: "check_period data period = Inr p"
    using check_period_of_Inr [OF assms] by blast
  have p0: "0 < p" and pl: "p \<le> length data" and np: "nat period = p"
    using check_period_Inr_bounds [OF p] by simp_all
  define s0 where "s0 = sum_list (take p data) / real p"
  define ys where "ys = s0 # ema_steps (2 / (real p + 1)) s0 (drop p data)"
  have ly: "p - 1 + length ys = length data" using p0 pl by (simp add: ys_def)
  from assms consider (s) "simple_moving_average data period = Inr r"
    | (e) "exponential_moving_average data period = Inr r"
    | (w) "weighted_moving_average data period = Inr r" by blast
  then show ?thesis
  proof cases
    case s
    then have "r = map (sma_at data p) [0..<length data]"
      using p by (simp add: simple_moving_average_def)
    then show ?thesis by (simp add: np sma_at_def)
  next
    case e
    then have r: "r = replicate (p - 1) None @ map Some ys"
      using exponential_moving_average_Inr [OF p] by (simp add: s0_def ys_def)
    have "length r = length data" using ly by (simp add: r)
    moreover have "\<forall>i < length data. (r ! i = None) = (i < p - 1)"
    proof (intro allI impI)
      fix i assume "i < length data"
      then show "(r ! i = None) = (i < p - 1)"
        using ema_output_nth_None [of i p ys] ly by (simp only: r)
    qed
    ultimately show ?thesis by (simp only: np)
  next
    case w
    then have "r = map (wma_at data p) [0..<length data]"
      using p by (simp add: weighted_moving_average_def)
    then show ?thesis by (simp add: np wma_at_def)
  qed
qed

theorem moving_average_shape_witness:
  "exponential_moving_average [1, 2, 3, 4] 3 = Inr [None, None, Some 2, Some (3 :: real)]
   \<and> length [None, None, Some 2, Some (3 :: real)] = length [1, 2, 3, 4 :: real]
   \<and> ([None, None, Some 2, Some (3 :: real)] ! 0 = None) = (0 < nat 3 - 1)
   \<and> ([None, None, Some 2, Some (3 :: real)] ! 1 = None) = (1 < nat 3 - 1)
   \<and> ([None, None, Some 2, Some (3 :: real)] ! 2 = None) = (2 < nat 3 - 1)
   \<and> ([None, None, Some 2, Some (3 :: real)] ! 3 = None) = (3 < nat 3 - 1)"
proof -
  have e: "exponential_moving_average [1, 2, 3, 4] 3 = Inr [None, None, Some 2, Some (3 :: real)]"
    by (simp add: exponential_moving_average_def check_period_def numeral_eq_Suc)
  have s: "length [None, None, Some 2, Some (3 :: real)] = length [1, 2, 3, 4 :: real]
     \<and> (\<forall>i < length [1, 2, 3, 4 :: real].
          ([None, None, Some 2, Some (3 :: real)] ! i = None) = (i < nat 3 - 1))"
    by (rule moving_average_shape [OF disjI2 [OF disjI1 [OF e]]])
  then show ?thesis using e by (simp only: list.size)
qed

end
