(* ===== verification/Copilot_Manager.thy ===== *)
theory Copilot_Manager
  imports Indicators
begin

text \<open>
  The indicator manager of
  \<open>src/FuturesQuant/FuturesQuantCopilotFiles/FuturesQuant_core_indicator_manager.py\<close>:
  the base class \<open>Indicator\<close> with its subclasses \<open>SMA\<close>, \<open>EMA\<close>, \<open>RSI\<close>, \<open>MACD\<close> and
  \<open>BollingerBands\<close> (their \<open>calculate\<close> bodies are those of the core \<open>manager.py\<close>,
  modelled in \<open>Indicators\<close>), and \<open>IndicatorManager\<close> with \<open>register_indicator\<close>,
  \<open>get_indicator\<close> and \<open>calculate_all\<close>. The manager's dictionary is an association
  list in insertion order (Python dictionaries iterate in insertion order, which
  \<open>calculate_all\<close> exposes). An indicator is identified by its name and the set of
  its parameter items: the source's \<open>f"{name}_{hash(frozenset(params.items()))}"\<close>,
  with the hash taken as injective on the sets Python finds unequal.
\<close>

subsection \<open>Indicators\<close>

datatype pval = PInt int | PFloat real

type_synonym params = "(string \<times> pval) list"

text \<open>\<open>Base name params\<close> is an instance of the base class, whose \<open>calculate\<close>
  raises \<open>NotImplementedError\<close>; the other constructors are the subclasses with their
  constructor arguments.\<close>

datatype indicator =
    Base string params
  | SMA nat
  | EMA nat
  | RSI nat
  | MACD nat nat nat
  | BollingerBands nat real

fun ind_name :: "indicator \<Rightarrow> string" where
  "ind_name (Base n _) = n"
| "ind_name (SMA _) = ''SMA''"
| "ind_name (EMA _) = ''EMA''"
| "ind_name (RSI _) = ''RSI''"
| "ind_name (MACD _ _ _) = ''MACD''"
| "ind_name (BollingerBands _ _) = ''BollingerBands''"

fun ind_params :: "indicator \<Rightarrow> params" where
  "ind_params (Base _ ps) = ps"
| "ind_params (SMA p) = [(''period'', PInt (int p))]"
| "ind_params (EMA p) = [(''period'', PInt (int p))]"
| "ind_params (RSI p) = [(''period'', PInt (int p))]"
| "ind_params (MACD f s g) =
     [(''fast_period'', PInt (int f)), (''slow_period'', PInt (int s)), (''signal_period'', PInt (int g))]"
| "ind_params (BollingerBands p k) = [(''period'', PInt (int p)), (''std_dev'', PFloat k)]"

datatype ind_output = OSeries series | OMACD macd_output | OBands bollinger_output

fun indicator_calculate :: "indicator \<Rightarrow> frame \<Rightarrow> py_error + ind_output" where
  "indicator_calculate (Base _ _) df = Inl (NotImplementedError ''Subclasses must implement calculate()'')"
| "indicator_calculate (SMA p) df = map_sum id OSeries (sma_calculate p df)"
| "indicator_calculate (EMA p) df = map_sum id OSeries (ema_calculate p df)"
| "indicator_calculate (RSI p) df = map_sum id OSeries (rsi_calculate p df)"
| "indicator_calculate (MACD f s g) df = map_sum id OMACD (macd_calculate f s g df)"
| "indicator_calculate (BollingerBands p k) df = map_sum id OBands (bollinger_calculate p k df)"

subsection \<open>The manager\<close>

text \<open>A parameter value as \<open>==\<close> and \<open>hash\<close> see it: the integer \<open>20\<close> and the
  float \<open>20.0\<close> are equal and hash alike, so \<open>frozenset\<close>s differing only there give
  one identifier.\<close>

definition pval_num :: "pval \<Rightarrow> real" where
  "pval_num v = (case v of PInt i \<Rightarrow> real_of_int i | PFloat r \<Rightarrow> r)"

type_synonym ind_key = "string \<times> (string \<times> real) set"

type_synonym cm_registry = "(ind_key \<times> indicator) list"

definition indicator_id :: "string \<Rightarrow> params \<Rightarrow> ind_key" where
  "indicator_id name ps = (name, set (map (\<lambda>(k, v). (k, pval_num v)) ps))"

definition cm_init :: cm_registry where
  "cm_init = []"

definition register_indicator :: "indicator \<Rightarrow> cm_registry \<Rightarrow> cm_registry \<times> bool" where
  "register_indicator ind reg =
     (let k = indicator_id (ind_name ind) (ind_params ind)
      in if k \<in> set (map fst reg) then (reg, False) else (reg @ [(k, ind)], True))"

text \<open>\<open>params or {}\<close>: a missing (or empty) dictionary is the empty one. The error
  message shows the name; the \<open>repr\<close> of the parameters is not modelled.\<close>

definition cm_get_indicator :: "cm_registry \<Rightarrow> string \<Rightarrow> params option \<Rightarrow> py_error + indicator" where
  "cm_get_indicator reg name params =
     (let ps = (case params of None \<Rightarrow> [] | Some ps \<Rightarrow> ps);
          k = indicator_id name ps
      in case map_of reg k of
           None \<Rightarrow> Inl (KeyError (''Indicator '' @ name @ '' not registered''))
         | Some ind \<Rightarrow> Inr ind)"

fun calculate_all_loop ::
  "frame \<Rightarrow> cm_registry \<Rightarrow> (ind_key \<times> ind_output) list \<Rightarrow> py_error + (ind_key \<times> ind_output) list" where
  "calculate_all_loop df [] acc = Inr acc"
| "calculate_all_loop df ((k, ind) # rest) acc =
     (case indicator_calculate ind df of
        Inl e \<Rightarrow> Inl e
      | Inr out \<Rightarrow> calculate_all_loop df rest (acc @ [(k, out)]))"

definition calculate_all :: "cm_registry \<Rightarrow> frame \<Rightarrow> py_error + (ind_key \<times> ind_output) list" where
  "calculate_all reg df = calculate_all_loop df reg []"

declare pval_num_def [model_defs] indicator_id_def [model_defs] cm_init_def [model_defs] register_indicator_def [model_defs]
  cm_get_indicator_def [model_defs] calculate_all_def [model_defs]

subsection \<open>Reachable registries\<close>

text \<open>The registries a program can build: the empty one of \<open>__init__\<close>, then any
  sequence of \<open>register_indicator\<close> calls.\<close>

inductive cm_reachable :: "cm_registry \<Rightarrow> bool" where
  init: "cm_reachable cm_init"
| register: "cm_reachable reg \<Longrightarrow> cm_reachable (fst (register_indicator ind reg))"

definition cm_wf :: "cm_registry \<Rightarrow> bool" where
  "cm_wf reg =
     (distinct (map fst reg)
      \<and> (\<forall>(k, ind) \<in> set reg. k = indicator_id (ind_name ind) (ind_params ind)))"

subsection \<open>Registration and lookup\<close>

lemma register_indicator_new:
  "indicator_id (ind_name ind) (ind_params ind) \<notin> fst ` set reg \<Longrightarrow>
   register_indicator ind reg = (reg @ [(indicator_id (ind_name ind) (ind_params ind), ind)], True)"
  by (simp add: register_indicator_def)

lemma register_indicator_dup:
  "indicator_id (ind_name ind) (ind_params ind) \<in> fst ` set reg \<Longrightarrow>
   register_indicator ind reg = (reg, False)"
  by (simp add: register_indicator_def)

lemma register_indicator_cases:
  obtains "indicator_id (ind_name ind) (ind_params ind) \<notin> fst ` set reg"
     "register_indicator ind reg = (reg @ [(indicator_id (ind_name ind) (ind_params ind), ind)], True)"
  | "indicator_id (ind_name ind) (ind_params ind) \<in> fst ` set reg"
     "register_indicator ind reg = (reg, False)"
  using register_indicator_new register_indicator_dup by blast

lemma cm_get_indicator_Some:
  "cm_get_indicator reg name (Some ps) =
     (case map_of reg (indicator_id name ps) of
        None \<Rightarrow> Inl (KeyError (''Indicator '' @ name @ '' not registered''))
      | Some ind \<Rightarrow> Inr ind)"
  by (simp add: cm_get_indicator_def)

lemma register_indicator_wf: "cm_wf reg \<Longrightarrow> cm_wf (fst (register_indicator ind reg))"
  by (cases rule: register_indicator_cases [of ind reg]) (auto simp: cm_wf_def)

lemma map_of_wf_member:
  assumes "cm_wf reg" and "(k, ind) \<in> set reg"
  shows "map_of reg (indicator_id (ind_name ind) (ind_params ind)) = Some ind"
proof -
  have "k = indicator_id (ind_name ind) (ind_params ind)" using assms by (auto simp: cm_wf_def)
  moreover have "map_of reg k = Some ind"
    using assms by (simp add: cm_wf_def map_of_is_SomeI)
  ultimately show ?thesis by simp
qed

subsection \<open>calculate_all\<close>

lemma calculate_all_loop_Inr:
  "calculate_all_loop df reg acc = Inr rs \<longleftrightarrow>
     (\<exists>rs'. rs = acc @ rs' \<and> map fst rs' = map fst reg
            \<and> list_all2 (\<lambda>(_, ind) (_, out). indicator_calculate ind df = Inr out) reg rs')"
proof (induction reg arbitrary: acc)
  case Nil
  then show ?case by auto
next
  case (Cons kp reg)
  obtain k ind where kp: "kp = (k, ind)" by fastforce
  show ?case
  proof (cases "indicator_calculate ind df")
    case (Inl e)
    then show ?thesis by (auto simp: kp list_all2_Cons1)
  next
    case (Inr out)
    then show ?thesis using Cons.IH [of "acc @ [(k, out)]"] by (auto simp: kp list_all2_Cons1)
  qed
qed

lemma calculate_all_loop_Inl:
  assumes "(k, ind) \<in> set reg" and "indicator_calculate ind df = Inl e"
  shows "\<exists>e'. calculate_all_loop df reg acc = Inl e'"
  using assms
proof (induction reg arbitrary: acc)
  case Nil
  then show ?case by simp
next
  case (Cons kp reg)
  obtain k' ind' where kp: "kp = (k', ind')" by fastforce
  show ?case by (cases "indicator_calculate ind' df") (use Cons in \<open>auto simp: kp\<close>)
qed


lemma cm_reachable_wf_aux: "cm_reachable reg \<Longrightarrow> cm_wf reg"
proof (induction rule: cm_reachable.induct)
  case init
  then show ?case by (simp add: cm_wf_def cm_init_def)
next
  case (register reg ind)
  from register.IH show ?case by (rule register_indicator_wf)
qed

subsection \<open>Properties\<close>

text \<open>C25: Round trip. When \<open>register_indicator\<close> accepts an indicator (returns
  \<open>True\<close>), \<open>get_indicator\<close> with the indicator's name and parameters returns it from
  the updated manager.\<close>

theorem register_get_roundtrip:
  assumes "register_indicator ind reg = (reg', True)"
  shows "cm_get_indicator reg' (ind_name ind) (Some (ind_params ind)) = Inr ind"
proof (cases rule: register_indicator_cases [of ind reg])
  case 1
  then have "reg' = reg @ [(indicator_id (ind_name ind) (ind_params ind), ind)]" using assms by simp
  moreover have "map_of reg (indicator_id (ind_name ind) (ind_params ind)) = None"
    using 1(1) by (simp add: map_of_eq_None_iff)
  ultimately show ?thesis by (simp add: cm_get_indicator_Some map_of_append map_add_def)
next
  case 2
  then show ?thesis using assms by simp
qed

theorem register_get_roundtrip_witness:
  "register_indicator (SMA 20) cm_init = ([(indicator_id ''SMA'' [(''period'', PInt 20)], SMA 20)], True)
   \<and> cm_get_indicator [(indicator_id ''SMA'' [(''period'', PInt 20)], SMA 20)] ''SMA''
       (Some [(''period'', PInt 20)]) = Inr (SMA 20)"
proof -
  have r: "register_indicator (SMA 20) cm_init = ([(indicator_id ''SMA'' [(''period'', PInt 20)], SMA 20)], True)"
    by (simp add: register_indicator_def cm_init_def)
  show ?thesis using r register_get_roundtrip [OF r] by simp
qed

text \<open>C26: Registering an indicator whose name and parameter items are already
  registered (in any order, with parameter values compared as Python compares them, so
  that \<open>20\<close> and \<open>20.0\<close> are one value) is refused: \<open>register_indicator\<close> returns
  \<open>False\<close> and leaves the manager unchanged, and \<open>get_indicator\<close> with the new
  indicator's name and parameters returns the indicator registered first.\<close>

theorem register_duplicate_refused:
  assumes "cm_wf reg" and "(k, ind0) \<in> set reg"
    and "indicator_id (ind_name ind0) (ind_params ind0) = indicator_id (ind_name ind) (ind_params ind)"
  shows "register_indicator ind reg = (reg, False)
         \<and> cm_get_indicator reg (ind_name ind) (Some (ind_params ind)) = Inr ind0"
proof -
  have k: "k = indicator_id (ind_name ind) (ind_params ind)"
    using assms by (auto simp: cm_wf_def)
  have "indicator_id (ind_name ind) (ind_params ind) \<in> fst ` set reg"
    using assms(2) k by force
  moreover have "map_of reg (indicator_id (ind_name ind) (ind_params ind)) = Some ind0"
    using map_of_wf_member [OF assms(1,2)] assms(3) by simp
  ultimately show ?thesis by (simp add: register_indicator_dup cm_get_indicator_Some)
qed

theorem register_duplicate_refused_witness:
  "cm_wf [(indicator_id ''VWAP'' [(''period'', PInt 20), (''band'', PFloat 2)],
           Base ''VWAP'' [(''period'', PInt 20), (''band'', PFloat 2)])]
   \<and> indicator_id ''VWAP'' [(''period'', PInt 20), (''band'', PFloat 2)]
     = indicator_id ''VWAP'' [(''band'', PInt 2), (''period'', PFloat 20)]
   \<and> register_indicator (Base ''VWAP'' [(''band'', PInt 2), (''period'', PFloat 20)])
       [(indicator_id ''VWAP'' [(''period'', PInt 20), (''band'', PFloat 2)],
         Base ''VWAP'' [(''period'', PInt 20), (''band'', PFloat 2)])]
     = ([(indicator_id ''VWAP'' [(''period'', PInt 20), (''band'', PFloat 2)],
          Base ''VWAP'' [(''period'', PInt 20), (''band'', PFloat 2)])], False)
   \<and> cm_get_indicator
       [(indicator_id ''VWAP'' [(''period'', PInt 20), (''band'', PFloat 2)],
         Base ''VWAP'' [(''period'', PInt 20), (''band'', PFloat 2)])]
       ''VWAP'' (Some [(''band'', PInt 2), (''period'', PFloat 20)])
     = Inr (Base ''VWAP'' [(''period'', PInt 20), (''band'', PFloat 2)])"
proof -
  have wf: "cm_wf [(indicator_id ''VWAP'' [(''period'', PInt 20), (''band'', PFloat 2)],
           Base ''VWAP'' [(''period'', PInt 20), (''band'', PFloat 2)])]"
    by (simp add: cm_wf_def)
  have ps: "indicator_id (ind_name (Base ''VWAP'' [(''period'', PInt 20), (''band'', PFloat 2)]))
                         (ind_params (Base ''VWAP'' [(''period'', PInt 20), (''band'', PFloat 2)]))
        = indicator_id (ind_name (Base ''VWAP'' [(''band'', PInt 2), (''period'', PFloat 20)]))
                       (ind_params (Base ''VWAP'' [(''band'', PInt 2), (''period'', PFloat 20)]))"
    by (auto simp: indicator_id_def pval_num_def)
  show ?thesis
    using wf ps register_duplicate_refused [OF wf _ ps, of "indicator_id ''VWAP'' [(''period'', PInt 20), (''band'', PFloat 2)]"]
    by simp
qed

text \<open>C27: In every manager built by \<open>__init__\<close> and \<open>register_indicator\<close> calls, every
  stored indicator is found again by \<open>get_indicator\<close> with its own name and
  parameters: identifiers are unique and each is the identifier of its indicator.\<close>

theorem cm_reachable_lookup:
  assumes "cm_reachable reg" and "(k, ind) \<in> set reg"
  shows "cm_get_indicator reg (ind_name ind) (Some (ind_params ind)) = Inr ind"
  using map_of_wf_member [OF cm_reachable_wf_aux [OF assms(1)] assms(2)]
  by (simp add: cm_get_indicator_Some)

theorem cm_reachable_lookup_witness:
  "cm_get_indicator
     [(indicator_id ''SMA'' [(''period'', PInt 20)], SMA 20),
      (indicator_id ''EMA'' [(''period'', PInt 10)], EMA 10)]
     (ind_name (EMA 10)) (Some (ind_params (EMA 10))) = Inr (EMA 10)"
proof -
  have reach: "cm_reachable (fst (register_indicator (EMA 10) (fst (register_indicator (SMA 20) cm_init))))"
    by (intro cm_reachable.register cm_reachable.init)
  have eq: "fst (register_indicator (EMA 10) (fst (register_indicator (SMA 20) cm_init)))
     = [(indicator_id ''SMA'' [(''period'', PInt 20)], SMA 20),
        (indicator_id ''EMA'' [(''period'', PInt 10)], EMA 10)]"
    by (simp add: register_indicator_def cm_init_def indicator_id_def)
  have mem: "(indicator_id ''EMA'' [(''period'', PInt 10)], EMA 10)
     \<in> set [(indicator_id ''SMA'' [(''period'', PInt 20)], SMA 20),
            (indicator_id ''EMA'' [(''period'', PInt 10)], EMA 10)]" by simp
  show ?thesis using cm_reachable_lookup [OF reach [unfolded eq] mem] .
qed

text \<open>C28: \<open>calculate_all\<close> returns exactly when every registered indicator's
  \<open>calculate\<close> returns; the result then has one entry per registered indicator, in
  registration order, under its identifier, holding that indicator's result.\<close>

theorem calculate_all_spec:
  "calculate_all reg df = Inr rs \<longleftrightarrow>
     map fst rs = map fst reg
     \<and> list_all2 (\<lambda>(_, ind) (_, out). indicator_calculate ind df = Inr out) reg rs"
  using calculate_all_loop_Inr [of df reg "[]" rs] by (simp add: calculate_all_def)

text \<open>One failing indicator fails the whole call: if any registered indicator's
  \<open>calculate\<close> raises (a plain \<open>Indicator\<close> raises \<open>NotImplementedError\<close>, every
  subclass raises \<open>KeyError\<close> on a frame without its columns), \<open>calculate_all\<close> raises
  and returns no results.\<close>

theorem calculate_all_raises:
  assumes "(k, ind) \<in> set reg" and "indicator_calculate ind df = Inl e"
  shows "\<exists>e'. calculate_all reg df = Inl e'"
  using calculate_all_loop_Inl [OF assms] by (simp add: calculate_all_def)

theorem calculate_all_raises_witness:
  "\<exists>e'. calculate_all [(indicator_id ''SMA'' [(''period'', PInt 2)], SMA 2)] [(''open'', [1, 2])] = Inl e'"
proof -
  have mem: "(indicator_id ''SMA'' [(''period'', PInt 2)], SMA 2)
               \<in> set [(indicator_id ''SMA'' [(''period'', PInt 2)], SMA 2)]" by simp
  have e: "indicator_calculate (SMA 2) [(''open'', [1, 2])] = Inl (KeyError ''close'')"
    by (simp add: sma_calculate_def frame_col_def)
  show ?thesis using calculate_all_raises [OF mem e] .
qed


end
