(* ===== verification/Engine.thy ===== *)
theory Engine
  imports Prelude
begin

text \<open>
  The trading engine of \<open>src/FuturesQuant/core/engine.py\<close> (\<open>TradingEngine\<close>) and
  the strategies it runs, \<open>BaseStrategy\<close> of
  \<open>src/FuturesQuant/FuturesQuantCopilotFiles/FuturesQuant_strategies_base_strategy.py\<close>.
  A strategy's \<open>generate_signals\<close> is abstract in the source; here it is a field of
  the strategy, a function of the engine's tick number that returns the signal
  dictionary (symbol to \<open>'BUY'\<close>, \<open>'SELL'\<close>, \<open>'HOLD'\<close>) or raises. The only
  effects of \<open>_enter_position\<close>, \<open>_exit_position\<close> and of the error handlers are log
  records; they are the events of the model. The engine's \<open>start\<close> loops while
  \<open>is_running\<close>; nothing in a single thread clears the flag except the exception
  handler, so the loop is modelled with fuel: out of fuel, the result is the
  trace so far and the fact that \<open>start\<close> has not returned.
\<close>

subsection \<open>Strategies\<close>

record strategy =
  st_name :: string
  st_symbols :: "string list"
  is_active :: bool
  generate_signals :: "nat \<Rightarrow> py_error + (string \<times> string) list"

datatype event =
    EnterPos string string
  | ExitPos string string
  | StrategyError string py_error
  | EngineError py_error

definition strategy_init ::
  "string \<Rightarrow> string list \<Rightarrow> (nat \<Rightarrow> py_error + (string \<times> string) list) \<Rightarrow> strategy" where
  "strategy_init name symbols gen =
     \<lparr>st_name = name, st_symbols = symbols, is_active = False, generate_signals = gen\<rparr>"

definition strategy_start :: "strategy \<Rightarrow> strategy" where
  "strategy_start s = s\<lparr>is_active := True\<rparr>"

definition strategy_stop :: "strategy \<Rightarrow> strategy" where
  "strategy_stop s = s\<lparr>is_active := False\<rparr>"

text \<open>\<open>_process_signals\<close>: \<open>'BUY'\<close> enters, \<open>'SELL'\<close> exits, anything else is ignored.\<close>

fun process_signals :: "string \<Rightarrow> (string \<times> string) list \<Rightarrow> event list" where
  "process_signals name [] = []"
| "process_signals name ((symb, sg) # rest) =
     (if sg = ''BUY'' then [EnterPos name symb]
      else if sg = ''SELL'' then [ExitPos name symb] else [])
     @ process_signals name rest"

definition strategy_execute :: "nat \<Rightarrow> strategy \<Rightarrow> py_error + event list" where
  "strategy_execute t s =
     (if \<not> is_active s then Inr []
      else case generate_signals s t of
             Inl e \<Rightarrow> Inl e
           | Inr sigs \<Rightarrow> Inr (process_signals (st_name s) sigs))"

subsection \<open>The engine\<close>

text \<open>\<open>config.get("refresh_interval", 1)\<close>: \<open>None\<close> when the key is missing.\<close>

record engine =
  refresh_interval :: "real option"
  strategies :: "(string \<times> strategy) list"
  is_running :: bool

definition engine_init :: "real option \<Rightarrow> engine" where
  "engine_init cfg = \<lparr>refresh_interval = cfg, strategies = [], is_running = False\<rparr>"

definition add_strategy :: "string \<Rightarrow> strategy \<Rightarrow> engine \<Rightarrow> engine" where
  "add_strategy sid s e = e\<lparr>strategies := dict_set sid s (strategies e)\<rparr>"

definition remove_strategy :: "string \<Rightarrow> engine \<Rightarrow> engine" where
  "remove_strategy sid e =
     (if sid \<in> fst ` set (strategies e) then e\<lparr>strategies := dict_del sid (strategies e)\<rparr> else e)"

definition engine_stop :: "engine \<Rightarrow> engine" where
  "engine_stop e = e\<lparr>is_running := False\<rparr>"

text \<open>\<open>_execute_strategies\<close>: every strategy in insertion order; an exception of one
  strategy is logged and the loop goes on.\<close>

fun execute_strategies :: "nat \<Rightarrow> (string \<times> strategy) list \<Rightarrow> event list" where
  "execute_strategies t [] = []"
| "execute_strategies t ((sid, s) # rest) =
     (case strategy_execute t s of Inl err \<Rightarrow> [StrategyError sid err] | Inr evs \<Rightarrow> evs)
     @ execute_strategies t rest"

definition refresh :: "engine \<Rightarrow> real" where
  "refresh e = (case refresh_interval e of None \<Rightarrow> 1 | Some x \<Rightarrow> x)"

definition time_sleep :: "real \<Rightarrow> py_error + unit" where
  "time_sleep x = (if x < 0 then Inl (ValueError ''sleep length must be non-negative'') else Inr ())"

datatype run_result = Returned engine "event list" | Running "event list"

text \<open>One iteration of \<open>while self.is_running\<close> per unit of fuel; \<open>_process_data\<close> is
  \<open>pass\<close>. An exception of \<open>time.sleep\<close> is caught by \<open>start\<close>, which calls \<open>stop\<close>
  and returns.\<close>

fun engine_loop :: "nat \<Rightarrow> nat \<Rightarrow> engine \<Rightarrow> event list \<Rightarrow> run_result" where
  "engine_loop 0 t e tr = Running tr"
| "engine_loop (Suc n) t e tr =
     (if \<not> is_running e then Returned e tr
      else
        (let tr' = tr @ execute_strategies t (strategies e)
         in case time_sleep (refresh e) of
              Inl err \<Rightarrow> Returned (engine_stop e) (tr' @ [EngineError err])
            | Inr _ \<Rightarrow> engine_loop n (Suc t) e tr'))"

definition engine_start :: "nat \<Rightarrow> engine \<Rightarrow> run_result" where
  "engine_start fuel e = engine_loop fuel 0 (e\<lparr>is_running := True\<rparr>) []"

declare strategy_init_def [model_defs] strategy_start_def [model_defs] strategy_stop_def [model_defs]
  strategy_execute_def [model_defs] engine_init_def [model_defs] add_strategy_def [model_defs]
  remove_strategy_def [model_defs] engine_stop_def [model_defs] refresh_def [model_defs]
  time_sleep_def [model_defs] engine_start_def [model_defs]

subsection \<open>Reachable engines\<close>

text \<open>The engines a single-threaded program can build: \<open>__init__\<close>, then any sequence
  of \<open>add_strategy\<close>, \<open>remove_strategy\<close>, \<open>stop\<close> and calls of \<open>start\<close> that return.\<close>

inductive engine_reachable :: "engine \<Rightarrow> bool" where
  init: "engine_reachable (engine_init cfg)"
| add: "engine_reachable e \<Longrightarrow> engine_reachable (add_strategy sid s e)"
| remove: "engine_reachable e \<Longrightarrow> engine_reachable (remove_strategy sid e)"
| stop: "engine_reachable e \<Longrightarrow> engine_reachable (engine_stop e)"
| start: "engine_reachable e \<Longrightarrow> engine_start n e = Returned e' tr \<Longrightarrow> engine_reachable e'"

definition engine_inv :: "engine \<Rightarrow> bool" where
  "engine_inv e = (distinct (map fst (strategies e)) \<and> \<not> is_running e)"

subsection \<open>Signals and strategy execution\<close>

lemma process_signals_append [simp]:
  "process_signals n (xs @ ys) = process_signals n xs @ process_signals n ys"
  by (induction n xs rule: process_signals.induct) simp_all

lemma EnterPos_process_signals:
  "EnterPos n' symb \<in> set (process_signals n sigs) \<longleftrightarrow> n' = n \<and> (symb, ''BUY'') \<in> set sigs"
  by (induction n sigs rule: process_signals.induct) auto

lemma ExitPos_process_signals:
  "ExitPos n' symb \<in> set (process_signals n sigs) \<longleftrightarrow> n' = n \<and> (symb, ''SELL'') \<in> set sigs"
  by (induction n sigs rule: process_signals.induct) auto

lemma execute_strategies_append [simp]:
  "execute_strategies t (xs @ ys) = execute_strategies t xs @ execute_strategies t ys"
  by (induction t xs rule: execute_strategies.induct) simp_all

lemma strategy_execute_Inr_Cons:
  assumes "strategy_execute t s = Inr evs" and "ev \<in> set evs"
  shows "is_active s \<and> (\<exists>sigs. generate_signals s t = Inr sigs \<and> ev \<in> set (process_signals (st_name s) sigs))"
  using assms by (auto simp: strategy_execute_def split: if_splits sum.splits)

lemma position_event_source:
  assumes "ev \<in> set (execute_strategies t ss)" and "\<And>sid err. ev \<noteq> StrategyError sid err"
  shows "\<exists>sid s sigs. (sid, s) \<in> set ss \<and> is_active s \<and> generate_signals s t = Inr sigs
                     \<and> ev \<in> set (process_signals (st_name s) sigs)"
  using assms(1)
proof (induction t ss rule: execute_strategies.induct)
  case (1 t)
  then show ?case by simp
next
  case (2 t sid s rest)
  show ?case
  proof (cases "strategy_execute t s")
    case (Inl err)
    then show ?thesis using 2 assms(2) by auto
  next
    case (Inr evs)
    then show ?thesis using 2 strategy_execute_Inr_Cons [OF Inr] by fastforce
  qed
qed

subsection \<open>The loop\<close>

lemma engine_loop_forever:
  assumes "is_running e" and "0 \<le> refresh e"
  shows "engine_loop n t e tr
           = Running (tr @ concat (map (\<lambda>k. execute_strategies k (strategies e)) [t..<t + n]))"
proof (induction n arbitrary: t tr)
  case 0
  then show ?case by simp
next
  case (Suc n)
  have "[t..<t + Suc n] = t # [Suc t..<Suc t + n]" by (simp add: upt_conv_Cons)
  then show ?case using assms Suc [of "Suc t"] by (simp add: time_sleep_def Let_def)
qed

lemma engine_loop_Returned:
  assumes "is_running e" and "engine_loop n t e tr = Returned e' tr'"
  shows "e' = engine_stop e"
  using assms(2)
proof (induction n arbitrary: t tr)
  case 0
  then show ?case by simp
next
  case (Suc n)
  then show ?case using assms(1) by (simp add: Let_def split: sum.splits)
qed

lemma engine_start_Returned:
  assumes "engine_start n e = Returned e' tr"
  shows "strategies e' = strategies e \<and> \<not> is_running e'"
  using engine_loop_Returned [of "e\<lparr>is_running := True\<rparr>" n 0 "[]" e' tr] assms
  by (simp add: engine_start_def engine_stop_def)

lemma engine_reachable_inv_aux: "engine_reachable e \<Longrightarrow> engine_inv e"
proof (induction rule: engine_reachable.induct)
  case (init cfg)
  then show ?case by (simp add: engine_inv_def engine_init_def)
next
  case (add e sid s)
  then show ?case by (simp add: engine_inv_def add_strategy_def)
next
  case (remove e sid)
  then show ?case by (simp add: engine_inv_def remove_strategy_def)
next
  case (stop e)
  then show ?case by (simp add: engine_inv_def engine_stop_def)
next
  case (start e n e' tr)
  then show ?case using engine_start_Returned [OF start.hyps(2)] by (simp add: engine_inv_def)
qed


subsection \<open>Properties\<close>

text \<open>C31: With a refresh interval that is missing or not negative, \<open>start\<close> never
  returns: after any number \<open>n\<close> of iterations it is still running, and it has run
  every strategy of the engine once per iteration, in insertion order, tick after
  tick.\<close>

theorem engine_start_never_returns:
  assumes "0 \<le> refresh e"
  shows "engine_start n e = Running (concat (map (\<lambda>t. execute_strategies t (strategies e)) [0..<n]))"
proof -
  have "engine_loop n 0 (e\<lparr>is_running := True\<rparr>) []
        = Running ([] @ concat (map (\<lambda>k. execute_strategies k (strategies (e\<lparr>is_running := True\<rparr>))) [0..<0 + n]))"
    using assms by (intro engine_loop_forever) (simp_all add: refresh_def)
  then show ?thesis by (simp add: engine_start_def)
qed

theorem engine_start_never_returns_witness:
  "engine_start 3 (engine_init None) = Running []"
proof -
  have "0 \<le> refresh (engine_init None)" by (simp add: refresh_def engine_init_def)
  then show ?thesis using engine_start_never_returns [of "engine_init None" 3]
    by (simp add: engine_init_def)
qed

text \<open>C32: With a negative refresh interval, \<open>time.sleep\<close> raises \<open>ValueError\<close> after
  the first iteration; \<open>start\<close> catches it, logs it, calls \<open>stop\<close> and returns, having
  run the strategies exactly once.\<close>

theorem engine_start_bad_interval:
  assumes "refresh e < 0"
  shows "engine_start (Suc n) e
         = Returned (e\<lparr>is_running := False\<rparr>)
             (execute_strategies 0 (strategies e)
              @ [EngineError (ValueError ''sleep length must be non-negative'')])"
  using assms by (simp add: engine_start_def time_sleep_def refresh_def engine_stop_def Let_def)

theorem engine_start_bad_interval_witness:
  "engine_start 1 (engine_init (Some (-1)))
   = Returned (engine_init (Some (-1)))
       [EngineError (ValueError ''sleep length must be non-negative'')]"
proof -
  have "refresh (engine_init (Some (-1))) < 0" by (simp add: refresh_def engine_init_def)
  then show ?thesis using engine_start_bad_interval [of "engine_init (Some (-1))" 0]
    by (simp add: engine_init_def)
qed

text \<open>C33: Strategies are isolated from each other's failures: in every iteration,
  each strategy of the engine either contributes its whole list of position events
  as one contiguous block of the tick's log, or, when its \<open>generate_signals\<close> raises,
  a logged error under its identifier; what the other strategies do does not
  matter.\<close>

theorem execute_strategies_isolation:
  assumes "(sid, s) \<in> set ss"
  shows "(case strategy_execute t s of
            Inl err \<Rightarrow> StrategyError sid err \<in> set (execute_strategies t ss)
          | Inr evs \<Rightarrow> (\<exists>pre post. execute_strategies t ss = pre @ evs @ post))"
proof -
  obtain xs ys where ss: "ss = xs @ (sid, s) # ys" using assms by (metis split_list)
  show ?thesis
  proof (cases "strategy_execute t s")
    case (Inl err)
    then show ?thesis by (simp add: ss)
  next
    case (Inr evs)
    then have "execute_strategies t ss = execute_strategies t xs @ evs @ execute_strategies t ys"
      by (simp add: ss)
    then show ?thesis using Inr by auto
  qed
qed

theorem execute_strategies_isolation_witness:
  "execute_strategies 0
     [(''a'', strategy_start (strategy_init ''A'' [''ES''] (\<lambda>t. Inl (KeyError ''close'')))),
      (''b'', strategy_start (strategy_init ''B'' [''NQ''] (\<lambda>t. Inr [(''NQ'', ''BUY'')])))]
   = [StrategyError ''a'' (KeyError ''close''), EnterPos ''B'' ''NQ'']
   \<and> (\<exists>pre post. [StrategyError ''a'' (KeyError ''close''), EnterPos ''B'' ''NQ'']
                   = pre @ [EnterPos ''B'' ''NQ''] @ post)"
proof -
  have mem: "(''b'', strategy_start (strategy_init ''B'' [''NQ''] (\<lambda>t. Inr [(''NQ'', ''BUY'')])))
     \<in> set [(''a'', strategy_start (strategy_init ''A'' [''ES''] (\<lambda>t. Inl (KeyError ''close'')))),
            (''b'', strategy_start (strategy_init ''B'' [''NQ''] (\<lambda>t. Inr [(''NQ'', ''BUY'')])))]"
    by simp
  have ex: "execute_strategies 0
     [(''a'', strategy_start (strategy_init ''A'' [''ES''] (\<lambda>t. Inl (KeyError ''close'')))),
      (''b'', strategy_start (strategy_init ''B'' [''NQ''] (\<lambda>t. Inr [(''NQ'', ''BUY'')])))]
     = [StrategyError ''a'' (KeyError ''close''), EnterPos ''B'' ''NQ'']"
    by (simp add: strategy_execute_def strategy_start_def strategy_init_def)
  have "strategy_execute 0 (strategy_start (strategy_init ''B'' [''NQ''] (\<lambda>t. Inr [(''NQ'', ''BUY'')])))
        = Inr [EnterPos ''B'' ''NQ'']"
    by (simp add: strategy_execute_def strategy_start_def strategy_init_def)
  then show ?thesis using execute_strategies_isolation [OF mem, of 0] ex by simp
qed

text \<open>C34: Only an active strategy's own \<open>'BUY'\<close> and \<open>'SELL'\<close> signals open and
  close positions: every enter (exit) event of an iteration names a strategy of the
  engine that is active and whose \<open>generate_signals\<close> returned \<open>'BUY'\<close> (\<open>'SELL'\<close>)
  for that symbol in that iteration; a stopped strategy never trades.\<close>

theorem position_events_from_active_signals:
  "(EnterPos n symb \<in> set (execute_strategies t ss) \<longrightarrow>
      (\<exists>sid s sigs. (sid, s) \<in> set ss \<and> is_active s \<and> st_name s = n
                   \<and> generate_signals s t = Inr sigs \<and> (symb, ''BUY'') \<in> set sigs))
   \<and> (ExitPos n symb \<in> set (execute_strategies t ss) \<longrightarrow>
      (\<exists>sid s sigs. (sid, s) \<in> set ss \<and> is_active s \<and> st_name s = n
                   \<and> generate_signals s t = Inr sigs \<and> (symb, ''SELL'') \<in> set sigs))"
proof (intro conjI impI)
  assume "EnterPos n symb \<in> set (execute_strategies t ss)"
  then obtain sid s sigs where "(sid, s) \<in> set ss" "is_active s" "generate_signals s t = Inr sigs"
    and "EnterPos n symb \<in> set (process_signals (st_name s) sigs)"
    using position_event_source [of "EnterPos n symb" t ss] by blast
  then show "\<exists>sid s sigs. (sid, s) \<in> set ss \<and> is_active s \<and> st_name s = n
               \<and> generate_signals s t = Inr sigs \<and> (symb, ''BUY'') \<in> set sigs"
    by (auto simp: EnterPos_process_signals)
next
  assume "ExitPos n symb \<in> set (execute_strategies t ss)"
  then obtain sid s sigs where "(sid, s) \<in> set ss" "is_active s" "generate_signals s t = Inr sigs"
    and "ExitPos n symb \<in> set (process_signals (st_name s) sigs)"
    using position_event_source [of "ExitPos n symb" t ss] by blast
  then show "\<exists>sid s sigs. (sid, s) \<in> set ss \<and> is_active s \<and> st_name s = n
               \<and> generate_signals s t = Inr sigs \<and> (symb, ''SELL'') \<in> set sigs"
    by (auto simp: ExitPos_process_signals)
qed

theorem position_events_from_active_signals_witness:
  "EnterPos ''B'' ''NQ''
     \<in> set (execute_strategies 0 [(''b'', strategy_start (strategy_init ''B'' [''NQ''] (\<lambda>t. Inr [(''NQ'', ''BUY'')])))])
   \<and> (\<exists>sid s sigs. (sid, s) \<in> set [(''b'', strategy_start (strategy_init ''B'' [''NQ''] (\<lambda>t. Inr [(''NQ'', ''BUY'')])))]
        \<and> is_active s \<and> st_name s = ''B'' \<and> generate_signals s 0 = Inr sigs \<and> (''NQ'', ''BUY'') \<in> set sigs)"
proof -
  have ev: "EnterPos ''B'' ''NQ''
     \<in> set (execute_strategies 0 [(''b'', strategy_start (strategy_init ''B'' [''NQ''] (\<lambda>t. Inr [(''NQ'', ''BUY'')])))])"
    by (simp add: strategy_execute_def strategy_start_def strategy_init_def)
  show ?thesis using ev position_events_from_active_signals
    [of "''B''" "''NQ''" 0 "[(''b'', strategy_start (strategy_init ''B'' [''NQ''] (\<lambda>t. Inr [(''NQ'', ''BUY'')])))]"]
    by blast
qed

text \<open>C35: In every engine a single-threaded program can reach (construction, then
  any sequence of \<open>add_strategy\<close>, \<open>remove_strategy\<close>, \<open>stop\<close> and calls of \<open>start\<close>
  that return) the engine is not running and its strategy identifiers are
  distinct.\<close>

theorem engine_reachable_inv:
  assumes "engine_reachable e"
  shows "distinct (map fst (strategies e)) \<and> \<not> is_running e"
  using engine_reachable_inv_aux [OF assms] by (simp add: engine_inv_def)

theorem engine_reachable_inv_witness:
  "distinct (map fst (strategies (add_strategy ''a'' (strategy_init ''A'' [] (\<lambda>t. Inr [])) (engine_init None))))
   \<and> \<not> is_running (add_strategy ''a'' (strategy_init ''A'' [] (\<lambda>t. Inr [])) (engine_init None))"
  by (rule engine_reachable_inv [OF engine_reachable.add [OF engine_reachable.init]])

text \<open>Round trip: adding a strategy under a new identifier and removing it
  again gives back the engine.\<close>

theorem add_remove_strategy:
  assumes "sid \<notin> fst ` set (strategies e)"
  shows "remove_strategy sid (add_strategy sid s e) = e"
  using assms by (simp add: remove_strategy_def add_strategy_def dict_set_absent dict_del_append_new)

theorem add_remove_strategy_witness:
  "remove_strategy ''a'' (add_strategy ''a'' (strategy_init ''A'' [] (\<lambda>t. Inr [])) (engine_init None))
   = engine_init None"
  by (rule add_remove_strategy) (simp add: engine_init_def)


end
