(* ===== verification/Computation.thy ===== *)
theory Computation
  imports Prelude
begin

text \<open>
  The message-processing engine \<open>ComputationEngine\<close> of
  \<open>src/src/computation/python/engine.py\<close>. It receives JSON messages over a WebSocket
  and answers \<open>alert\<close>, \<open>market_data\<close> and \<open>model_request\<close> messages; models are
  loaded by name from the package \<open>models\<close> and cached. The messages are JSON values;
  the loading of a model (\<open>importlib.import_module\<close>, \<open>getattr\<close> of the class and its
  construction) is a parameter \<open>env\<close> of the model, as is the fallback
  \<open>models.generic.GenericModel()\<close>; a loaded model is a record of its three methods.
  The socket itself is a list of received messages (each with the timestamp the loop
  would write) and a list of what the loop sends or logs. \<open>str(e)\<close> of an exception is
  rendered from the exception's payload only, and \<open>str\<close> of a number inside an
  f-string is not modelled.
\<close>

subsection \<open>JSON values\<close>

datatype json =
    JNull
  | JBool bool
  | JNum real
  | JStr string
  | JList "json list"
  | JObj "(string \<times> json) list"

text \<open>Python truthiness of a decoded JSON value.\<close>

fun truthy :: "json \<Rightarrow> bool" where
  "truthy JNull = False"
| "truthy (JBool b) = b"
| "truthy (JNum r) = (r \<noteq> 0)"
| "truthy (JStr s) = (s \<noteq> [])"
| "truthy (JList xs) = (xs \<noteq> [])"
| "truthy (JObj kvs) = (kvs \<noteq> [])"

text \<open>\<open>d.get(k, default)\<close>: only a dictionary has \<open>get\<close>.\<close>

definition jget :: "(string \<times> json) list \<Rightarrow> string \<Rightarrow> json \<Rightarrow> json" where
  "jget kvs k d = (case map_of kvs k of None \<Rightarrow> d | Some v \<Rightarrow> v)"

fun py_get :: "json \<Rightarrow> string \<Rightarrow> json \<Rightarrow> py_error + json" where
  "py_get (JObj kvs) k d = Inr (jget kvs k d)"
| "py_get _ k d = Inl AttributeError"

fun hashable :: "json \<Rightarrow> bool" where
  "hashable (JList _) = False"
| "hashable (JObj _) = False"
| "hashable _ = True"

fun py_str :: "json \<Rightarrow> string" where
  "py_str JNull = ''None''"
| "py_str (JBool b) = (if b then ''True'' else ''False'')"
| "py_str (JStr s) = s"
| "py_str _ = ''<value>''"

fun err_str :: "py_error \<Rightarrow> string" where
  "err_str (KeyError s) = s"
| "err_str (ValueError s) = s"
| "err_str (NotImplementedError s) = s"
| "err_str (ImportError s) = s"
| "err_str (NameError s) = s"
| "err_str _ = []"

definition error_dict :: "string \<Rightarrow> json" where
  "error_dict msg = JObj [(''status'', JStr ''error''), (''message'', JStr msg)]"

text \<open>\<open>str.lower()\<close> on ASCII letters and \<open>str.replace(" ", "_")\<close>.\<close>

definition py_lower :: "string \<Rightarrow> string" where
  "py_lower s =
     map (\<lambda>c. if (65::nat) \<le> of_char c \<and> of_char c \<le> (90::nat) then char_of (of_char c + (32::nat)) else c) s"

definition space_to_underscore :: "string \<Rightarrow> string" where
  "space_to_underscore s = map (\<lambda>c. if c = CHR '' '' then CHR ''_'' else c) s"

subsection \<open>Models and the engine state\<close>

record model_obj =
  m_process :: "json \<Rightarrow> json \<Rightarrow> py_error + json"
  m_run :: "json \<Rightarrow> py_error + json"
  m_info :: "py_error + json"

type_synonym module_env = "json \<Rightarrow> py_error + model_obj"

record comp_state =
  comp_port :: int
  models :: "(json \<times> model_obj) list"
  data_cache :: "(json \<times> json) list"

definition comp_init :: "int \<Rightarrow> comp_state" where
  "comp_init p = \<lparr>comp_port = p, models = [], data_cache = []\<rparr>"

text \<open>\<open>_get_model\<close>: the cache first (a lookup needs a hashable key), then the loader;
  a loaded model is cached before it is returned, and a loading error is re-raised.\<close>

definition get_model :: "module_env \<Rightarrow> comp_state \<Rightarrow> json \<Rightarrow> comp_state \<times> (py_error + model_obj)" where
  "get_model env st name =
     (if \<not> hashable name then (st, Inl TypeError)
      else case map_of (models st) name of
        Some m \<Rightarrow> (st, Inr m)
      | None \<Rightarrow> (case env name of
                  Inl e \<Rightarrow> (st, Inl e)
                | Inr m \<Rightarrow> (st\<lparr>models := dict_set name m (models st)\<rparr>, Inr m)))"

text \<open>\<open>_get_model_for_indicator\<close>: only a string has \<open>lower\<close>; an \<open>ImportError\<close> of the
  specific model falls back to the generic one.\<close>

definition get_model_for_indicator ::
  "module_env \<Rightarrow> (py_error + model_obj) \<Rightarrow> comp_state \<Rightarrow> json \<Rightarrow> comp_state \<times> (py_error + model_obj)" where
  "get_model_for_indicator env generic st ind =
     (case ind of
        JStr s \<Rightarrow>
          (case get_model env st (JStr (space_to_underscore (py_lower s))) of
             (st', Inl (ImportError _)) \<Rightarrow> (st', generic)
           | r \<Rightarrow> r)
      | _ \<Rightarrow> (st, Inl AttributeError))"

text \<open>\<open>confidence > 0.8\<close>: a number or a bool (an \<open>int\<close> in Python) compares, anything
  else raises \<open>TypeError\<close>.\<close>

fun py_gt :: "json \<Rightarrow> real \<Rightarrow> py_error + bool" where
  "py_gt (JNum c) t = Inr (t < c)"
| "py_gt (JBool b) t = Inr (t < (if b then 1 else 0))"
| "py_gt _ t = Inl TypeError"

definition calculate_position_size :: "json \<Rightarrow> py_error + real" where
  "calculate_position_size result =
     (case py_get result ''confidence'' (JNum 0.5) of
        Inl e \<Rightarrow> Inl e
      | Inr conf \<Rightarrow>
          (case py_gt conf 0.8 of
             Inl e \<Rightarrow> Inl e
           | Inr True \<Rightarrow> Inr 1
           | Inr False \<Rightarrow>
               (case py_gt conf 0.6 of Inl e \<Rightarrow> Inl e | Inr True \<Rightarrow> Inr 0.5 | Inr False \<Rightarrow> Inr 0.25)))"

declare py_lower_def [model_defs] space_to_underscore_def [model_defs] error_dict_def [model_defs]
  comp_init_def [model_defs] get_model_def [model_defs] get_model_for_indicator_def [model_defs]
  calculate_position_size_def [model_defs]

subsection \<open>Message handlers\<close>

text \<open>The \<open>try\<close> block of \<open>process_alert\<close>; the handler turns any exception into an
  error dictionary.\<close>

definition alert_body ::
  "module_env \<Rightarrow> (py_error + model_obj) \<Rightarrow> comp_state \<Rightarrow> json \<Rightarrow> comp_state \<times> (py_error + json)" where
  "alert_body env generic st alert =
     (case alert of
        JObj akv \<Rightarrow>
          (let ind = jget akv ''indicator'' JNull;
               symbol = jget akv ''ticker'' JNull;
               values = jget akv ''values'' (JObj [])
           in case get_model_for_indicator env generic st ind of
                (st', Inl e) \<Rightarrow> (st', Inl e)
              | (st', Inr model) \<Rightarrow>
                  (case m_process model symbol values of
                     Inl e \<Rightarrow> (st', Inl e)
                   | Inr (JObj rkv) \<Rightarrow>
                       (let sg = jget rkv ''signal'' JNull
                        in if \<not> truthy sg
                           then (st', Inr (JObj [(''status'', JStr ''processed''), (''no_signal'', JBool True)]))
                           else (case calculate_position_size (JObj rkv) of
                                   Inl e \<Rightarrow> (st', Inl e)
                                 | Inr q \<Rightarrow>
                                     (st', Inr (JObj [(''type'', JStr ''signal''), (''symbol'', symbol),
                                       (''action'', sg), (''quantity'', JNum q),
                                       (''price'', jget rkv ''price'' JNull),
                                       (''confidence'', jget rkv ''confidence'' (JNum 0.5)),
                                       (''source'', ind)]))))
                   | Inr _ \<Rightarrow> (st', Inl AttributeError)))
      | _ \<Rightarrow> (st, Inl AttributeError))"

definition process_alert ::
  "module_env \<Rightarrow> (py_error + model_obj) \<Rightarrow> comp_state \<Rightarrow> json \<Rightarrow> comp_state \<times> json" where
  "process_alert env generic st alert =
     (case alert_body env generic st alert of
        (st', Inl e) \<Rightarrow> (st', error_dict (err_str e))
      | (st', Inr r) \<Rightarrow> (st', r))"

text \<open>\<open>pd.DataFrame(bars)\<close> accepts a list or a dictionary and raises on a scalar; its
  finer checks on the shape of the bars are not modelled.\<close>

fun to_frame :: "json \<Rightarrow> py_error + json" where
  "to_frame (JList xs) = Inr (JList xs)"
| "to_frame (JObj kvs) = Inr (JObj kvs)"
| "to_frame _ = Inl (ValueError ''DataFrame constructor not properly called!'')"

text \<open>\<open>process_market_data\<close> has no handler: its exceptions reach the loop.\<close>

definition process_market_data :: "comp_state \<Rightarrow> json \<Rightarrow> comp_state \<times> (py_error + json)" where
  "process_market_data st d =
     (case d of
        JObj kvs \<Rightarrow>
          (let symbol = jget kvs ''symbol'' JNull; bars = jget kvs ''bars'' JNull
           in if \<not> truthy symbol \<or> \<not> truthy bars
              then (st, Inr (error_dict ''Missing symbol or data''))
              else (case to_frame bars of
                      Inl e \<Rightarrow> (st, Inl e)
                    | Inr df \<Rightarrow>
                        if \<not> hashable symbol then (st, Inl TypeError)
                        else (st\<lparr>data_cache := dict_set symbol df (data_cache st)\<rparr>,
                              Inr (JObj [(''status'', JStr ''success''),
                                         (''message'', JStr (''Cached data for '' @ py_str symbol))]))))
      | _ \<Rightarrow> (st, Inl AttributeError))"

text \<open>The \<open>try\<close> block of \<open>process_model_request\<close>; \<open>model.run(**params)\<close> needs a
  dictionary of keyword arguments.\<close>

definition model_request_body ::
  "module_env \<Rightarrow> comp_state \<Rightarrow> json \<Rightarrow> json \<Rightarrow> json \<Rightarrow> comp_state \<times> (py_error + json)" where
  "model_request_body env st name action params =
     (case get_model env st name of
        (st', Inl e) \<Rightarrow> (st', Inl e)
      | (st', Inr model) \<Rightarrow>
          if action = JStr ''run'' then
            (case (case params of JObj _ \<Rightarrow> m_run model params | _ \<Rightarrow> Inl TypeError) of
               Inl e \<Rightarrow> (st', Inl e)
             | Inr r \<Rightarrow> (st', Inr (JObj [(''status'', JStr ''success''), (''result'', r)])))
          else if action = JStr ''info'' then
            (case m_info model of
               Inl e \<Rightarrow> (st', Inl e)
             | Inr i \<Rightarrow> (st', Inr (JObj [(''status'', JStr ''success''), (''info'', i)])))
          else (st', Inr (error_dict (''Unknown action: '' @ py_str action))))"

definition process_model_request ::
  "module_env \<Rightarrow> comp_state \<Rightarrow> json \<Rightarrow> comp_state \<times> (py_error + json)" where
  "process_model_request env st req =
     (case req of
        JObj kvs \<Rightarrow>
          (let name = jget kvs ''model'' JNull;
               action = jget kvs ''action'' JNull;
               params = jget kvs ''params'' (JObj [])
           in if \<not> truthy name \<or> \<not> truthy action
              then (st, Inr (error_dict ''Missing model name or action''))
              else (case model_request_body env st name action params of
                      (st', Inl e) \<Rightarrow> (st', Inr (error_dict (err_str e)))
                    | (st', Inr r) \<Rightarrow> (st', Inr r)))
      | _ \<Rightarrow> (st, Inl AttributeError))"

text \<open>\<open>process_message\<close>: dispatch on the \<open>type\<close> field; an unknown type gives
  \<open>None\<close> (\<open>JNull\<close>), which the loop does not send.\<close>

definition process_message ::
  "module_env \<Rightarrow> (py_error + model_obj) \<Rightarrow> comp_state \<Rightarrow> json \<Rightarrow> comp_state \<times> (py_error + json)" where
  "process_message env generic st msg =
     (case py_get msg ''type'' JNull of
        Inl e \<Rightarrow> (st, Inl e)
      | Inr ty \<Rightarrow>
          if ty = JStr ''alert'' then (case process_alert env generic st msg of (st', r) \<Rightarrow> (st', Inr r))
          else if ty = JStr ''market_data'' then process_market_data st msg
          else if ty = JStr ''model_request'' then process_model_request env st msg
          else (st, Inr JNull))"

subsection \<open>The receive loop\<close>

datatype comp_out = Sent json | Logged py_error

text \<open>One received message: its timestamp and the result of \<open>json.loads\<close>. A result
  that is truthy is sent back; every exception is logged and the loop goes on.\<close>

definition handle_received ::
  "module_env \<Rightarrow> (py_error + model_obj) \<Rightarrow> comp_state \<Rightarrow> json \<times> (py_error + json)
   \<Rightarrow> comp_state \<times> comp_out list" where
  "handle_received env generic st m =
     (case snd m of
        Inl e \<Rightarrow> (st, [Logged e])
      | Inr msg \<Rightarrow>
          (case process_message env generic st msg of
             (st', Inl e) \<Rightarrow> (st', [Logged e])
           | (st', Inr r) \<Rightarrow>
               (st', if truthy r
                     then [Sent (JObj [(''type'', JStr ''result''), (''data'', r), (''timestamp'', fst m)])]
                     else [])))"

fun comp_serve ::
  "module_env \<Rightarrow> (py_error + model_obj) \<Rightarrow> comp_state \<Rightarrow> (json \<times> (py_error + json)) list
   \<Rightarrow> comp_state \<times> comp_out list" where
  "comp_serve env generic st [] = (st, [])"
| "comp_serve env generic st (m # rest) =
     (case handle_received env generic st m of
        (st1, out1) \<Rightarrow> (case comp_serve env generic st1 rest of (st2, out2) \<Rightarrow> (st2, out1 @ out2)))"

declare jget_def [model_defs] alert_body_def [model_defs] process_alert_def [model_defs]
  process_market_data_def [model_defs] model_request_body_def [model_defs]
  process_model_request_def [model_defs] process_message_def [model_defs]
  handle_received_def [model_defs]


subsection \<open>Facts about the handlers\<close>

lemma py_gt_cases:
  "py_gt conf t = Inr b \<Longrightarrow> (\<exists>c. conf = JNum c) \<or> (\<exists>x. conf = JBool x)"
  by (cases conf) simp_all

lemma calculate_position_size_JNum:
  "calculate_position_size (JObj kvs) = Inr q \<Longrightarrow> q = 1 \<or> q = 0.5 \<or> q = 0.25"
  by (auto simp: calculate_position_size_def split: sum.splits bool.splits)

lemma process_market_data_Inl: "process_market_data st d = (st', Inl e) \<Longrightarrow> st' = st"
  by (auto simp: process_market_data_def Let_def split: json.splits if_splits sum.splits)

lemma process_model_request_Inl: "process_model_request env st req = (st', Inl e) \<Longrightarrow> st' = st"
  by (auto simp: process_model_request_def Let_def split: json.splits if_splits prod.splits sum.splits)

lemma get_model_Inr_lookup:
  assumes "get_model env st name = (st', Inr m)"
  shows "hashable name \<and> map_of (models st') name = Some m"
  using assms by (auto simp: get_model_def split: if_splits option.splits sum.splits)

subsection \<open>Properties\<close>

text \<open>C37: \<open>_calculate_position_size\<close> maps the result's \<open>confidence\<close> to a full
  position above 0.8, a half above 0.6 and a quarter otherwise; a missing confidence
  counts as 0.5 and gives a quarter; whatever it returns is one of these three sizes.\<close>

theorem calculate_position_size_levels:
  "(map_of kvs ''confidence'' = Some (JNum c) \<longrightarrow>
      calculate_position_size (JObj kvs) = Inr (if 0.8 < c then 1 else if 0.6 < c then 0.5 else 0.25))
   \<and> (map_of kvs ''confidence'' = None \<longrightarrow> calculate_position_size (JObj kvs) = Inr 0.25)
   \<and> (calculate_position_size (JObj kvs) = Inr q \<longrightarrow> q = 1 \<or> q = 0.5 \<or> q = 0.25)"
  using calculate_position_size_JNum [of kvs q]
  by (simp add: calculate_position_size_def jget_def)

theorem calculate_position_size_levels_witness:
  "calculate_position_size (JObj [(''confidence'', JNum 0.7)]) = Inr 0.5"
proof -
  have "map_of [(''confidence'', JNum 0.7)] ''confidence'' = Some (JNum 0.7)" by simp
  then show ?thesis using calculate_position_size_levels [of "[(''confidence'', JNum 0.7)]" "0.7" 0]
    by simp
qed

text \<open>C38: \<open>_get_model\<close> caches: once it has returned a model for a name, every later
  call with that name returns the same model and leaves the state as it is, whatever
  the loader would now do.\<close>

theorem get_model_cached:
  assumes "get_model env st name = (st', Inr m)"
  shows "get_model env' st' name = (st', Inr m)"
  using get_model_Inr_lookup [OF assms] by (simp add: get_model_def)

theorem get_model_cached_witness:
  "get_model (\<lambda>_. Inl (ImportError ''No module named models.mlmi''))
     (comp_init 8081\<lparr>models := [(JStr ''mlmi'', \<lparr>m_process = \<lambda>_ _. Inr JNull, m_run = \<lambda>_. Inr JNull, m_info = Inr JNull\<rparr>)]\<rparr>)
     (JStr ''mlmi'')
   = (comp_init 8081\<lparr>models := [(JStr ''mlmi'', \<lparr>m_process = \<lambda>_ _. Inr JNull, m_run = \<lambda>_. Inr JNull, m_info = Inr JNull\<rparr>)]\<rparr>,
      Inr \<lparr>m_process = \<lambda>_ _. Inr JNull, m_run = \<lambda>_. Inr JNull, m_info = Inr JNull\<rparr>)"
proof -
  have g: "get_model (\<lambda>_. Inr \<lparr>m_process = \<lambda>_ _. Inr JNull, m_run = \<lambda>_. Inr JNull, m_info = Inr JNull\<rparr>)
     (comp_init 8081) (JStr ''mlmi'')
   = (comp_init 8081\<lparr>models := [(JStr ''mlmi'', \<lparr>m_process = \<lambda>_ _. Inr JNull, m_run = \<lambda>_. Inr JNull, m_info = Inr JNull\<rparr>)]\<rparr>,
      Inr \<lparr>m_process = \<lambda>_ _. Inr JNull, m_run = \<lambda>_. Inr JNull, m_info = Inr JNull\<rparr>)"
    by (simp add: get_model_def comp_init_def)
  show ?thesis by (rule get_model_cached [OF g])
qed

text \<open>C39: A message whose processing raises leaves the engine's model cache and data
  cache as they were: alert and model-request failures are caught inside their
  handlers, and the market-data handler raises (on a scalar \<open>bars\<close> or an unhashable
  \<open>symbol\<close>) before it updates the cache; the loop then logs the exception.\<close>

theorem process_message_failure_no_effect:
  assumes "process_message env generic st msg = (st', Inl e)"
  shows "st' = st"
  using assms process_market_data_Inl [of st msg st' e] process_model_request_Inl [of env st msg st' e]
  by (auto simp: process_message_def split: sum.splits if_splits prod.splits)

theorem process_message_failure_no_effect_witness:
  "process_message (\<lambda>_. Inl (ImportError ''none'')) (Inl (ImportError ''none'')) (comp_init 8081)
     (JObj [(''type'', JStr ''market_data''), (''symbol'', JList [JStr ''ES'']), (''bars'', JList [JNum 1])])
   = (comp_init 8081, Inl TypeError)"
proof -
  have p: "process_message (\<lambda>_. Inl (ImportError ''none'')) (Inl (ImportError ''none'')) (comp_init 8081)
     (JObj [(''type'', JStr ''market_data''), (''symbol'', JList [JStr ''ES'']), (''bars'', JList [JNum 1])])
   = (comp_init 8081, Inl TypeError)"
    by (simp add: process_message_def process_market_data_def jget_def)
  then show ?thesis using process_message_failure_no_effect [OF p] by simp
qed


end
