(* ===== verification/Market_Data.thy ===== *)
theory Market_Data
  imports Computation
begin

text \<open>
  The market-data sources: \<open>DataHandler\<close> of \<open>src/FuturesQuant/core/data_handler.py\<close>,
  whose fetching methods are stubs that return \<open>None\<close>, and \<open>DataFetcher\<close> of
  \<open>src/FuturesQuant/src/data/data_fetcher.py\<close>, which generates mock data. Python's
  \<open>random\<close> module is an explicit tape of draws in \<open>[0, 1)\<close> with a position:
  \<open>uniform(a, b)\<close> is \<open>a + (b - a) * u\<close> and \<open>randint(a, b)\<close> is
  \<open>a + floor(u * (b - a + 1))\<close>, each consuming one draw, in the order in which the
  code calls them. Timestamps are minutes (\<open>now - timedelta(minutes=i)\<close> is
  \<open>now - i\<close>); their ISO formatting is not modelled.
\<close>

subsection \<open>DataHandler\<close>

record data_handler =
  dh_config :: json
  dh_cache :: "(json \<times> json) list"

definition dh_init :: "json \<Rightarrow> data_handler" where
  "dh_init cfg = \<lparr>dh_config = cfg, dh_cache = []\<rparr>"

text \<open>The bodies of \<open>get_historical_data\<close> and \<open>get_latest_price\<close> are comments and
  \<open>pass\<close>; \<open>subscribe\<close> only logs.\<close>

definition get_historical_data :: "data_handler \<Rightarrow> string \<Rightarrow> string \<Rightarrow> int \<Rightarrow> json" where
  "get_historical_data h symbol timeframe bars = JNull"

definition get_latest_price :: "data_handler \<Rightarrow> string \<Rightarrow> real option" where
  "get_latest_price h symbol = None"

definition dh_subscribe :: "data_handler \<Rightarrow> string list \<Rightarrow> data_handler" where
  "dh_subscribe h symbols = h"

subsection \<open>Random draws\<close>

type_synonym rnd_tape = "nat \<Rightarrow> real"

definition py_uniform :: "rnd_tape \<Rightarrow> nat \<Rightarrow> real \<Rightarrow> real \<Rightarrow> real \<times> nat" where
  "py_uniform tape k a b = (a + (b - a) * tape k, Suc k)"

definition py_randint :: "rnd_tape \<Rightarrow> nat \<Rightarrow> int \<Rightarrow> int \<Rightarrow> int \<times> nat" where
  "py_randint tape k a b = (a + \<lfloor>tape k * real_of_int (b - a + 1)\<rfloor>, Suc k)"

definition valid_tape :: "rnd_tape \<Rightarrow> bool" where
  "valid_tape tape = (\<forall>k. 0 \<le> tape k \<and> tape k < 1)"

subsection \<open>DataFetcher\<close>

record data_fetcher =
  df_config :: json
  data_sources :: json

text \<open>\<open>config or {}\<close> and \<open>self.config.get("data_sources", ["mock"])\<close>.\<close>

definition fetcher_init :: "json option \<Rightarrow> py_error + data_fetcher" where
  "fetcher_init cfg =
     (let c = (case cfg of None \<Rightarrow> JObj [] | Some j \<Rightarrow> if truthy j then j else JObj [])
      in case py_get c ''data_sources'' (JList [JStr ''mock'']) of
           Inl e \<Rightarrow> Inl e
         | Inr ds \<Rightarrow> Inr \<lparr>df_config = c, data_sources = ds\<rparr>)"

definition base_prices :: "(string \<times> real) list" where
  "base_prices = [(''ES'', 5000), (''NQ'', 17500), (''CL'', 75), (''GC'', 2300), (''ZB'', 110)]"

definition base_price :: "string \<Rightarrow> real" where
  "base_price ins = (case map_of base_prices ins of None \<Rightarrow> 100 | Some p \<Rightarrow> p)"

definition mock_instruments :: "string list" where
  "mock_instruments = [''ES'', ''NQ'', ''CL'', ''GC'', ''ZB'']"

text \<open>The inner loop \<open>for i in range(10)\<close>.\<close>

fun history_loop :: "rnd_tape \<Rightarrow> real \<Rightarrow> real \<Rightarrow> nat list \<Rightarrow> nat \<Rightarrow> json list \<times> nat" where
  "history_loop tape base now [] k = ([], k)"
| "history_loop tape base now (i # is) k =
     (let (u, k1) = py_uniform tape k (-0.015) 0.015;
          point = JObj [(''timestamp'', JNum (now - real i)), (''price'', JNum (base * (1 + u)))];
          (rest, k2) = history_loop tape base now is k1
      in (point # rest, k2))"

definition mock_instrument :: "rnd_tape \<Rightarrow> real \<Rightarrow> string \<Rightarrow> nat \<Rightarrow> (string \<times> json) \<times> nat" where
  "mock_instrument tape now ins k =
     (let base = base_price ins;
          (u, k1) = py_uniform tape k (-0.01) 0.01;
          (hist, k2) = history_loop tape base now [0..<10] k1;
          (vol, k3) = py_randint tape k2 1000 5000;
          (oi, k4) = py_randint tape k3 10000 50000
      in ((ins, JObj [(''current_price'', JNum (base * (1 + u))), (''price_history'', JList hist),
                      (''volume'', JNum (real_of_int vol)), (''open_interest'', JNum (real_of_int oi))]),
          k4))"

fun instruments_loop :: "rnd_tape \<Rightarrow> real \<Rightarrow> string list \<Rightarrow> nat \<Rightarrow> (string \<times> json) list \<times> nat" where
  "instruments_loop tape now [] k = ([], k)"
| "instruments_loop tape now (ins # rest) k =
     (let (item, k1) = mock_instrument tape now ins k;
          (items, k2) = instruments_loop tape now rest k1
      in (item # items, k2))"

definition generate_mock_data :: "rnd_tape \<Rightarrow> real \<Rightarrow> nat \<Rightarrow> json \<times> nat" where
  "generate_mock_data tape now k =
     (let (items, k') = instruments_loop tape now mock_instruments k
      in (JObj [(''timestamp'', JNum now), (''instruments'', JObj items)], k'))"

text \<open>\<open>"mock" in self.data_sources\<close>: membership in a list, a key of a dictionary, a
  substring of a string; anything else is not iterable.\<close>

definition str_contains :: "string \<Rightarrow> string \<Rightarrow> bool" where
  "str_contains needle hay =
     list_ex (\<lambda>i. take (length needle) (drop i hay) = needle) [0..<Suc (length hay)]"

fun py_in_str :: "string \<Rightarrow> json \<Rightarrow> py_error + bool" where
  "py_in_str x (JList xs) = Inr (JStr x \<in> set xs)"
| "py_in_str x (JObj kvs) = Inr (x \<in> fst ` set kvs)"
| "py_in_str x (JStr s) = Inr (str_contains x s)"
| "py_in_str x _ = Inl TypeError"

definition fetch_latest_data :: "data_fetcher \<Rightarrow> rnd_tape \<Rightarrow> real \<Rightarrow> nat \<Rightarrow> py_error + json \<times> nat" where
  "fetch_latest_data f tape now k =
     (case py_in_str ''mock'' (data_sources f) of
        Inl e \<Rightarrow> Inl e
      | Inr True \<Rightarrow> Inr (generate_mock_data tape now k)
      | Inr False \<Rightarrow> Inr (generate_mock_data tape now k))"

declare dh_init_def [model_defs] get_historical_data_def [model_defs] get_latest_price_def [model_defs]
  dh_subscribe_def [model_defs] py_uniform_def [model_defs] py_randint_def [model_defs]
  fetcher_init_def [model_defs] base_prices_def [model_defs] base_price_def [model_defs]
  mock_instruments_def [model_defs] mock_instrument_def [model_defs]
  generate_mock_data_def [model_defs] str_contains_def [model_defs] fetch_latest_data_def [model_defs]

subsection \<open>Facts\<close>

lemma py_uniform_bounds:
  assumes "valid_tape tape" and "a \<le> b"
  shows "a \<le> fst (py_uniform tape k a b) \<and> fst (py_uniform tape k a b) \<le> b"
proof -
  have u: "0 \<le> tape k" "tape k \<le> 1" using assms(1) less_imp_le by (auto simp: valid_tape_def)
  have "0 \<le> (b - a) * tape k" using u assms(2) by simp
  moreover have "(b - a) * tape k \<le> (b - a) * 1" using u assms(2) by (intro mult_left_mono) simp_all
  ultimately show ?thesis by (simp add: py_uniform_def)
qed

lemma py_randint_bounds:
  assumes "valid_tape tape" and "a \<le> b"
  shows "a \<le> fst (py_randint tape k a b) \<and> fst (py_randint tape k a b) \<le> b"
proof -
  define n where "n = real_of_int (b - a + 1)"
  have n: "1 \<le> n" using assms(2) by (simp add: n_def)
  have u: "0 \<le> tape k" "tape k < 1" using assms(1) by (auto simp: valid_tape_def)
  have lo: "0 \<le> \<lfloor>tape k * n\<rfloor>" using u n by simp
  have "tape k * n < 1 * n" using u n by (intro mult_strict_right_mono) simp_all
  then have "tape k * n < real_of_int (b - a + 1)" by (simp add: n_def)
  then have "\<lfloor>tape k * n\<rfloor> < b - a + 1" by (simp only: floor_less_iff)
  moreover have "py_randint tape k a b = (a + \<lfloor>tape k * n\<rfloor>, Suc k)"
    by (simp add: py_randint_def n_def)
  ultimately show ?thesis using lo by simp
qed

lemma history_loop_length:
  "history_loop tape base now ix k = (hist, k') \<Longrightarrow> length hist = length ix \<and> k' = k + length ix"
proof (induction ix arbitrary: k hist k')
  case Nil
  then show ?case by simp
next
  case (Cons i ix)
  obtain rest k2 where r: "history_loop tape base now ix (Suc k) = (rest, k2)" by fastforce
  then show ?case using Cons.prems Cons.IH [OF r] by (auto simp: py_uniform_def Let_def)
qed

lemma mock_instrument_draws: "snd (mock_instrument tape now ins k) = k + 13"
proof -
  obtain hist k2 where h: "history_loop tape (base_price ins) now [0..<10] (Suc k) = (hist, k2)"
    by fastforce
  then have "k2 = k + 11" using history_loop_length [OF h] by simp
  then show ?thesis using h by (simp add: mock_instrument_def py_uniform_def py_randint_def Let_def)
qed

lemma instruments_loop_draws: "snd (instruments_loop tape now ins k) = k + 13 * length ins"
proof (induction ins arbitrary: k)
  case Nil
  then show ?case by simp
next
  case (Cons i ins)
  obtain item k1 where m: "mock_instrument tape now i k = (item, k1)" by fastforce
  have "k1 = k + 13" using mock_instrument_draws [of tape now i k] m by simp
  then show ?case using m Cons.IH [of k1] by (simp add: split_beta)
qed

text \<open>One call of \<open>_generate_mock_data\<close> consumes 65 draws: five instruments of 13.\<close>

lemma generate_mock_data_draws: "snd (generate_mock_data tape now k) = k + 65"
  using instruments_loop_draws [of tape now mock_instruments k]
  by (simp add: generate_mock_data_def split_beta mock_instruments_def)

lemma base_price_pos: "0 < base_price ins"
  by (auto simp: base_price_def base_prices_def split: option.splits if_splits)

text \<open>Every mock instrument consumes 13 draws; with a valid tape its current price
  lies within 1\% of the base price, its history has ten points, its volume lies in
  \<open>[1000, 5000]\<close> and its open interest in \<open>[10000, 50000]\<close>.\<close>

lemma mock_instrument_bounds:
  assumes "valid_tape tape"
  shows "\<exists>c hist v oi.
           mock_instrument tape now ins k
             = ((ins, JObj [(''current_price'', JNum c), (''price_history'', JList hist),
                             (''volume'', JNum (real_of_int v)), (''open_interest'', JNum (real_of_int oi))]),
                k + 13)
           \<and> base_price ins * 0.99 \<le> c \<and> c \<le> base_price ins * 1.01 \<and> length hist = 10
           \<and> 1000 \<le> v \<and> v \<le> 5000 \<and> 10000 \<le> oi \<and> oi \<le> 50000"
proof -
  define b where "b = base_price ins"
  define u where "u = fst (py_uniform tape k (-0.01) 0.01)"
  obtain hist k2 where h: "history_loop tape b now [0..<10] (Suc k) = (hist, k2)" by fastforce
  have hl: "length hist = 10" "k2 = k + 11" using history_loop_length [OF h] by simp_all
  define v where "v = fst (py_randint tape k2 1000 5000)"
  define oi where "oi = fst (py_randint tape (Suc k2) 10000 50000)"
  have m: "mock_instrument tape now ins k
             = ((ins, JObj [(''current_price'', JNum (b * (1 + u))), (''price_history'', JList hist),
                             (''volume'', JNum (real_of_int v)), (''open_interest'', JNum (real_of_int oi))]),
                k + 13)"
    using h hl by (simp add: mock_instrument_def b_def u_def v_def oi_def py_uniform_def py_randint_def Let_def)
  have ub: "-0.01 \<le> u \<and> u \<le> 0.01" using py_uniform_bounds [OF assms, of "-0.01" "0.01" k] by (simp add: u_def)
  have bp: "0 < b" using base_price_pos by (simp add: b_def)
  have "b * 0.99 \<le> b * (1 + u) \<and> b * (1 + u) \<le> b * 1.01"
    using ub bp by (intro conjI mult_left_mono) simp_all
  moreover have "1000 \<le> v \<and> v \<le> 5000" using py_randint_bounds [OF assms, of 1000 5000 k2] by (simp add: v_def)
  moreover have "10000 \<le> oi \<and> oi \<le> 50000"
    using py_randint_bounds [OF assms, of 10000 50000 "Suc k2"] by (simp add: oi_def)
  ultimately show ?thesis using m hl(1) by (auto simp: b_def)
qed

text \<open>\<open>fetch_latest_data\<close> generates mock data whatever the configured sources are,
  as long as \<open>"mock" in data_sources\<close> does not raise: both branches of the test are
  the same call.\<close>

lemma fetch_latest_data_always_mock:
  "fetch_latest_data f tape now k =
     (case py_in_str ''mock'' (data_sources f) of
        Inl e \<Rightarrow> Inl e | Inr _ \<Rightarrow> Inr (generate_mock_data tape now k))"
  by (simp add: fetch_latest_data_def split: sum.split bool.split)


end
