(* ===== verification/Signal_Agent.thy ===== *)
theory Signal_Agent
  imports Prelude
begin

text \<open>
  \<open>SignalAgent\<close> of \<open>src/FuturesQuant/FuturesQuantCopilotFiles/src_agents_signal_agent.py\<close>:
  a list of registered prediction models, each applied to the market data by
  \<open>generate_signals\<close>; an exception of one model is logged and skipped. A model is
  its class name (what \<open>get_status\<close> reports) and its \<open>predict\<close> method. No method
  ever clears \<open>active\<close>, so the inactive branch of \<open>generate_signals\<close> is unreachable.
\<close>

record ('d, 's) pmodel =
  pm_type :: string
  predict :: "'d \<Rightarrow> py_error + 's list"

record ('c, 'd, 's) signal_agent =
  sa_config :: "'c option"
  sa_models :: "('d, 's) pmodel list"
  active :: bool

text \<open>\<open>config or {}\<close>: \<open>None\<close> (or an empty dictionary) is kept as \<open>None\<close>.\<close>

definition sa_init :: "'c option \<Rightarrow> ('c, 'd, 's) signal_agent" where
  "sa_init cfg = \<lparr>sa_config = cfg, sa_models = [], active = True\<rparr>"

definition register_model :: "('d, 's) pmodel \<Rightarrow> ('c, 'd, 's) signal_agent \<Rightarrow> ('c, 'd, 's) signal_agent" where
  "register_model m a = a\<lparr>sa_models := sa_models a @ [m]\<rparr>"

fun collect_signals :: "('d, 's) pmodel list \<Rightarrow> 'd \<Rightarrow> 's list \<Rightarrow> 's list" where
  "collect_signals [] d acc = acc"
| "collect_signals (m # ms) d acc =
     collect_signals ms d (case predict m d of Inl _ \<Rightarrow> acc | Inr sigs \<Rightarrow> acc @ sigs)"

definition sa_generate_signals :: "('c, 'd, 's) signal_agent \<Rightarrow> 'd \<Rightarrow> 's list" where
  "sa_generate_signals a d = (if \<not> active a then [] else collect_signals (sa_models a) d [])"

record sa_status =
  st_active :: bool
  registered_models :: nat
  model_types :: "string list"

definition get_status :: "('c, 'd, 's) signal_agent \<Rightarrow> sa_status" where
  "get_status a =
     \<lparr>st_active = active a, registered_models = length (sa_models a), model_types = map pm_type (sa_models a)\<rparr>"

declare sa_init_def [model_defs] register_model_def [model_defs] sa_generate_signals_def [model_defs]
  get_status_def [model_defs]

inductive sa_reachable :: "('c, 'd, 's) signal_agent \<Rightarrow> bool" where
  init: "sa_reachable (sa_init cfg)"
| register: "sa_reachable a \<Longrightarrow> sa_reachable (register_model m a)"

text \<open>The successful models' signals, in registration order.\<close>

definition model_outputs :: "('d, 's) pmodel list \<Rightarrow> 'd \<Rightarrow> 's list" where
  "model_outputs ms d = concat (map (\<lambda>m. case predict m d of Inl _ \<Rightarrow> [] | Inr sigs \<Rightarrow> sigs) ms)"

lemma collect_signals_acc: "collect_signals ms d acc = acc @ model_outputs ms d"
  by (induction ms arbitrary: acc) (simp_all add: model_outputs_def split: sum.splits)

lemma sa_reachable_active: "sa_reachable a \<Longrightarrow> active a"
  by (induction rule: sa_reachable.induct) (simp_all add: sa_init_def register_model_def)

text \<open>Every agent a program can build generates exactly the concatenated signals of
  its models that do not raise, in registration order; the models that raise only
  drop out.\<close>

lemma sa_generate_signals_reachable:
  "sa_reachable a \<Longrightarrow> sa_generate_signals a d = model_outputs (sa_models a) d"
  by (simp add: sa_generate_signals_def sa_reachable_active collect_signals_acc)

lemma get_status_register:
  "get_status (register_model m a)
   = (get_status a)\<lparr>registered_models := Suc (registered_models (get_status a)),
                     model_types := model_types (get_status a) @ [pm_type m]\<rparr>"
  by (simp add: get_status_def register_model_def)

end
