(* ===== verification/Py_Int.thy ===== *)
theory Py_Int
  imports Prelude
begin

text \<open>
  Python's \<open>int\<close> applied to a string and \<open>str\<close> applied to an integer, as the
  programs use them to read numbers from query arguments and the command line.
  \<open>int\<close> is modelled on ASCII: surrounding whitespace, an optional sign, and decimal
  digits with single underscores between them; \<open>None\<close> is the \<open>ValueError\<close>.
  Leading zeros are accepted, as \<open>int\<close> accepts them.
\<close>

subsection \<open>Python's \<open>int\<close> on a string\<close>

definition py_isspace :: "char \<Rightarrow> bool" where
  "py_isspace c = (let n = of_char c :: nat in (9 \<le> n \<and> n \<le> 13) \<or> (28 \<le> n \<and> n \<le> 32))"

definition py_strip :: "string \<Rightarrow> string" where
  "py_strip s = rev (dropWhile py_isspace (rev (dropWhile py_isspace s)))"

definition is_digit :: "char \<Rightarrow> bool" where
  "is_digit c = (let n = of_char c :: nat in 48 \<le> n \<and> n \<le> 57)"

definition digit_value :: "char \<Rightarrow> nat" where
  "digit_value c = of_char c - 48"

text \<open>\<open>digit (["_"] digit)*\<close>: digits, each underscore between two digits.\<close>

fun digits_ok :: "string \<Rightarrow> bool" where
  "digits_ok [] = False"
| "digits_ok [c] = is_digit c"
| "digits_ok (c # d # cs) =
     (is_digit c \<and> (if d = CHR ''_'' then cs \<noteq> [] \<and> is_digit (hd cs) \<and> digits_ok cs
                     else digits_ok (d # cs)))"

definition digits_val :: "string \<Rightarrow> nat" where
  "digits_val s = foldl (\<lambda>acc c. 10 * acc + digit_value c) 0 (filter is_digit s)"

definition parse_digits :: "string \<Rightarrow> int option" where
  "parse_digits s = (if digits_ok s then Some (int (digits_val s)) else None)"

definition parse_py_int :: "string \<Rightarrow> int option" where
  "parse_py_int s =
     (case py_strip s of
        c # r \<Rightarrow> (if c = CHR ''-'' then map_option uminus (parse_digits r)
                  else if c = CHR ''+'' then parse_digits r
                  else parse_digits (c # r))
      | [] \<Rightarrow> None)"

text \<open>Python's \<open>str\<close> of an integer.\<close>

fun nat_digits :: "nat \<Rightarrow> string" where
  "nat_digits n = (if n < 10 then [] else nat_digits (n div 10)) @ [char_of (48 + n mod 10)]"

definition py_str_int :: "int \<Rightarrow> string" where
  "py_str_int i = (if i < 0 then CHR ''-'' # nat_digits (nat (- i)) else nat_digits (nat i))"

declare py_isspace_def [model_defs] py_strip_def [model_defs] is_digit_def [model_defs]
  digit_value_def [model_defs] digits_val_def [model_defs] parse_digits_def [model_defs]
  parse_py_int_def [model_defs] py_str_int_def [model_defs]

subsection \<open>Facts: \<open>int\<close> reads back \<open>str\<close>\<close>

declare nat_digits.simps [simp del]

lemma digit_char [simp]:
  "k < 10 \<Longrightarrow> digit_value (char_of (48 + k)) = k"
  "k < 10 \<Longrightarrow> is_digit (char_of (48 + k))"
  by (simp_all add: digit_value_def is_digit_def of_char_of)

lemma digit_not_space: "is_digit c \<Longrightarrow> \<not> py_isspace c"
  by (simp add: is_digit_def py_isspace_def Let_def)

lemma nat_digits_ne [simp]: "nat_digits n \<noteq> []"
  by (subst nat_digits.simps) simp

lemma nat_digits_digits: "c \<in> set (nat_digits n) \<Longrightarrow> is_digit c"
proof (induction n rule: nat_digits.induct)
  case (1 n)
  then show ?case by (subst (asm) nat_digits.simps) (auto split: if_splits)
qed

lemma nat_digits_val: "foldl (\<lambda>acc c. 10 * acc + digit_value c) 0 (nat_digits n) = n"
proof (induction n rule: nat_digits.induct)
  case (1 n)
  show ?case
  proof (cases "n < 10")
    case True
    then show ?thesis using digit_char(1) [OF True] by (subst nat_digits.simps) simp
  next
    case False
    then have "foldl (\<lambda>acc c. 10 * acc + digit_value c) 0 (nat_digits n) = 10 * (n div 10) + n mod 10"
      using "1.IH" by (subst nat_digits.simps) simp
    then show ?thesis by simp
  qed
qed

lemma digits_ok_digits: "xs \<noteq> [] \<Longrightarrow> \<forall>c\<in>set xs. is_digit c \<Longrightarrow> digits_ok xs"
  by (induction xs rule: digits_ok.induct) (auto simp: is_digit_def)

lemma parse_digits_nat_digits: "parse_digits (nat_digits n) = Some (int n)"
proof -
  have "filter is_digit (nat_digits n) = nat_digits n" using nat_digits_digits by (simp add: filter_id_conv)
  then show ?thesis
    using digits_ok_digits [of "nat_digits n"] nat_digits_digits [of _ n] nat_digits_val [of n]
    by (simp add: parse_digits_def digits_val_def)
qed

lemma py_strip_id:
  assumes "xs \<noteq> []" and "\<not> py_isspace (hd xs)" and "\<not> py_isspace (last xs)"
  shows "py_strip xs = xs"
proof -
  have d: "dropWhile py_isspace xs = xs" using assms(1,2) by (cases xs) simp_all
  have "rev xs = last xs # rev (butlast xs)" using assms(1) by (metis append_butlast_last_id rev_eq_Cons_iff rev_rev_ident)
  then have "dropWhile py_isspace (rev xs) = rev xs" unfolding \<open>rev xs = _\<close> using assms(3) by simp
  then show ?thesis using d by (simp add: py_strip_def)
qed

lemma py_strip_nat_digits: "py_strip (nat_digits n) = nat_digits n"
  "py_strip (CHR ''-'' # nat_digits n) = CHR ''-'' # nat_digits n"
proof -
  have h: "\<not> py_isspace (hd (nat_digits n))" "\<not> py_isspace (last (nat_digits n))"
    using digit_not_space nat_digits_digits hd_in_set last_in_set nat_digits_ne by blast+
  show "py_strip (nat_digits n) = nat_digits n" using py_strip_id h by simp
  show "py_strip (CHR ''-'' # nat_digits n) = CHR ''-'' # nat_digits n"
    using py_strip_id [of "CHR ''-'' # nat_digits n"] h(2) by (simp add: py_isspace_def)
qed

lemma nat_digits_hd: "hd (nat_digits n) \<noteq> CHR ''-'' \<and> hd (nat_digits n) \<noteq> CHR ''+''"
proof -
  have "is_digit (hd (nat_digits n))" using nat_digits_digits hd_in_set nat_digits_ne by blast
  then show ?thesis by (auto simp: is_digit_def)
qed

text \<open>Python's \<open>int\<close> reads back every integer Python's \<open>str\<close> prints.\<close>

lemma parse_py_int_str: "parse_py_int (py_str_int i) = Some i"
proof (cases "i < 0")
  case True
  then show ?thesis
    using py_strip_nat_digits(2) [of "nat (- i)"] parse_digits_nat_digits [of "nat (- i)"]
    by (simp add: parse_py_int_def py_str_int_def)
next
  case False
  obtain c r where cr: "nat_digits (nat i) = c # r" using nat_digits_ne by (cases "nat_digits (nat i)") auto
  have "c \<noteq> CHR ''-'' \<and> c \<noteq> CHR ''+''" using nat_digits_hd [of "nat i"] cr by simp
  then show ?thesis
    using False py_strip_nat_digits(1) [of "nat i"] parse_digits_nat_digits [of "nat i"] cr
    by (simp add: parse_py_int_def py_str_int_def)
qed

end
