(* ===== verification/Entry_Points.thy ===== *)
theory Entry_Points
  imports Engine Market_Data Signal_Agent Py_Int
begin

text \<open>
  The two entry points of \<open>src/FuturesQuant/FuturesQuantCopilotFiles\<close>.
  \<open>FuturesQuant_main.py\<close> loads a JSON configuration, builds a \<open>DataHandler\<close> and a
  \<open>TradingEngine\<close>, creates one \<open>CathieWoodStrategy\<close> per \<open>cathie_wood\<close> entry,
  registers it with the engine and only then starts it, and runs the engine.
  Registration stores a reference: the later \<open>strategy.start()\<close> activates the
  object the engine holds. The strategies therefore live in an explicit store (a
  list of objects, references are positions) while \<open>main\<close> sets them up, and the
  engine's dictionary holds references; \<open>deref\<close> reads the engine of the value model
  of \<open>Engine\<close> back from the store. The strategy module is not in the repository:
  its constructor is a parameter \<open>mk\<close>, which may raise. \<open>main.py\<close> chains the
  \<open>DataFetcher\<close>, a \<open>SignalAgent\<close> and a portfolio manager and trading strategy whose
  modules are missing; those two are parameters.
\<close>

subsection \<open>The configuration\<close>

text \<open>\<open>load_config\<close>: the result of opening and parsing the file, \<open>Inl\<close> when either
  raises; any exception gives the empty dictionary.\<close>

definition load_config :: "py_error + json \<Rightarrow> json" where
  "load_config r = (case r of Inl _ \<Rightarrow> JObj [] | Inr j \<Rightarrow> j)"

text \<open>\<open>dict.items()\<close>: only a dictionary has it.\<close>

fun py_items :: "json \<Rightarrow> py_error + (string \<times> json) list" where
  "py_items (JObj kvs) = Inr kvs"
| "py_items _ = Inl AttributeError"

text \<open>The argument of \<open>time.sleep\<close> in \<open>TradingEngine.start\<close>,
  \<open>self.config.get("refresh_interval", 1)\<close>, for the engine configuration that
  \<open>main\<close> passes: \<open>get\<close> raises \<open>AttributeError\<close> when it is not a dictionary and
  \<open>sleep\<close> raises \<open>TypeError\<close> on a value that is not a number (a boolean is one).\<close>

fun sleep_interval :: "json \<Rightarrow> py_error + real option" where
  "sleep_interval (JObj kvs) =
     (case map_of kvs ''refresh_interval'' of
        None \<Rightarrow> Inr None
      | Some (JNum r) \<Rightarrow> Inr (Some r)
      | Some (JBool b) \<Rightarrow> Inr (Some (if b then 1 else 0))
      | Some _ \<Rightarrow> Inl TypeError)"
| "sleep_interval _ = Inl AttributeError"

text \<open>\<open>TradingEngine.start\<close> when the \<open>time.sleep\<close> line raises before it sleeps: one
  iteration runs the strategies, the handler calls \<open>stop\<close> and \<open>start\<close> returns.\<close>

definition start_failing :: "nat \<Rightarrow> engine \<Rightarrow> py_error \<Rightarrow> run_result" where
  "start_failing fuel e err =
     (if fuel = 0 then Running []
      else Returned (engine_stop (e\<lparr>is_running := True\<rparr>))
             (execute_strategies 0 (strategies e) @ [EngineError err]))"

definition engine_run :: "nat \<Rightarrow> json \<Rightarrow> engine \<Rightarrow> run_result" where
  "engine_run fuel ecfg e =
     (case sleep_interval ecfg of
        Inr ri \<Rightarrow> engine_start fuel (e\<lparr>refresh_interval := ri\<rparr>)
      | Inl err \<Rightarrow> start_failing fuel e err)"

subsection \<open>The store of strategy objects\<close>

type_synonym store = "strategy list"

definition alloc :: "strategy \<Rightarrow> store \<Rightarrow> nat \<times> store" where
  "alloc s h = (length h, h @ [s])"

definition start_ref :: "nat \<Rightarrow> store \<Rightarrow> store" where
  "start_ref r h = h[r := strategy_start (h ! r)]"

definition deref :: "store \<Rightarrow> (string \<times> nat) list \<Rightarrow> (string \<times> strategy) list" where
  "deref h refs = map (\<lambda>(sid, r). (sid, h ! r)) refs"

definition refs_ok :: "store \<Rightarrow> (string \<times> nat) list \<Rightarrow> bool" where
  "refs_ok h refs = list_all (\<lambda>p. snd p < length h) refs"

text \<open>The loop over \<open>strategy_config.items()\<close>: for a \<open>cathie_wood\<close> entry,
  \<open>params.get('symbols', [])\<close>, the constructor, \<open>engine.add_strategy\<close> on the
  reference and \<open>strategy.start()\<close> on the object.\<close>

fun setup_strategies ::
  "(string \<Rightarrow> json \<Rightarrow> json \<Rightarrow> py_error + strategy) \<Rightarrow> (string \<times> json) list \<Rightarrow> store
   \<Rightarrow> (string \<times> nat) list \<Rightarrow> py_error + store \<times> (string \<times> nat) list" where
  "setup_strategies mk [] h refs = Inr (h, refs)"
| "setup_strategies mk ((name, params) # rest) h refs =
     (if name = ''cathie_wood'' then
        (case py_get params ''symbols'' (JList []) of
           Inl e \<Rightarrow> Inl e
         | Inr symbols \<Rightarrow>
             (case mk name symbols params of
                Inl e \<Rightarrow> Inl e
              | Inr s \<Rightarrow>
                  (let (r, h1) = alloc s h;
                       refs1 = dict_set name r refs;
                       h2 = start_ref r h1
                   in setup_strategies mk rest h2 refs1)))
      else setup_strategies mk rest h refs)"

text \<open>The value-semantics reading of the same loop: the engine's dictionary holds the
  started strategy.\<close>

fun setup_spec ::
  "(string \<Rightarrow> json \<Rightarrow> json \<Rightarrow> py_error + strategy) \<Rightarrow> (string \<times> json) list
   \<Rightarrow> (string \<times> strategy) list \<Rightarrow> py_error + (string \<times> strategy) list" where
  "setup_spec mk [] acc = Inr acc"
| "setup_spec mk ((name, params) # rest) acc =
     (if name = ''cathie_wood'' then
        (case py_get params ''symbols'' (JList []) of
           Inl e \<Rightarrow> Inl e
         | Inr symbols \<Rightarrow>
             (case mk name symbols params of
                Inl e \<Rightarrow> Inl e
              | Inr s \<Rightarrow> setup_spec mk rest (dict_set name (strategy_start s) acc)))
      else setup_spec mk rest acc)"

subsection \<open>\<open>FuturesQuant_main.main\<close>\<close>

datatype main_outcome = NoConfig | Started run_result

text \<open>\<open>main\<close> after argument parsing and logging set-up; a \<open>KeyboardInterrupt\<close> is an
  asynchronous event and is not modelled.\<close>

definition futures_main ::
  "(string \<Rightarrow> json \<Rightarrow> json \<Rightarrow> py_error + strategy) \<Rightarrow> nat \<Rightarrow> py_error + json
   \<Rightarrow> py_error + main_outcome" where
  "futures_main mk fuel cfg =
     (let config = load_config cfg
      in if \<not> truthy config then Inr NoConfig
         else
           (case py_get config ''data'' (JObj []) of
              Inl e \<Rightarrow> Inl e
            | Inr dcfg \<Rightarrow>
                (let dh = dh_init dcfg
                 in case py_get config ''engine'' (JObj []) of
                      Inl e \<Rightarrow> Inl e
                    | Inr ecfg \<Rightarrow>
                        (case py_get config ''strategies'' (JObj []) of
                           Inl e \<Rightarrow> Inl e
                         | Inr scfg \<Rightarrow>
                             (case py_items scfg of
                                Inl e \<Rightarrow> Inl e
                              | Inr items \<Rightarrow>
                                  (case setup_strategies mk items [] [] of
                                     Inl e \<Rightarrow> Inl e
                                   | Inr (h, refs) \<Rightarrow>
                                       Inr (Started (engine_run fuel ecfg
                                              ((engine_init None)\<lparr>strategies := deref h refs\<rparr>)))))))))"

subsection \<open>\<open>main.main\<close>\<close>

text \<open>\<open>DataFetcher()\<close> and \<open>SignalAgent()\<close> with no configuration; the portfolio
  manager's \<open>make_decisions\<close> and the trading strategy's \<open>execute_trades\<close> are
  parameters, and their constructors are taken not to raise. The \<open>except\<close> clause logs and re-raises, so every exception leaves
  \<open>main\<close>. The result is what \<open>main\<close> logs: the number of signals and of trades, with
  the position on the random tape.\<close>

definition copilot_main ::
  "rnd_tape \<Rightarrow> real \<Rightarrow> nat \<Rightarrow> ('s list \<Rightarrow> py_error + 'dec) \<Rightarrow> ('dec \<Rightarrow> py_error + 't list)
   \<Rightarrow> py_error + nat \<times> nat \<times> nat" where
  "copilot_main tape now k make_decisions execute_trades =
     (case fetcher_init None of
        Inl e \<Rightarrow> Inl e
      | Inr fetcher \<Rightarrow>
          (let agent = (sa_init None :: (json, json, 's) signal_agent)
           in case fetch_latest_data fetcher tape now k of
                Inl e \<Rightarrow> Inl e
              | Inr (market_data, k') \<Rightarrow>
                  (let signals = sa_generate_signals agent market_data
                   in case make_decisions signals of
                        Inl e \<Rightarrow> Inl e
                      | Inr decisions \<Rightarrow>
                          (case execute_trades decisions of
                             Inl e \<Rightarrow> Inl e
                           | Inr trades \<Rightarrow> Inr (length signals, length trades, k')))))"

subsection \<open>The computation engine's \<open>__main__\<close> block\<close>

text \<open>\<open>port = int(sys.argv[1])\<close> when an argument is given, else 8081; \<open>int\<close>'s
  \<open>ValueError\<close> names the argument as its \<open>repr\<close> does for a string without quotes.
  The rest of the block, garbled in the source, is not modelled.\<close>

definition int_value_error :: "string \<Rightarrow> py_error" where
  "int_value_error s = ValueError (''invalid literal for int() with base 10: '' @ [CHR 0x27] @ s @ [CHR 0x27])"

definition comp_main_port :: "string list \<Rightarrow> py_error + int" where
  "comp_main_port argv =
     (if 1 < length argv
      then (case parse_py_int (argv ! 1) of None \<Rightarrow> Inl (int_value_error (argv ! 1)) | Some p \<Rightarrow> Inr p)
      else Inr 8081)"

declare load_config_def [model_defs] int_value_error_def [model_defs] comp_main_port_def [model_defs]
  start_failing_def [model_defs] engine_run_def [model_defs]
  alloc_def [model_defs] start_ref_def [model_defs] deref_def [model_defs]
  futures_main_def [model_defs] copilot_main_def [model_defs]

subsection \<open>The store refines the value model\<close>

lemma start_ref_nth:
  "i < length h \<Longrightarrow> start_ref (length h) (h @ [s]) ! i = h ! i"
  "start_ref (length h) (h @ [s]) ! length h = strategy_start s"
  "length (start_ref (length h) (h @ [s])) = Suc (length h)"
  by (simp_all add: start_ref_def nth_append)

lemma deref_start_ref:
  assumes "refs_ok h refs"
  shows "deref (start_ref (length h) (h @ [s])) refs = deref h refs"
  using assms start_ref_nth(1) by (auto simp: deref_def refs_ok_def list_all_iff)

text \<open>One registration: the reference the engine stores reads as the started object,
  and every reference stays in the store.\<close>

lemma deref_register_start:
  assumes "refs_ok h refs"
  shows "deref (start_ref (length h) (h @ [s])) (dict_set name (length h) refs)
           = dict_set name (strategy_start s) (deref h refs)"
    and "refs_ok (start_ref (length h) (h @ [s])) (dict_set name (length h) refs)"
proof -
  let ?h = "start_ref (length h) (h @ [s])"
  have "deref ?h (dict_set name (length h) refs)
          = dict_set name (?h ! length h) (map (\<lambda>(a, b). (a, ?h ! b)) refs)"
    unfolding deref_def by (rule dict_set_map_values)
  moreover have "map (\<lambda>(a, b). (a, ?h ! b)) refs = deref h refs"
    using deref_start_ref [OF assms] by (simp only: deref_def)
  ultimately show "deref ?h (dict_set name (length h) refs) = dict_set name (strategy_start s) (deref h refs)"
    by (simp only: start_ref_nth(2))
  have "\<forall>p\<in>set (dict_set name (length h) refs). snd p < Suc (length h)"
  proof
    fix p assume "p \<in> set (dict_set name (length h) refs)"
    then have "p = (name, length h) \<or> p \<in> set refs" using set_dict_set_subset by fastforce
    then show "snd p < Suc (length h)" using assms by (auto simp: refs_ok_def list_all_iff)
  qed
  then show "refs_ok ?h (dict_set name (length h) refs)"
    by (simp add: refs_ok_def list_all_iff start_ref_nth(3))
qed

lemma setup_strategies_deref:
  "refs_ok h refs \<Longrightarrow>
   map_sum id (\<lambda>(h', refs'). deref h' refs') (setup_strategies mk items h refs)
     = setup_spec mk items (deref h refs)"
proof (induction items arbitrary: h refs)
  case Nil
  then show ?case by simp
next
  case (Cons item items)
  obtain name params where item: "item = (name, params)" by fastforce
  show ?case
    using Cons.IH [OF deref_register_start(2) [OF Cons.prems]] Cons.IH [OF Cons.prems]
          deref_register_start(1) [OF Cons.prems]
    by (simp add: item alloc_def split: sum.split)
qed

lemma setup_spec_active:
  "setup_spec mk items acc = Inr ss \<Longrightarrow> \<forall>p\<in>set acc. is_active (snd p) \<and> fst p = ''cathie_wood''
   \<Longrightarrow> \<forall>p\<in>set ss. is_active (snd p) \<and> fst p = ''cathie_wood''"
proof (induction items arbitrary: acc)
  case Nil
  then show ?case by simp
next
  case (Cons item items)
  obtain name params where item: "item = (name, params)" by fastforce
  have step: "\<forall>p\<in>set (dict_set ''cathie_wood'' (strategy_start s) acc). is_active (snd p) \<and> fst p = ''cathie_wood''"
    for s using set_dict_set_subset [of "''cathie_wood''" "strategy_start s" acc] Cons.prems(2)
    by (auto simp: strategy_start_def)
  show ?case
  proof (cases "name = ''cathie_wood''")
    case False
    then show ?thesis using Cons.prems Cons.IH by (simp add: item)
  next
    case True
    then obtain symbols s where "mk name symbols params = Inr s"
      and rest: "setup_spec mk items (dict_set name (strategy_start s) acc) = Inr ss"
      using Cons.prems(1) by (auto simp: item split: sum.splits)
    show ?thesis using Cons.IH [OF rest] step True by simp
  qed
qed


subsection \<open>The entry points\<close>

lemma futures_main_exits:
  "futures_main mk fuel (Inl e) = Inr NoConfig"
  "truthy j \<Longrightarrow> py_items j = Inl AttributeError \<Longrightarrow> futures_main mk fuel (Inr j) = Inl AttributeError"
  by (simp add: futures_main_def load_config_def, cases j) (simp_all add: futures_main_def load_config_def)

text \<open>C36: When the loaded configuration is a non-empty dictionary whose
  \<open>strategies\<close> entry is a dictionary and every \<open>cathie_wood\<close> entry constructs,
  \<open>main\<close> runs the engine on exactly the strategies of the value model, which holds
  the started objects: every strategy the engine runs is active, and its identifier
  is \<open>cathie_wood\<close>. The activation reaches the engine through the reference the
  engine stores.\<close>

theorem futures_main_runs_started:
  assumes "load_config cfg = JObj kvs" and "kvs \<noteq> []"
    and "jget kvs ''strategies'' (JObj []) = JObj items"
    and "setup_spec mk items [] = Inr ss"
  shows "futures_main mk fuel cfg
           = Inr (Started (engine_run fuel (jget kvs ''engine'' (JObj []))
                             ((engine_init None)\<lparr>strategies := ss\<rparr>)))
         \<and> (\<forall>p\<in>set ss. is_active (snd p) \<and> fst p = ''cathie_wood'')"
proof -
  have "map_sum id (\<lambda>(h, refs). deref h refs) (setup_strategies mk items [] []) = Inr ss"
    using setup_strategies_deref [of "[]" "[]" mk items] assms(4) by (simp add: refs_ok_def deref_def)
  then obtain h refs where st: "setup_strategies mk items [] [] = Inr (h, refs)" and d: "deref h refs = ss"
    by (cases "setup_strategies mk items [] []") auto
  have "futures_main mk fuel cfg
          = Inr (Started (engine_run fuel (jget kvs ''engine'' (JObj []))
                            ((engine_init None)\<lparr>strategies := ss\<rparr>)))"
    using assms(1-3) st d by (simp add: futures_main_def)
  moreover have "\<forall>p\<in>set ss. is_active (snd p) \<and> fst p = ''cathie_wood''"
    using setup_spec_active [OF assms(4)] by simp
  ultimately show ?thesis by blast
qed

theorem futures_main_runs_started_witness:
  "futures_main (\<lambda>name symbols params. Inr (strategy_init name [] (\<lambda>t. Inr []))) 0
     (Inr (JObj [(''strategies'', JObj [(''cathie_wood'', JObj []), (''other'', JNull)])]))
   = Inr (Started (engine_run 0 (JObj [])
       ((engine_init None)\<lparr>strategies := [(''cathie_wood'', strategy_start (strategy_init ''cathie_wood'' [] (\<lambda>t. Inr [])))]\<rparr>)))
   \<and> is_active (strategy_start (strategy_init ''cathie_wood'' [] (\<lambda>t. Inr [])))"
proof -
  have "setup_spec (\<lambda>name symbols params. Inr (strategy_init name [] (\<lambda>t. Inr [])))
          [(''cathie_wood'', JObj []), (''other'', JNull)] []
        = Inr [(''cathie_wood'', strategy_start (strategy_init ''cathie_wood'' [] (\<lambda>t. Inr [])))]"
    by (simp add: jget_def)
  from futures_main_runs_started [OF _ _ _ this, of "Inr (JObj [(''strategies'', JObj [(''cathie_wood'', JObj []), (''other'', JNull)])])"]
  show ?thesis by (simp add: load_config_def jget_def)
qed

text \<open>\<open>main.py\<close> never trades on a signal: its \<open>SignalAgent\<close> has no registered model,
  so the portfolio manager always receives the empty list; the mock data consume 65
  draws of the tape.\<close>

lemma copilot_main_no_signals:
  "copilot_main tape now k make_decisions execute_trades =
     (case make_decisions [] of
        Inl e \<Rightarrow> Inl e
      | Inr decisions \<Rightarrow>
          (case execute_trades decisions of
             Inl e \<Rightarrow> Inl e
           | Inr trades \<Rightarrow> Inr (0, length trades, k + 65)))"
proof -
  obtain md k' where g: "generate_mock_data tape now k = (md, k')" by fastforce
  then have "k' = k + 65" using generate_mock_data_draws [of tape now k] by simp
  then show ?thesis
    using g by (simp add: copilot_main_def fetcher_init_def jget_def fetch_latest_data_def
                          sa_generate_signals_def sa_init_def split: sum.split)
qed

text \<open>The engine's port: 8081 without an argument, and any port Python prints as a
  decimal string reads back as itself; a malformed argument raises.\<close>

lemma comp_main_port_values:
  "comp_main_port [prog] = Inr 8081"
  "comp_main_port [prog, py_str_int p] = Inr p"
  "comp_main_port [prog, ''80a''] = Inl (int_value_error ''80a'')"
proof -
  show "comp_main_port [prog] = Inr 8081" by (simp add: comp_main_port_def)
  show "comp_main_port [prog, py_str_int p] = Inr p" by (simp add: comp_main_port_def parse_py_int_str)
  show "comp_main_port [prog, ''80a''] = Inl (int_value_error ''80a'')"
    by (simp add: comp_main_port_def parse_py_int_def py_strip_def py_isspace_def parse_digits_def is_digit_def)
qed

end
