(* ===== verification/Web_Dashboard.thy ===== *)
theory Web_Dashboard
  imports Computation
begin

text \<open>
  The dashboard of \<open>src/FuturesQuant/FuturesQuantCopilotFiles/FuturesQuant_web_dashboard.py\<close>:
  \<open>DashboardManager\<close>, which keeps a bounded trade history and the latest positions,
  leverage and performance payloads, and the JSON endpoints of its blueprint. Trades
  and payloads are JSON values (\<open>Computation.json\<close>). The module flag
  \<open>VERBOSE_MODE\<close> is part of the state, since \<open>toggle_verbose_mode\<close> writes it and a
  new manager reads it. Page rendering and the timestamps are not modelled.
\<close>

record dash_state =
  trade_history :: "json list"
  performance_data :: json
  strategy_metrics :: json
  verbose_mode :: bool
  dash_positions :: json
  leverage_data :: json

record web_module =
  VERBOSE_MODE :: bool
  dashboard_manager :: dash_state

definition dash_init :: "bool \<Rightarrow> dash_state" where
  "dash_init v =
     \<lparr>trade_history = [], performance_data = JObj [], strategy_metrics = JObj [], verbose_mode = v,
      dash_positions = JObj [], leverage_data = JObj []\<rparr>"

definition web_init :: web_module where
  "web_init = \<lparr>VERBOSE_MODE = False, dashboard_manager = dash_init False\<rparr>"

text \<open>\<open>xs[-k:]\<close> for \<open>k > 0\<close> is the last \<open>k\<close> elements, \<open>last_n\<close>.\<close>

definition update_trade_history :: "json list \<Rightarrow> dash_state \<Rightarrow> dash_state" where
  "update_trade_history new st =
     (let h = trade_history st @ new
      in st\<lparr>trade_history := (if 1000 < length h then last_n 1000 h else h)\<rparr>)"

definition update_positions :: "json \<Rightarrow> dash_state \<Rightarrow> dash_state" where
  "update_positions p st = st\<lparr>dash_positions := p\<rparr>"

definition update_leverage_data :: "json \<Rightarrow> dash_state \<Rightarrow> dash_state" where
  "update_leverage_data d st = st\<lparr>leverage_data := d\<rparr>"

definition update_performance :: "json \<Rightarrow> dash_state \<Rightarrow> dash_state" where
  "update_performance d st = st\<lparr>performance_data := d\<rparr>"

definition toggle_verbose_mode :: "web_module \<Rightarrow> web_module \<times> bool" where
  "toggle_verbose_mode w =
     (let v = \<not> verbose_mode (dashboard_manager w)
      in (w\<lparr>VERBOSE_MODE := v, dashboard_manager := (dashboard_manager w)\<lparr>verbose_mode := v\<rparr>\<rparr>, v))"

text \<open>\<open>trade['key']\<close> on a decoded trade: \<open>KeyError\<close> when the key is missing,
  \<open>TypeError\<close> when the trade is not a dictionary.\<close>

fun py_subscript :: "json \<Rightarrow> string \<Rightarrow> py_error + json" where
  "py_subscript (JObj kvs) k = (case map_of kvs k of None \<Rightarrow> Inl (KeyError k) | Some v \<Rightarrow> Inr v)"
| "py_subscript _ k = Inl TypeError"

definition simplify_trade :: "json \<Rightarrow> py_error + json" where
  "simplify_trade t =
     (case py_subscript t ''timestamp'' of Inl e \<Rightarrow> Inl e | Inr ts \<Rightarrow>
      case py_subscript t ''instrument'' of Inl e \<Rightarrow> Inl e | Inr ins \<Rightarrow>
      case py_subscript t ''side'' of Inl e \<Rightarrow> Inl e | Inr sd \<Rightarrow>
      case py_subscript t ''size'' of Inl e \<Rightarrow> Inl e | Inr sz \<Rightarrow>
      case py_subscript t ''price'' of Inl e \<Rightarrow> Inl e | Inr pr \<Rightarrow>
      case py_get t ''pnl'' (JStr ''N/A'') of Inl e \<Rightarrow> Inl e | Inr pnl \<Rightarrow>
        Inr (JObj [(''timestamp'', ts), (''instrument'', ins), (''side'', sd), (''size'', sz),
                   (''price'', pr), (''pnl'', pnl)]))"

text \<open>The list comprehension evaluates the trades in order and stops at the first
  exception.\<close>

fun map_py :: "('a \<Rightarrow> py_error + 'b) \<Rightarrow> 'a list \<Rightarrow> py_error + 'b list" where
  "map_py f [] = Inr []"
| "map_py f (x # xs) =
     (case f x of Inl e \<Rightarrow> Inl e | Inr y \<Rightarrow> (case map_py f xs of Inl e \<Rightarrow> Inl e | Inr ys \<Rightarrow> Inr (y # ys)))"

definition process_trade_history :: "dash_state \<Rightarrow> py_error + json list" where
  "process_trade_history st =
     (if \<not> verbose_mode st then map_py simplify_trade (last_n 50 (trade_history st))
      else Inr (last_n 100 (trade_history st)))"

definition get_dashboard_data :: "dash_state \<Rightarrow> json \<Rightarrow> py_error + json" where
  "get_dashboard_data st ts =
     (case process_trade_history st of
        Inl e \<Rightarrow> Inl e
      | Inr th \<Rightarrow>
          Inr (JObj [(''trade_history'', JList th), (''positions'', dash_positions st),
                     (''performance'', performance_data st), (''leverage'', leverage_data st),
                     (''verbose_mode'', JBool (verbose_mode st)), (''timestamp'', ts),
                     (''strategy_metrics'', strategy_metrics st)]))"

text \<open>Python slicing \<open>xs[a:b]\<close> with integer bounds: a negative bound counts from the
  end, and both are clipped to the list.\<close>

definition py_slice_index :: "int \<Rightarrow> nat \<Rightarrow> nat" where
  "py_slice_index i n = (if i < 0 then nat (max 0 (i + int n)) else min (nat i) n)"

definition py_slice :: "'a list \<Rightarrow> int \<Rightarrow> int \<Rightarrow> 'a list" where
  "py_slice xs a b =
     drop (py_slice_index a (length xs)) (take (py_slice_index b (length xs)) xs)"

record trades_page =
  page_trades :: "json list"
  page_total :: nat
  page_verbose :: bool

definition get_trades :: "dash_state \<Rightarrow> int \<Rightarrow> int \<Rightarrow> py_error + trades_page" where
  "get_trades st limit offset =
     (case process_trade_history st of
        Inl e \<Rightarrow> Inl e
      | Inr trades \<Rightarrow>
          Inr \<lparr>page_trades = (if offset < int (length trades) then py_slice trades offset (offset + limit) else []),
               page_total = length trades, page_verbose = verbose_mode st\<rparr>)"

text \<open>The manager's update methods as operations on its state.\<close>

datatype dash_op =
    UpdateTrades "json list"
  | UpdatePositions json
  | UpdateLeverage json
  | UpdatePerformance json

fun dash_step :: "dash_state \<Rightarrow> dash_op \<Rightarrow> dash_state" where
  "dash_step st (UpdateTrades ts) = update_trade_history ts st"
| "dash_step st (UpdatePositions p) = update_positions p st"
| "dash_step st (UpdateLeverage d) = update_leverage_data d st"
| "dash_step st (UpdatePerformance d) = update_performance d st"

fun added_trades :: "dash_op \<Rightarrow> json list" where
  "added_trades (UpdateTrades ts) = ts"
| "added_trades _ = []"

declare dash_init_def [model_defs] web_init_def [model_defs] update_trade_history_def [model_defs]
  update_positions_def [model_defs] update_leverage_data_def [model_defs]
  update_performance_def [model_defs] toggle_verbose_mode_def [model_defs]
  simplify_trade_def [model_defs] process_trade_history_def [model_defs]
  get_dashboard_data_def [model_defs] py_slice_index_def [model_defs] py_slice_def [model_defs]
  get_trades_def [model_defs]

subsection \<open>Facts\<close>

lemma trade_history_update:
  "trade_history (update_trade_history new st) = last_n 1000 (trade_history st @ new)"
  by (simp add: update_trade_history_def Let_def)

text \<open>With a non-negative offset and limit, a page is the \<open>limit\<close> trades from
  \<open>offset\<close> on.\<close>

lemma get_trades_page:
  assumes "get_trades st limit offset = Inr pg" and "0 \<le> offset" and "0 \<le> limit"
  shows "\<exists>trades. process_trade_history st = Inr trades
                 \<and> page_trades pg = take (nat limit) (drop (nat offset) trades)"
proof -
  obtain trades where t: "process_trade_history st = Inr trades"
    using assms(1) by (cases "process_trade_history st") (simp_all add: get_trades_def)
  have pg: "page_trades pg = (if offset < int (length trades) then py_slice trades offset (offset + limit) else [])"
    using assms(1) t by (auto simp: get_trades_def)
  have "page_trades pg = take (nat limit) (drop (nat offset) trades)"
  proof (cases "offset < int (length trades)")
    case True
    have "drop (nat offset) (take (min (nat (offset + limit)) (length trades)) trades)
          = take (nat limit) (drop (nat offset) trades)"
      using assms(2,3) by (simp add: drop_take nat_add_distrib min_def)
    then show ?thesis using True pg assms(2,3) by (simp add: py_slice_def py_slice_index_def)
  next
    case False
    then show ?thesis using pg assms(2) by simp
  qed
  then show ?thesis using t by blast
qed

text \<open>A negative offset counts from the end of the list in the slice but not in
  its stop bound: with 100 trades, \<open>offset = -1\<close> and \<open>limit = 50\<close> the page is empty,
  although the total is 100.\<close>

lemma py_slice_negative_offset_example:
  "py_slice [0..<100] (-1) (-1 + 50) = []"
  by (simp add: py_slice_def py_slice_index_def)


text \<open>C29: The trade history is a bounded buffer: from a new manager, after any
  sequence of update calls it holds exactly the last 1000 trades ever added, oldest
  first; the other updates do not touch it.\<close>

theorem trade_history_last_1000:
  "trade_history (foldl dash_step (dash_init v) ops) = last_n 1000 (concat (map added_trades ops))"
proof -
  have gen: "trade_history (foldl dash_step st ops)
               = last_n 1000 (trade_history st @ concat (map added_trades ops))"
    if "length (trade_history st) \<le> 1000" for st
    using that
  proof (induction ops arbitrary: st)
    case Nil
    then show ?case by simp
  next
    case (Cons op ops)
    have len: "length (trade_history (dash_step st op)) \<le> 1000"
      using Cons.prems by (cases op) (simp_all add: trade_history_update update_positions_def
                                                     update_leverage_data_def update_performance_def)
    have "trade_history (foldl dash_step st (op # ops))
          = last_n 1000 (trade_history (dash_step st op) @ concat (map added_trades ops))"
      using Cons.IH [OF len] by simp
    also have "\<dots> = last_n 1000 (trade_history st @ added_trades op @ concat (map added_trades ops))"
      by (cases op) (simp_all add: trade_history_update last_n_last_n_append update_positions_def
                                   update_leverage_data_def update_performance_def)
    finally show ?case by simp
  qed
  show ?thesis using gen [of "dash_init v"] by (simp add: dash_init_def)
qed


end
