(* ===== verification/Web_Routes.thy ===== *)
theory Web_Routes
  imports Web_Dashboard Py_Int
begin

text \<open>
  The routes of the dashboard blueprint of
  \<open>src/FuturesQuant/FuturesQuantCopilotFiles/FuturesQuant_web_dashboard.py\<close>,
  registered under the prefix \<open>/dashboard\<close>, and the query arguments of
  \<open>/api/trades\<close>, read by Werkzeug's \<open>request.args.get(key, default, type=int)\<close>:
  the first value of the key converted by Python's \<open>int\<close>, the default when the key
  is missing or \<open>int\<close> raises \<open>ValueError\<close>. \<open>int\<close> is the one of \<open>Py_Int\<close>. Flask's automatic \<open>HEAD\<close> and \<open>OPTIONS\<close> handling and its redirect of
  \<open>/dashboard\<close> to \<open>/dashboard/\<close> are not modelled: other methods are refused.
\<close>

subsection \<open>Query arguments\<close>

definition args_get_int :: "(string \<times> string) list \<Rightarrow> string \<Rightarrow> int \<Rightarrow> int" where
  "args_get_int args k d =
     (case map_of args k of
        None \<Rightarrow> d
      | Some v \<Rightarrow> (case parse_py_int v of None \<Rightarrow> d | Some n \<Rightarrow> n))"

subsection \<open>The routes\<close>

datatype http_response =
    Rendered string bool
  | JsonResp json
  | ServerError py_error
  | NotFound
  | MethodNotAllowed

definition page_json :: "trades_page \<Rightarrow> json" where
  "page_json pg =
     JObj [(''trades'', JList (page_trades pg)), (''total'', JNum (real (page_total pg))),
           (''verbose_mode'', JBool (page_verbose pg))]"

text \<open>\<open>get_trades\<close>: the arguments, then the manager's trades; an exception gives
  Flask's error response.\<close>

definition route_trades :: "web_module \<Rightarrow> (string \<times> string) list \<Rightarrow> http_response" where
  "route_trades w args =
     (let limit = args_get_int args ''limit'' 50;
          offset = args_get_int args ''offset'' 0
      in case get_trades (dashboard_manager w) limit offset of
           Inl e \<Rightarrow> ServerError e
         | Inr pg \<Rightarrow> JsonResp (page_json pg))"

definition route_data :: "web_module \<Rightarrow> json \<Rightarrow> http_response" where
  "route_data w ts =
     (case get_dashboard_data (dashboard_manager w) ts of
        Inl e \<Rightarrow> ServerError e
      | Inr j \<Rightarrow> JsonResp j)"

definition route_toggle :: "web_module \<Rightarrow> web_module \<times> http_response" where
  "route_toggle w = (let (w', v) = toggle_verbose_mode w in (w', JsonResp (JObj [(''verbose_mode'', JBool v)])))"

text \<open>A request to the application: method, path, query arguments; \<open>ts\<close> is the time
  \<open>get_dashboard_data\<close> stamps its answer with.\<close>

definition handle_request ::
  "web_module \<Rightarrow> json \<Rightarrow> string \<Rightarrow> string \<Rightarrow> (string \<times> string) list \<Rightarrow> web_module \<times> http_response" where
  "handle_request w ts meth path args =
     (if path = ''/dashboard/'' then
        (w, if meth = ''GET'' then Rendered ''dashboard.html'' (verbose_mode (dashboard_manager w))
            else MethodNotAllowed)
      else if path = ''/dashboard/api/data'' then
        (w, if meth = ''GET'' then route_data w ts else MethodNotAllowed)
      else if path = ''/dashboard/api/toggle_verbose'' then
        (if meth = ''POST'' then route_toggle w else (w, MethodNotAllowed))
      else if path = ''/dashboard/api/trades'' then
        (w, if meth = ''GET'' then route_trades w args else MethodNotAllowed)
      else (w, NotFound))"

declare args_get_int_def [model_defs]
  page_json_def [model_defs] route_trades_def [model_defs] route_data_def [model_defs]
  route_toggle_def [model_defs] handle_request_def [model_defs]

subsection \<open>Facts: the trades endpoint\<close>

lemma map_py_length: "map_py f xs = Inr ys \<Longrightarrow> length ys = length xs"
  by (induction xs arbitrary: ys) (auto split: sum.splits)

lemma process_trade_history_length:
  "process_trade_history st = Inr ts \<Longrightarrow> length ts \<le> 100"
  by (auto simp: process_trade_history_def dest: map_py_length split: if_splits)

lemma py_slice_length:
  "0 \<le> b \<or> a < 0 \<Longrightarrow> length (py_slice xs a b) \<le> nat (b - a)"
  "length (py_slice xs a b) \<le> length xs"
  by (auto simp: py_slice_def py_slice_index_def)

text \<open>A negative stop bound with a non-negative start counts from the end: with ten
  trades, \<open>offset = 0\<close> and \<open>limit = -1\<close> the page holds nine of them.\<close>

lemma py_slice_negative_limit_example:
  "length (py_slice [0..<10::nat] 0 (0 + -1)) = 9"
  by (simp add: py_slice_def py_slice_index_def)

text \<open>Unless a negative limit meets a non-negative offset, a page of \<open>/api/trades\<close>
  holds at most \<open>limit\<close> trades, never more than the total, and the total is at
  most 100 (the processed history is the last 50 or 100 trades).\<close>

lemma get_trades_bounds:
  assumes "get_trades st limit offset = Inr pg" and "0 \<le> offset + limit \<or> offset < 0"
  shows "length (page_trades pg) \<le> nat limit \<and> length (page_trades pg) \<le> page_total pg
         \<and> page_total pg \<le> 100"
proof -
  obtain ts where t: "process_trade_history st = Inr ts"
    using assms(1) by (cases "process_trade_history st") (simp_all add: get_trades_def)
  have pg: "page_trades pg = (if offset < int (length ts) then py_slice ts offset (offset + limit) else [])"
    "page_total pg = length ts"
    using assms(1) t by (auto simp: get_trades_def)
  show ?thesis
    using pg py_slice_length(1) [of "offset + limit" offset ts] py_slice_length(2) [of ts] assms(2) process_trade_history_length [OF t]
    by auto
qed

subsection \<open>Facts: the module state\<close>

text \<open>Only \<open>POST /dashboard/api/toggle_verbose\<close> changes the module.\<close>

lemma handle_request_state:
  "fst (handle_request w ts meth path args)
     = (if path = ''/dashboard/api/toggle_verbose'' \<and> meth = ''POST'' then fst (toggle_verbose_mode w) else w)"
  by (simp add: handle_request_def route_toggle_def split_beta)

definition web_inv :: "web_module \<Rightarrow> bool" where
  "web_inv w = (VERBOSE_MODE w = verbose_mode (dashboard_manager w))"

lemma toggle_web_inv: "web_inv (fst (toggle_verbose_mode w))"
  by (simp add: web_inv_def toggle_verbose_mode_def Let_def)

lemma handle_request_web_inv: "web_inv w \<Longrightarrow> web_inv (fst (handle_request w ts meth path args))"
  by (simp add: handle_request_state toggle_web_inv)

lemma toggle_twice: "web_inv w \<Longrightarrow> fst (toggle_verbose_mode (fst (toggle_verbose_mode w))) = w"
  by (simp add: web_inv_def toggle_verbose_mode_def Let_def)

end
