(* ===== verification/Core_Manager.thy ===== *)
theory Core_Manager
  imports Aggregator MLMI Cross_Correlation
begin

text \<open>
  The classes of \<open>src/FuturesQuant/core/indicator/manager.py\<close> that \<open>Registry\<close> leaves
  generic: the base class \<open>Indicator\<close>, and \<open>IndicatorManager.__init__\<close>, which fills
  the registry with one default instance of each of five classes. \<open>MLMI\<close> and
  \<open>CrossCorrelationPair\<close> are the models of \<open>MLMI\<close> and \<open>Cross_Correlation\<close>;
  \<open>SuperTrendAI\<close>, \<open>SuperTrend\<close> and \<open>Scalping\<close> come from modules that are not in the
  repository, so their instances and \<open>calculate\<close> methods are parameters. With this
  registry the aggregator of \<open>Aggregator\<close> runs on the indicators the code installs.
  \<open>mlmi.py\<close> and \<open>cross_correlation_pair.py\<close> import \<open>Indicator\<close> from a module
  \<open>.base\<close> that is not in the repository either; it is taken to be the base class
  below, whose constructor only records the name and parameters.
\<close>

subsection \<open>The base class \<open>Indicator\<close>\<close>

record 'v base_indicator =
  bi_name :: string
  bi_params :: "(string \<times> 'v) list"

text \<open>\<open>params or {}\<close>: a missing or empty dictionary gives the empty one.\<close>

definition indicator_init :: "string \<Rightarrow> (string \<times> 'v) list option \<Rightarrow> 'v base_indicator" where
  "indicator_init name params =
     \<lparr>bi_name = name, bi_params = (case params of None \<Rightarrow> [] | Some p \<Rightarrow> p)\<rparr>"

definition base_calculate :: "'v base_indicator \<Rightarrow> 'd \<Rightarrow> py_error + 'r" where
  "base_calculate ind d = Inl (NotImplementedError ''Subclasses must implement calculate()'')"

text \<open>\<open>__str__\<close>: \<open>name (k1=v1, k2=v2)\<close>, with \<open>render\<close> the rendering of a value.\<close>

fun py_join :: "string \<Rightarrow> string list \<Rightarrow> string" where
  "py_join sep [] = []"
| "py_join sep [x] = x"
| "py_join sep (x # y # xs) = x @ sep @ py_join sep (y # xs)"

definition indicator_str :: "('v \<Rightarrow> string) \<Rightarrow> 'v base_indicator \<Rightarrow> string" where
  "indicator_str render ind =
     bi_name ind @ '' ('' @ py_join '', '' (map (\<lambda>(k, v). k @ ''='' @ render v) (bi_params ind)) @ '')''"

subsection \<open>The instances of \<open>IndicatorManager\<close>\<close>

datatype ('a, 'b, 'c) core_indicator =
    SuperTrendAI_I 'a
  | SuperTrend_I 'b
  | Scalping_I 'c
  | MLMI_I "series mlmi_state"
  | CCP_I ccp_state

datatype ('ra, 'rb, 'rc) core_result =
    SuperTrendAI_R 'ra
  | SuperTrend_R 'rb
  | Scalping_R 'rc
  | MLMI_R mlmi_result
  | CCP_R ccp_result

text \<open>\<open>indicator.calculate(data)\<close>, dispatched on the class of the instance; the
  instance comes back with the state \<open>calculate\<close> left in it.\<close>

fun core_calc ::
  "('a \<Rightarrow> frame \<Rightarrow> 'a \<times> (py_error + 'ra)) \<Rightarrow> ('b \<Rightarrow> frame \<Rightarrow> 'b \<times> (py_error + 'rb))
   \<Rightarrow> ('c \<Rightarrow> frame \<Rightarrow> 'c \<times> (py_error + 'rc))
   \<Rightarrow> (('a, 'b, 'c) core_indicator, frame, ('ra, 'rb, 'rc) core_result) calc_step" where
  "core_calc fa fb fc (SuperTrendAI_I x) df =
     (case fa x df of (x', r) \<Rightarrow> (SuperTrendAI_I x', map_sum id SuperTrendAI_R r))"
| "core_calc fa fb fc (SuperTrend_I x) df =
     (case fb x df of (x', r) \<Rightarrow> (SuperTrend_I x', map_sum id SuperTrend_R r))"
| "core_calc fa fb fc (Scalping_I x) df =
     (case fc x df of (x', r) \<Rightarrow> (Scalping_I x', map_sum id Scalping_R r))"
| "core_calc fa fb fc (MLMI_I s) df =
     (case mlmi_calculate s df of (s', r) \<Rightarrow> (MLMI_I s', map_sum id MLMI_R r))"
| "core_calc fa fb fc (CCP_I s) df =
     (case ccp_calculate s df of (s', r) \<Rightarrow> (CCP_I s', map_sum id CCP_R r))"

text \<open>\<open>MLMI()\<close> and \<open>CrossCorrelationPair()\<close> with their default arguments.\<close>

definition mlmi_default :: "series mlmi_state" where
  "mlmi_default = mlmi_init 200 20"

definition ccp_default :: ccp_state where
  "ccp_default = ccp_init 20 0.7 0.2"

definition core_manager_init :: "'a \<Rightarrow> 'b \<Rightarrow> 'c \<Rightarrow> ('a, 'b, 'c) core_indicator registry" where
  "core_manager_init sta st sc =
     map_of [(''SuperTrendAI'', SuperTrendAI_I sta), (''SuperTrend'', SuperTrend_I st),
             (''Scalping'', Scalping_I sc), (''MLMI'', MLMI_I mlmi_default),
             (''CrossCorrelationPair'', CCP_I ccp_default)]"

declare indicator_init_def [model_defs] base_calculate_def [model_defs] indicator_str_def [model_defs]
  mlmi_default_def [model_defs] ccp_default_def [model_defs] core_manager_init_def [model_defs]

subsection \<open>The aggregator on the installed indicators\<close>

text \<open>Fail-fast, generically: if an invariant of the registry survives every
  successful call and, while it holds, one signal of the batch always raises, the
  batch raises.\<close>

lemma aggregate_loop_raises_inv:
  assumes pres: "\<And>m n d m' r. Q m \<Longrightarrow> manager_calculate calc m n d = (m', Inr r) \<Longrightarrow> Q m'"
    and raises: "\<And>m. Q m \<Longrightarrow> \<exists>e. snd (manager_calculate calc m (indicator s) (data s)) = Inl e"
    and "s \<in> set ss" and "Q m"
  shows "\<exists>e. snd (aggregate_loop calc m ss acc) = Inl e"
  using assms(3,4)
proof (induction ss arbitrary: m acc)
  case Nil
  then show ?case by simp
next
  case (Cons s' ss)
  obtain m' r where mc: "manager_calculate calc m (indicator s') (data s') = (m', r)" by fastforce
  show ?case
  proof (cases r)
    case (Inl e)
    then show ?thesis using mc by simp
  next
    case (Inr x)
    then have "s' \<noteq> s" using raises [OF Cons.prems(2)] mc by auto
    then have "s \<in> set ss" using Cons.prems(1) by simp
    then show ?thesis using Cons.IH pres [OF Cons.prems(2)] mc Inr by simp
  qed
qed

definition mlmi_installed :: "('a, 'b, 'c) core_indicator registry \<Rightarrow> bool" where
  "mlmi_installed m = (case m ''MLMI'' of Some (MLMI_I s) \<Rightarrow> momentum_window s = 20 | _ \<Rightarrow> False)"

lemma mlmi_installed_calc:
  "mlmi_installed m \<Longrightarrow> mlmi_installed (fst (manager_calculate (core_calc fa fb fc) m n d))"
proof (cases "n = ''MLMI''")
  case True
  assume inst: "mlmi_installed m"
  then obtain s where s: "m ''MLMI'' = Some (MLMI_I s)" "momentum_window s = 20"
    by (auto simp: mlmi_installed_def split: option.splits core_indicator.splits)
  then show ?thesis
    using True mlmi_calculate_window [of s d]
    by (simp add: manager_calculate_def get_indicator_def mlmi_installed_def split_beta)
next
  case False
  assume "mlmi_installed m"
  then show ?thesis using False
    by (auto simp: manager_calculate_def get_indicator_def mlmi_installed_def split: option.splits prod.splits)
qed

lemma mlmi_installed_raises:
  assumes "mlmi_installed m" and "20 \<le> frame_len d"
  shows "\<exists>e. snd (manager_calculate (core_calc fa fb fc) m ''MLMI'' d) = Inl e"
proof -
  obtain s where s: "m ''MLMI'' = Some (MLMI_I s)" "momentum_window s = 20"
    using assms(1) by (auto simp: mlmi_installed_def split: option.splits core_indicator.splits)
  obtain e where "snd (mlmi_calculate s d) = Inl e"
    using mlmi_calculate_raises_gen [of s d] s(2) assms(2) by auto
  then show ?thesis using s(1) by (auto simp: manager_calculate_def get_indicator_def split_beta)
qed

lemma core_manager_init_mlmi: "mlmi_installed (core_manager_init sta st sc)"
  by (simp add: mlmi_installed_def core_manager_init_def mlmi_default_def mlmi_init_def)

text \<open>With the registry \<open>IndicatorManager()\<close> installs, every batch that names
  \<open>MLMI\<close> with at least 20 rows of data raises, whatever else it holds: the default
  \<open>MLMI\<close> has \<open>momentum_window = 20\<close>, keeps it through every call, and its
  \<open>calculate\<close> raises on that many rows.\<close>

lemma aggregate_default_manager_mlmi_raises:
  assumes "s \<in> set ss" and "indicator s = ''MLMI''" and "20 \<le> frame_len (data s)"
  shows "\<exists>e. snd (aggregate_signals (core_calc fa fb fc) (core_manager_init sta st sc) ss) = Inl e"
  unfolding aggregate_signals_def
proof (rule aggregate_loop_raises_inv [where Q = mlmi_installed and s = s])
  show "mlmi_installed m'" if "mlmi_installed m" "manager_calculate (core_calc fa fb fc) m n d = (m', Inr r)"
    for m n d m' r
    using mlmi_installed_calc [OF that(1), of fa fb fc n d] that(2) by simp
  show "\<exists>e. snd (manager_calculate (core_calc fa fb fc) m (indicator s) (data s)) = Inl e"
    if "mlmi_installed m" for m
    using mlmi_installed_raises [OF that assms(3)] assms(2) by simp
qed (use assms(1) core_manager_init_mlmi in auto)

end
