(* ===== verification/External_Clients.thy ===== *)
theory External_Clients
  imports Web_Dashboard
begin

text \<open>
  The configuration module \<open>src/config/config.py\<close> and the TwelveData client of
  \<open>src/data_sources/twelvedata_client.py\<close>. The process environment and the
  \<open>.env\<close> file are maps from names to strings; \<open>load_dotenv\<close> adds the file's
  variables without overriding the environment. The HTTP layer is a parameter
  \<open>http\<close>: given the URL and the encoded query parameters it returns the decoded
  JSON body, or the exception that \<open>requests.get\<close>, \<open>raise_for_status\<close> or
  \<open>.json()\<close> raises. \<open>requests\<close> leaves out a parameter whose value is \<open>None\<close>. Of the
  conversion of a time series to a pandas frame, the reading of the rows and of the
  datetimes are parameters; the index and its sort are modelled.
\<close>

subsection \<open>\<open>Config\<close>\<close>

type_synonym env = "string \<rightharpoonup> string"

definition load_dotenv :: "env \<Rightarrow> env \<Rightarrow> env" where
  "load_dotenv environ dotenv = dotenv ++ environ"

record app_config =
  POLYGON_API_KEY :: "string option"
  TWELVEDATA_API_KEY :: "string option"

definition config_class :: "env \<Rightarrow> app_config" where
  "config_class environ =
     \<lparr>POLYGON_API_KEY = environ ''POLYGON_API_KEY'', TWELVEDATA_API_KEY = environ ''TWELVEDATA_API_KEY''\<rparr>"

text \<open>\<open>not key\<close>: \<open>None\<close> and the empty string are false.\<close>

definition key_missing :: "string option \<Rightarrow> bool" where
  "key_missing k = (case k of None \<Rightarrow> True | Some s \<Rightarrow> s = [])"

definition config_validate :: "app_config \<Rightarrow> py_error + unit" where
  "config_validate c =
     (if key_missing (POLYGON_API_KEY c)
      then Inl (ValueError ''Polygon API key not found. Please add it to your .env file.'')
      else if key_missing (TWELVEDATA_API_KEY c)
      then Inl (ValueError ''Twelve Data API key not found. Please add it to your .env file.'')
      else Inr ())"

text \<open>Importing the module: \<open>load_dotenv()\<close>, the class body, then
  \<open>Config.validate()\<close>; an exception makes the import fail.\<close>

definition config_import :: "env \<Rightarrow> env \<Rightarrow> py_error + app_config" where
  "config_import environ dotenv =
     (let c = config_class (load_dotenv environ dotenv)
      in case config_validate c of Inl e \<Rightarrow> Inl e | Inr _ \<Rightarrow> Inr c)"

subsection \<open>\<open>TwelveDataClient\<close>\<close>

type_synonym http_get = "string \<Rightarrow> (string \<times> string) list \<Rightarrow> py_error + json"

record td_client =
  api_key :: "string option"

definition td_base_url :: string where
  "td_base_url = ''https://api.twelvedata.com''"

definition td_init :: "app_config \<Rightarrow> td_client" where
  "td_init c = \<lparr>api_key = TWELVEDATA_API_KEY c\<rparr>"

text \<open>Query parameters as \<open>requests\<close> sends them: \<open>None\<close> values are dropped.\<close>

definition encode_params :: "(string \<times> string option) list \<Rightarrow> (string \<times> string) list" where
  "encode_params ps = concat (map (\<lambda>(k, v). case v of None \<Rightarrow> [] | Some s \<Rightarrow> [(k, s)]) ps)"

definition make_request ::
  "http_get \<Rightarrow> td_client \<Rightarrow> string \<Rightarrow> (string \<times> string option) list \<Rightarrow> py_error + json" where
  "make_request http cl endpoint params =
     http (td_base_url @ ''/'' @ endpoint) (encode_params (dict_set ''apikey'' (api_key cl) params))"

definition td_get_price :: "http_get \<Rightarrow> td_client \<Rightarrow> string \<Rightarrow> py_error + json" where
  "td_get_price http cl symbol =
     (case make_request http cl ''price'' [(''symbol'', Some symbol)] of
        Inl e \<Rightarrow> Inl e
      | Inr data \<Rightarrow> py_subscript data ''price'')"

text \<open>\<open>get_time_series\<close> up to \<open>data["values"]\<close>, the rows of the frame; the
  integer \<open>outputsize\<close> is sent as its decimal string.\<close>

definition td_time_series_values ::
  "http_get \<Rightarrow> td_client \<Rightarrow> string \<Rightarrow> string \<Rightarrow> string \<Rightarrow> py_error + json" where
  "td_time_series_values http cl symbol interval outputsize =
     (case make_request http cl ''time_series''
             [(''symbol'', Some symbol), (''interval'', Some interval), (''outputsize'', Some outputsize)] of
        Inl e \<Rightarrow> Inl e
      | Inr data \<Rightarrow> py_subscript data ''values'')"

text \<open>The rest of \<open>get_time_series\<close>. \<open>pd.DataFrame(data["values"])\<close> is a parameter
  \<open>frame\<close> giving the rows (a row is a dictionary of its columns; pandas' treatment of
  the shapes of the JSON is not modelled), and \<open>pd.to_datetime\<close> is a parameter
  \<open>to_dt\<close> on one value, into any linear order. \<open>df["datetime"]\<close> raises
  \<open>KeyError\<close> when no row has the column (an empty series gives an empty frame); a row
  without it gets \<open>NaT\<close>, here \<open>None\<close>. \<open>set_index\<close> moves the column into the index
  and \<open>sort_index\<close> orders the rows by it with \<open>NaT\<close> last; for equal datetimes the
  default quicksort leaves the order unspecified, and the model keeps the order of the
  rows.\<close>

type_synonym row = "(string \<times> json) list"

definition datetime_column :: "(json \<Rightarrow> py_error + 'k) \<Rightarrow> row list \<Rightarrow> py_error + 'k option list" where
  "datetime_column to_dt rows =
     (if \<not> list_ex (\<lambda>r. ''datetime'' \<in> fst ` set r) rows then Inl (KeyError ''datetime'')
      else map_py (\<lambda>r. case map_of r ''datetime'' of None \<Rightarrow> Inr None | Some v \<Rightarrow> map_sum id Some (to_dt v)) rows)"

definition sort_index :: "('k::linorder option \<times> 'a) list \<Rightarrow> ('k option \<times> 'a) list" where
  "sort_index ps =
     sort_key (\<lambda>p. the (fst p)) (filter (\<lambda>p. fst p \<noteq> None) ps) @ filter (\<lambda>p. fst p = None) ps"

definition td_get_time_series ::
  "http_get \<Rightarrow> (json \<Rightarrow> py_error + row list) \<Rightarrow> (json \<Rightarrow> py_error + 'k::linorder) \<Rightarrow> td_client
   \<Rightarrow> string \<Rightarrow> string \<Rightarrow> string \<Rightarrow> py_error + ('k option \<times> row) list" where
  "td_get_time_series http frame to_dt cl symbol interval outputsize =
     (case td_time_series_values http cl symbol interval outputsize of
        Inl e \<Rightarrow> Inl e
      | Inr vals \<Rightarrow>
          (case frame vals of
             Inl e \<Rightarrow> Inl e
           | Inr rows \<Rightarrow>
               (case datetime_column to_dt rows of
                  Inl e \<Rightarrow> Inl e
                | Inr keys \<Rightarrow>
                    Inr (sort_index (zip keys (map (filter (\<lambda>c. fst c \<noteq> ''datetime'')) rows))))))"

declare datetime_column_def [model_defs] sort_index_def [model_defs] td_get_time_series_def [model_defs]

declare load_dotenv_def [model_defs] config_class_def [model_defs] key_missing_def [model_defs]
  config_validate_def [model_defs] config_import_def [model_defs] td_base_url_def [model_defs]
  td_init_def [model_defs] encode_params_def [model_defs] make_request_def [model_defs]
  td_get_price_def [model_defs] td_time_series_values_def [model_defs]

subsection \<open>Facts\<close>

text \<open>A successful import has both keys set and non-empty; the environment wins over
  the \<open>.env\<close> file.\<close>

lemma config_import_keys:
  assumes "config_import environ dotenv = Inr c"
  shows "\<not> key_missing (POLYGON_API_KEY c) \<and> \<not> key_missing (TWELVEDATA_API_KEY c)
         \<and> POLYGON_API_KEY c = (case environ ''POLYGON_API_KEY'' of None \<Rightarrow> dotenv ''POLYGON_API_KEY'' | v \<Rightarrow> v)"
  using assms
  by (auto simp: config_import_def config_validate_def config_class_def load_dotenv_def map_add_def Let_def
           split: if_splits sum.splits option.splits)

text \<open>The client needs only the TwelveData key, but the import of \<open>config\<close> that it
  depends on fails without the Polygon key.\<close>

lemma config_import_needs_polygon:
  "key_missing (load_dotenv environ dotenv ''POLYGON_API_KEY'') \<Longrightarrow>
   config_import environ dotenv = Inl (ValueError ''Polygon API key not found. Please add it to your .env file.'')"
  by (simp add: config_import_def config_validate_def config_class_def)

text \<open>What \<open>get_price\<close> sends: the price endpoint, the symbol and then the key, which
  is left out when the client has none.\<close>

lemma td_get_price_request:
  "td_get_price http cl symbol =
     (case http ''https://api.twelvedata.com/price''
             ((''symbol'', symbol) # (case api_key cl of None \<Rightarrow> [] | Some k \<Rightarrow> [(''apikey'', k)])) of
        Inl e \<Rightarrow> Inl e
      | Inr data \<Rightarrow> py_subscript data ''price'')"
  by (cases "api_key cl") (simp_all add: td_get_price_def make_request_def encode_params_def td_base_url_def)

text \<open>The module's unit test \<open>test_get_price\<close>: with a response body
  \<open>{"price": "150.00"}\<close>, \<open>get_price\<close> returns \<open>"150.00"\<close>.\<close>

lemma td_get_price_test:
  "td_get_price (\<lambda>url ps. Inr (JObj [(''price'', JStr ''150.00'')])) (td_init c) ''AAPL'' = Inr (JStr ''150.00'')"
  by (simp add: td_get_price_def make_request_def)

text \<open>The frame \<open>get_time_series\<close> returns is its rows reordered: sorted by
  datetime, the rows without one last, none lost or added.\<close>

lemma sort_index_sorted_perm:
  "mset (sort_index ps) = mset ps
   \<and> sorted (map (\<lambda>p. the (fst p)) (takeWhile (\<lambda>p. fst p \<noteq> None) (sort_index ps)))
   \<and> (\<forall>p \<in> set (dropWhile (\<lambda>p. fst p \<noteq> None) (sort_index ps)). fst p = None)"
proof -
  let ?s = "sort_key (\<lambda>p. the (fst p)) (filter (\<lambda>p. fst p \<noteq> None) ps)"
  let ?n = "filter (\<lambda>p. fst p = None) ps"
  have some: "\<And>p. p \<in> set ?s \<Longrightarrow> fst p \<noteq> None" by simp
  have hd_n: "?n = [] \<or> fst (hd ?n) = None"
  proof (cases "?n = []")
    case False
    then have "hd ?n \<in> set ?n" by (rule hd_in_set)
    then show ?thesis by simp
  qed simp
  have "takeWhile (\<lambda>p. fst p \<noteq> None) (?s @ ?n) = ?s"
    using takeWhile_append2 [of ?s "\<lambda>p. fst p \<noteq> None" ?n, OF some] hd_n
    by (auto simp: takeWhile_eq_Nil_iff)
  moreover have "dropWhile (\<lambda>p. fst p \<noteq> None) (?s @ ?n) = ?n"
    using dropWhile_append2 [of ?s "\<lambda>p. fst p \<noteq> None" ?n, OF some] hd_n
    by (auto simp: dropWhile_eq_self_iff)
  moreover have "mset (?s @ ?n) = mset ps"
    using multiset_partition [of "mset ps" "\<lambda>p. fst p \<noteq> None"] by (simp add: mset_filter)
  ultimately show ?thesis by (simp add: sort_index_def)
qed

text \<open>A response whose series has no rows makes \<open>df["datetime"]\<close> raise: an empty
  series is an error, not an empty frame.\<close>

lemma td_get_time_series_empty:
  "td_time_series_values http cl symbol interval outputsize = Inr vals \<Longrightarrow> frame vals = Inr [] \<Longrightarrow>
   td_get_time_series http frame to_dt cl symbol interval outputsize = Inl (KeyError ''datetime'')"
  by (simp add: td_get_time_series_def datetime_column_def)

end
