(* ===== verification/Dashboard.thy ===== *)
theory Dashboard
  imports Aggregator
begin

text \<open>
  The dashboard API of \<open>src/FuturesQuant/Dashboard/api/api/indicators.py\<close> (the
  endpoint is repeated verbatim in \<open>Dashboard/api/indicators.py\<close>): the POST handler
  \<open>get_aggregated_signals\<close> aggregates the request's agent signals with the module's
  \<open>SignalAggregator\<close> and summarizes them; an exception becomes Flask's error response.
  The request body is the value of its \<open>agent_signals\<close> key (\<open>None\<close> when missing);
  a body that is not JSON is not modelled. \<open>IBKRWrapper\<close> is modelled by the calls
  it issues to the \<open>ib_insync\<close> client, with the gateway's answers as parameters.
\<close>

record 'r api_response =
  aggregated_signals :: "'r aggregated_signal list"
  sentiment_summary :: summary

definition get_aggregated_signals ::
  "('i, 'd, 'r) calc_step \<Rightarrow> 'i registry \<Rightarrow> 'd agent_signal list option
   \<Rightarrow> 'i registry \<times> (py_error + 'r api_response)" where
  "get_aggregated_signals calc m req =
     (let agent_signals = (case req of None \<Rightarrow> [] | Some ss \<Rightarrow> ss)
      in case aggregate_signals calc m agent_signals of
           (m', Inl e) \<Rightarrow> (m', Inl e)
         | (m', Inr ags) \<Rightarrow>
             (m', Inr \<lparr>aggregated_signals = ags, sentiment_summary = summarize_signals ags\<rparr>))"

subsection \<open>Orders of \<open>IBKRWrapper.place_order\<close>\<close>

datatype order = MarketOrder string int

text \<open>\<open>self.ib.marketOrder(action, quantity) if order_type == 'MKT' else
  self.ib.limitOrder(action, quantity, price)\<close>: \<open>price\<close> is neither a parameter nor a
  global of the module, so the second branch raises \<open>NameError\<close>.\<close>

definition place_order_order :: "string \<Rightarrow> int \<Rightarrow> string \<Rightarrow> py_error + order" where
  "place_order_order act quantity order_type =
     (if order_type = ''MKT'' then Inr (MarketOrder act quantity)
      else Inl (NameError ''name 'price' is not defined''))"

subsection \<open>The broker wrapper\<close>

text \<open>The \<open>ib_insync\<close> client is the sequence of calls the wrapper issues to it; what
  the gateway answers is a parameter: \<open>quote\<close> gives the ticker's bid, ask and last
  price for a contract (NaN while no data has arrived, as in \<open>ib_insync\<close>), and
  \<open>place\<close> gives the trade object of a placed order.\<close>

datatype contract = Stock string string string

datatype ib_call =
    IBConnect string int int
  | IBDisconnect
  | QualifyContracts contract
  | ReqMktData contract
  | IBSleep nat
  | PlaceOrder contract order

record ibkr_wrapper =
  ib_calls :: "ib_call list"
  ib_host :: string
  ib_port :: int
  ib_client_id :: int

definition ibkr_init :: "string \<Rightarrow> int \<Rightarrow> int \<Rightarrow> ibkr_wrapper" where
  "ibkr_init host port cid = \<lparr>ib_calls = [], ib_host = host, ib_port = port, ib_client_id = cid\<rparr>"

definition ibkr_default :: ibkr_wrapper where
  "ibkr_default = ibkr_init ''127.0.0.1'' 4002 1"

definition ib_issue :: "ib_call \<Rightarrow> ibkr_wrapper \<Rightarrow> ibkr_wrapper" where
  "ib_issue c w = w\<lparr>ib_calls := ib_calls w @ [c]\<rparr>"

definition ibkr_connect :: "ibkr_wrapper \<Rightarrow> ibkr_wrapper" where
  "ibkr_connect w = ib_issue (IBConnect (ib_host w) (ib_port w) (ib_client_id w)) w"

definition ibkr_disconnect :: "ibkr_wrapper \<Rightarrow> ibkr_wrapper" where
  "ibkr_disconnect w = ib_issue IBDisconnect w"

record market_quote =
  q_symbol :: string
  q_bid :: flt
  q_ask :: flt
  q_last :: flt

definition get_market_data ::
  "(contract \<Rightarrow> flt \<times> flt \<times> flt) \<Rightarrow> string \<Rightarrow> string \<Rightarrow> string \<Rightarrow> ibkr_wrapper
   \<Rightarrow> ibkr_wrapper \<times> market_quote" where
  "get_market_data quote symbol exchange currency w =
     (let contract = Stock symbol exchange currency;
          w1 = ib_issue (QualifyContracts contract) w;
          w2 = ib_issue (ReqMktData contract) w1;
          w3 = ib_issue (IBSleep 2) w2;
          (bid, ask, lst) = quote contract
      in (w3, \<lparr>q_symbol = symbol, q_bid = bid, q_ask = ask, q_last = lst\<rparr>))"

text \<open>\<open>place_order\<close>: the contract is qualified with the gateway before the order
  expression is evaluated, so a \<open>NameError\<close> leaves that call behind.\<close>

definition place_order ::
  "(contract \<Rightarrow> order \<Rightarrow> 't) \<Rightarrow> string \<Rightarrow> string \<Rightarrow> int \<Rightarrow> string \<Rightarrow> string \<Rightarrow> string
   \<Rightarrow> ibkr_wrapper \<Rightarrow> ibkr_wrapper \<times> (py_error + 't)" where
  "place_order place symbol act quantity order_type exchange currency w =
     (let contract = Stock symbol exchange currency;
          w1 = ib_issue (QualifyContracts contract) w
      in case place_order_order act quantity order_type of
           Inl e \<Rightarrow> (w1, Inl e)
         | Inr ord \<Rightarrow> (ib_issue (PlaceOrder contract ord) w1, Inr (place contract ord)))"

text \<open>The wrapper's methods as operations, for sequences of calls.\<close>

datatype ibkr_op =
    OpConnect
  | OpDisconnect
  | OpMarketData string string string
  | OpPlaceOrder string string int string string string

fun ibkr_step ::
  "(contract \<Rightarrow> flt \<times> flt \<times> flt) \<Rightarrow> ibkr_wrapper \<Rightarrow> ibkr_op \<Rightarrow> ibkr_wrapper" where
  "ibkr_step quote w OpConnect = ibkr_connect w"
| "ibkr_step quote w OpDisconnect = ibkr_disconnect w"
| "ibkr_step quote w (OpMarketData sy ex cu) = fst (get_market_data quote sy ex cu w)"
| "ibkr_step quote w (OpPlaceOrder sy a q ot ex cu) = fst (place_order (\<lambda>c od. ()) sy a q ot ex cu w)"

text \<open>The orders that reach the gateway, read off the calls.\<close>

fun placed_orders :: "ib_call list \<Rightarrow> (contract \<times> order) list" where
  "placed_orders [] = []"
| "placed_orders (PlaceOrder c od # cs) = (c, od) # placed_orders cs"
| "placed_orders (_ # cs) = placed_orders cs"

text \<open>The market orders a sequence of operations asks for.\<close>

fun requested_orders :: "ibkr_op list \<Rightarrow> (contract \<times> order) list" where
  "requested_orders [] = []"
| "requested_orders (OpPlaceOrder sy a q ot ex cu # ops) =
     (if ot = ''MKT'' then [(Stock sy ex cu, MarketOrder a q)] else []) @ requested_orders ops"
| "requested_orders (_ # ops) = requested_orders ops"

declare get_aggregated_signals_def [model_defs] place_order_order_def [model_defs]
  ibkr_init_def [model_defs] ibkr_default_def [model_defs] ib_issue_def [model_defs]
  ibkr_connect_def [model_defs] ibkr_disconnect_def [model_defs] get_market_data_def [model_defs]
  place_order_def [model_defs]

lemma place_order_non_market_raises:
  "order_type \<noteq> ''MKT'' \<Longrightarrow>
   place_order_order act quantity order_type = Inl (NameError ''name 'price' is not defined'')"
  by (simp add: place_order_order_def)

lemma get_aggregated_signals_Inr:
  assumes "snd (get_aggregated_signals calc m (Some ss)) = Inr resp"
  shows "\<exists>m' rs. aggregate_loop calc m ss [] = (m', Inr (aggregated_signals resp))
                 \<and> length rs = length ss \<and> aggregated_signals resp = map2 make_aggregated ss rs
                 \<and> sentiment_summary resp = summarize_signals (aggregated_signals resp)"
proof -
  obtain m' r where agg: "aggregate_loop calc m ss [] = (m', r)" by fastforce
  then obtain ags where r: "r = Inr ags" and resp: "resp = \<lparr>aggregated_signals = ags, sentiment_summary = summarize_signals ags\<rparr>"
    using assms by (cases r) (simp_all add: get_aggregated_signals_def aggregate_signals_def)
  obtain rs where "length rs = length ss" "ags = map2 make_aggregated ss rs"
    using aggregate_loop_Inr [of calc m ss "[]" m' ags] agg r by auto
  then show ?thesis using agg r resp by auto
qed

lemma placed_orders_append [simp]: "placed_orders (xs @ ys) = placed_orders xs @ placed_orders ys"
  by (induction xs rule: placed_orders.induct) simp_all

lemma placed_orders_ibkr_step:
  "placed_orders (ib_calls (ibkr_step quote w op)) = placed_orders (ib_calls w) @ requested_orders [op]"
  by (cases op) (simp_all add: ibkr_connect_def ibkr_disconnect_def get_market_data_def place_order_def
                               place_order_order_def ib_issue_def split_beta Let_def)

text \<open>Only market orders reach the gateway: over any sequence of wrapper calls, the
  orders placed are exactly the requested \<open>MKT\<close> orders, in order, on the contracts
  built from the call's arguments; a limit order never reaches it.\<close>

lemma placed_orders_foldl:
  "placed_orders (ib_calls (foldl (ibkr_step quote) w ops))
     = placed_orders (ib_calls w) @ requested_orders ops"
proof (induction ops arbitrary: w)
  case Nil
  then show ?case by simp
next
  case (Cons op ops)
  have "requested_orders (op # ops) = requested_orders [op] @ requested_orders ops"
    by (cases op) simp_all
  then show ?case using Cons.IH [of "ibkr_step quote w op"] placed_orders_ibkr_step [of quote w op] by simp
qed

text \<open>A non-market order raises \<open>NameError\<close> after the contract has been qualified
  with the gateway: the wrapper's call log keeps that call.\<close>

lemma place_order_non_market:
  "order_type \<noteq> ''MKT'' \<Longrightarrow>
   place_order place symbol act quantity order_type exchange currency w
     = (ib_issue (QualifyContracts (Stock symbol exchange currency)) w,
        Inl (NameError ''name 'price' is not defined''))"
  by (simp add: place_order_def place_order_order_def Let_def)

end
