(* ===== verification/Api_Endpoint.thy ===== *)
theory Api_Endpoint
  imports Dashboard Web_Dashboard
begin

text \<open>
  The aggregated-signals endpoint as it handles the decoded request body, in
  \<open>src/FuturesQuant/Dashboard/api/indicators.py\<close> (and verbatim in
  \<open>Dashboard/api/api/indicators.py\<close>), with \<open>SignalAggregator\<close> on JSON values: the
  body is the value \<open>request.get_json()\<close> returns, each agent signal is whatever the
  request holds, and every subscript, iteration and dictionary test can raise as it
  does in Python. \<open>Dashboard\<close> and \<open>Aggregator\<close> model the same code on records, where
  every signal is a dictionary with the four keys; this theory also covers the bodies
  the record model cannot represent (\<open>null\<close>, a list, signals that are not
  dictionaries, actions that are not strings). The theorem at the end shows what an
  answer says about the request. Serialising the response with \<open>jsonify\<close> is not
  modelled.
\<close>

subsection \<open>Python operations on decoded JSON\<close>

text \<open>\<open>for x in v\<close>: a list yields its items, a string its characters, a dictionary
  its keys; anything else is not iterable.\<close>

fun py_iter :: "json \<Rightarrow> py_error + json list" where
  "py_iter (JList xs) = Inr xs"
| "py_iter (JStr s) = Inr (map (\<lambda>c. JStr [c]) s)"
| "py_iter (JObj kvs) = Inr (map (\<lambda>kv. JStr (fst kv)) kvs)"
| "py_iter _ = Inl TypeError"

text \<open>\<open>IndicatorManager.calculate(name, data)\<close> with a decoded name: a dictionary
  lookup with an unhashable key raises \<open>TypeError\<close>, and a key that is not a string
  is never registered.\<close>

definition json_calculate ::
  "('i, json, 'r) calc_step \<Rightarrow> 'i registry \<Rightarrow> json \<Rightarrow> json \<Rightarrow> 'i registry \<times> (py_error + 'r)" where
  "json_calculate calc m name d =
     (case name of
        JStr n \<Rightarrow> manager_calculate calc m n d
      | _ \<Rightarrow> if hashable name then (m, Inl (ValueError (not_found_msg (py_str name))))
            else (m, Inl TypeError))"

subsection \<open>\<open>SignalAggregator\<close> on decoded signals\<close>

record 'r json_aggregated =
  ja_agent :: json
  ja_action :: json
  ja_signal :: 'r

text \<open>The loop of \<open>aggregate_signals\<close>: \<open>signal["indicator"]\<close> and
  \<open>signal["data"]\<close> are evaluated before the call, \<open>signal["agent"]\<close> and
  \<open>signal["action"]\<close> after it.\<close>

fun json_aggregate_loop ::
  "('i, json, 'r) calc_step \<Rightarrow> 'i registry \<Rightarrow> json list \<Rightarrow> 'r json_aggregated list
   \<Rightarrow> 'i registry \<times> (py_error + 'r json_aggregated list)" where
  "json_aggregate_loop calc m [] acc = (m, Inr acc)"
| "json_aggregate_loop calc m (s # ss) acc =
     (case py_subscript s ''indicator'' of
        Inl e \<Rightarrow> (m, Inl e)
      | Inr ind \<Rightarrow>
          (case py_subscript s ''data'' of
             Inl e \<Rightarrow> (m, Inl e)
           | Inr d \<Rightarrow>
               (case json_calculate calc m ind d of
                  (m', Inl e) \<Rightarrow> (m', Inl e)
                | (m', Inr r) \<Rightarrow>
                    (case py_subscript s ''agent'' of
                       Inl e \<Rightarrow> (m', Inl e)
                     | Inr ag \<Rightarrow>
                         (case py_subscript s ''action'' of
                            Inl e \<Rightarrow> (m', Inl e)
                          | Inr ac \<Rightarrow>
                              json_aggregate_loop calc m' ss
                                (acc @ [\<lparr>ja_agent = ag, ja_action = ac, ja_signal = r\<rparr>]))))))"

text \<open>The loop of \<open>summarize_signals\<close>: every aggregated signal has the key
  \<open>action\<close>; \<open>action in summary\<close> raises \<open>TypeError\<close> on an unhashable value and is
  false for any value but the three label strings.\<close>

fun json_summarize_loop :: "summary \<Rightarrow> 'r json_aggregated list \<Rightarrow> py_error + summary" where
  "json_summarize_loop s [] = Inr s"
| "json_summarize_loop s (g # gs) =
     (if \<not> hashable (ja_action g) then Inl TypeError
      else json_summarize_loop (case ja_action g of JStr a \<Rightarrow> summary_bump s a | _ \<Rightarrow> s) gs)"

text \<open>\<open>get_aggregated_signals\<close>: \<open>request_data.get("agent_signals", [])\<close>, the loop
  over it, then the summary.\<close>

definition api_endpoint ::
  "('i, json, 'r) calc_step \<Rightarrow> 'i registry \<Rightarrow> json
   \<Rightarrow> 'i registry \<times> (py_error + 'r json_aggregated list \<times> summary)" where
  "api_endpoint calc m body =
     (case py_get body ''agent_signals'' (JList []) of
        Inl e \<Rightarrow> (m, Inl e)
      | Inr sigs \<Rightarrow>
          (case py_iter sigs of
             Inl e \<Rightarrow> (m, Inl e)
           | Inr xs \<Rightarrow>
               (case json_aggregate_loop calc m xs [] of
                  (m', Inl e) \<Rightarrow> (m', Inl e)
                | (m', Inr ags) \<Rightarrow>
                    (case json_summarize_loop empty_summary ags of
                       Inl e \<Rightarrow> (m', Inl e)
                     | Inr sm \<Rightarrow> (m', Inr (ags, sm))))))"

declare json_calculate_def [model_defs] api_endpoint_def [model_defs]

subsection \<open>The loops on decoded signals\<close>

text \<open>The label a summary bucket counts an action under: the string itself, and for
  any other hashable value one that is none of the three labels.\<close>

definition json_label :: "json \<Rightarrow> string" where
  "json_label a = (case a of JStr l \<Rightarrow> l | _ \<Rightarrow> '''')"

lemma json_aggregate_loop_Inr:
  "json_aggregate_loop calc m xs acc = (m', Inr out) \<Longrightarrow>
   \<exists>gs. out = acc @ gs \<and> list_all2 (\<lambda>x g. py_subscript x ''action'' = Inr (ja_action g)) xs gs"
proof (induction xs arbitrary: m acc)
  case Nil
  then show ?case by simp
next
  case (Cons x xs)
  obtain ind d m1 r ag ac where
    ind: "py_subscript x ''indicator'' = Inr ind" and d: "py_subscript x ''data'' = Inr d"
    and c: "json_calculate calc m ind d = (m1, Inr r)"
    and ag: "py_subscript x ''agent'' = Inr ag" and ac: "py_subscript x ''action'' = Inr ac"
    and rest: "json_aggregate_loop calc m1 xs (acc @ [\<lparr>ja_agent = ag, ja_action = ac, ja_signal = r\<rparr>]) = (m', Inr out)"
    using Cons.prems by (auto split: sum.splits prod.splits)
  obtain gs where "out = (acc @ [\<lparr>ja_agent = ag, ja_action = ac, ja_signal = r\<rparr>]) @ gs"
      "list_all2 (\<lambda>x g. py_subscript x ''action'' = Inr (ja_action g)) xs gs"
    using Cons.IH [OF rest] by blast
  then show ?case using ac by (intro exI [of _ "\<lparr>ja_agent = ag, ja_action = ac, ja_signal = r\<rparr> # gs"]) simp
qed

lemma json_summarize_loop_spec:
  "json_summarize_loop (summary_spec acts) gs = Inr sm \<Longrightarrow>
   sm = summary_spec (acts @ map (json_label \<circ> ja_action) gs)"
proof (induction gs arbitrary: acts)
  case Nil
  then show ?case by simp
next
  case (Cons g gs)
  have h: "hashable (ja_action g)" using Cons.prems by (auto split: if_splits)
  have step: "(case ja_action g of JStr a \<Rightarrow> summary_bump (summary_spec acts) a | _ \<Rightarrow> summary_spec acts)
              = summary_spec (acts @ [json_label (ja_action g)])"
    by (cases "ja_action g") (simp_all add: summary_bump_spec json_label_def, simp_all add: summary_spec_def)
  show ?case using Cons.prems Cons.IH [of "acts @ [json_label (ja_action g)]"] h by (simp add: step)
qed

subsection \<open>Error paths\<close>

text \<open>A body that is not a dictionary (a list, or \<open>null\<close>) has no \<open>get\<close>.\<close>

lemma api_endpoint_body_not_dict:
  "py_get body ''agent_signals'' (JList []) = Inl e \<Longrightarrow> api_endpoint calc m body = (m, Inl e)"
  by (simp add: api_endpoint_def)

text \<open>A signal without \<open>agent\<close> raises \<open>KeyError\<close> only after its indicator has run:
  the registry keeps the instance that \<open>calculate\<close> updated.\<close>

lemma api_endpoint_missing_agent:
  assumes "py_subscript s ''indicator'' = Inr (JStr n)" and "py_subscript s ''data'' = Inr d"
    and "m n = Some ind" and "snd (calc ind d) = Inr r"
    and "py_subscript s ''agent'' = Inl e"
  shows "api_endpoint calc m (JObj [(''agent_signals'', JList [s])]) = (m(n \<mapsto> fst (calc ind d)), Inl e)"
  using assms by (simp add: api_endpoint_def jget_def json_calculate_def split: prod.split)

text \<open>Once any aggregated signal carries an unhashable action (a list or a
  dictionary), the summary raises \<open>TypeError\<close>, although every indicator has run.\<close>

lemma json_summarize_unhashable:
  "g \<in> set gs \<Longrightarrow> \<not> hashable (ja_action g) \<Longrightarrow> json_summarize_loop s gs = Inl TypeError"
  by (induction gs arbitrary: s) auto

text \<open>C18: When the endpoint answers a decoded request, the request's
  \<open>agent_signals\<close> value is iterable, the answer holds one aggregated signal per item,
  in order, each carrying the item's \<open>action\<close>, and the summary counts those actions
  that are the strings \<open>BUY\<close>, \<open>SELL\<close> and \<open>HOLD\<close>.\<close>

theorem api_endpoint_counts_actions:
  assumes "snd (api_endpoint calc m body) = Inr (ags, sm)"
  shows "\<exists>sigs xs. py_get body ''agent_signals'' (JList []) = Inr sigs \<and> py_iter sigs = Inr xs
           \<and> list_all2 (\<lambda>x g. py_subscript x ''action'' = Inr (ja_action g)) xs ags
           \<and> sm = summary_spec (map (json_label \<circ> ja_action) ags)"
proof -
  obtain sigs xs m' where g: "py_get body ''agent_signals'' (JList []) = Inr sigs"
    and i: "py_iter sigs = Inr xs" and l: "json_aggregate_loop calc m xs [] = (m', Inr ags)"
    and sm: "json_summarize_loop empty_summary ags = Inr sm"
    using assms by (auto simp: api_endpoint_def split: sum.splits prod.splits)
  have "list_all2 (\<lambda>x g. py_subscript x ''action'' = Inr (ja_action g)) xs ags"
    using json_aggregate_loop_Inr [OF l] by simp
  moreover have "sm = summary_spec (map (json_label \<circ> ja_action) ags)"
    using json_summarize_loop_spec [of "[]" ags sm] sm by (simp add: empty_summary_spec)
  ultimately show ?thesis using g i by blast
qed

theorem api_endpoint_counts_actions_witness:
  "snd (api_endpoint (\<lambda>(i::nat) (d::json). (Suc i, Inr i)) [''MLMI'' \<mapsto> 0]
      (JObj [(''agent_signals'', JList
         [JObj [(''agent'', JStr ''A''), (''action'', JStr ''BUY''), (''indicator'', JStr ''MLMI''), (''data'', JNum 1)],
          JObj [(''agent'', JStr ''B''), (''action'', JNum 3), (''indicator'', JStr ''MLMI''), (''data'', JNum 2)]])]))
     = Inr ([\<lparr>ja_agent = JStr ''A'', ja_action = JStr ''BUY'', ja_signal = 0\<rparr>,
             \<lparr>ja_agent = JStr ''B'', ja_action = JNum 3, ja_signal = 1\<rparr>],
            \<lparr>buy_count = 1, sell_count = 0, hold_count = 0\<rparr>)
   \<and> \<lparr>buy_count = 1, sell_count = 0, hold_count = 0\<rparr>
       = summary_spec (map (json_label \<circ> ja_action)
           [\<lparr>ja_agent = JStr ''A'', ja_action = JStr ''BUY'', ja_signal = 0::nat\<rparr>,
            \<lparr>ja_agent = JStr ''B'', ja_action = JNum 3, ja_signal = 1\<rparr>])"
proof -
  have r: "snd (api_endpoint (\<lambda>(i::nat) (d::json). (Suc i, Inr i)) [''MLMI'' \<mapsto> 0]
      (JObj [(''agent_signals'', JList
         [JObj [(''agent'', JStr ''A''), (''action'', JStr ''BUY''), (''indicator'', JStr ''MLMI''), (''data'', JNum 1)],
          JObj [(''agent'', JStr ''B''), (''action'', JNum 3), (''indicator'', JStr ''MLMI''), (''data'', JNum 2)]])]))
     = Inr ([\<lparr>ja_agent = JStr ''A'', ja_action = JStr ''BUY'', ja_signal = 0\<rparr>,
             \<lparr>ja_agent = JStr ''B'', ja_action = JNum 3, ja_signal = 1\<rparr>],
            \<lparr>buy_count = 1, sell_count = 0, hold_count = 0\<rparr>)"
    by (simp add: api_endpoint_def json_calculate_def jget_def empty_summary_def summary_bump_def)
  show ?thesis using r api_endpoint_counts_actions [OF r] by auto
qed

end
