(* ===== verification/Computation_Loop.thy ===== *)
theory Computation_Loop
  imports Computation
begin

text \<open>
  Facts about the receive loop of the computation engine
  (\<open>src/src/computation/python/engine.py\<close>, \<open>ComputationEngine.start\<close>), over every
  sequence of received messages: the model cache only grows, no cached model is ever
  replaced, the port never changes, and the loop answers each message with at most
  one output, so that no message stops it.
\<close>

definition models_grow :: "comp_state \<Rightarrow> comp_state \<Rightarrow> bool" where
  "models_grow st st' = (map_of (models st) \<subseteq>\<^sub>m map_of (models st') \<and> comp_port st' = comp_port st)"

lemma models_grow_refl [simp]: "models_grow st st"
  by (simp add: models_grow_def)

lemma models_grow_trans: "models_grow st1 st2 \<Longrightarrow> models_grow st2 st3 \<Longrightarrow> models_grow st1 st3"
  by (auto simp: models_grow_def intro: map_le_trans)

lemma get_model_grows: "models_grow st (fst (get_model env st n))"
proof -
  have "map_of xs \<subseteq>\<^sub>m map_of (dict_set n m xs)" if "map_of xs n = None" for xs :: "(json \<times> model_obj) list" and m
    using that by (auto simp: map_le_def)
  then show ?thesis by (auto simp: get_model_def models_grow_def split: option.splits sum.splits)
qed

lemma get_model_grows_eq: "get_model env st n = (st', r) \<Longrightarrow> models_grow st st'"
  using get_model_grows [of st env n] by simp

lemma get_model_for_indicator_grows:
  "get_model_for_indicator env generic st ind = (st', r) \<Longrightarrow> models_grow st st'"
  by (auto simp: get_model_for_indicator_def dest: get_model_grows_eq
           split: json.splits prod.splits sum.splits py_error.splits)

lemma alert_body_grows: "alert_body env generic st a = (st', r) \<Longrightarrow> models_grow st st'"
  by (auto simp: alert_body_def Let_def dest: get_model_for_indicator_grows
           split: json.splits prod.splits sum.splits if_splits)

lemma process_alert_grows: "process_alert env generic st a = (st', r) \<Longrightarrow> models_grow st st'"
  by (auto simp: process_alert_def dest: alert_body_grows split: prod.splits sum.splits)

lemma process_market_data_grows: "process_market_data st d = (st', r) \<Longrightarrow> models_grow st st'"
  by (auto simp: process_market_data_def models_grow_def Let_def split: json.splits sum.splits if_splits)

lemma model_request_body_grows: "model_request_body env st n a p = (st', r) \<Longrightarrow> models_grow st st'"
  by (auto simp: model_request_body_def dest: get_model_grows_eq split: prod.splits sum.splits if_splits)

lemma process_model_request_grows: "process_model_request env st q = (st', r) \<Longrightarrow> models_grow st st'"
  by (auto simp: process_model_request_def Let_def dest: model_request_body_grows
           split: json.splits prod.splits sum.splits if_splits)

lemma process_message_grows: "process_message env generic st msg = (st', r) \<Longrightarrow> models_grow st st'"
  by (auto simp: process_message_def dest: process_alert_grows process_market_data_grows
           process_model_request_grows split: sum.splits prod.splits if_splits)

lemma handle_received_grows: "models_grow st (fst (handle_received env generic st m))"
  by (auto simp: handle_received_def dest: process_message_grows split: sum.splits prod.splits)

lemma handle_received_out: "length (snd (handle_received env generic st m)) \<le> 1"
  by (auto simp: handle_received_def split: sum.splits prod.splits)

text \<open>Over any sequence of received messages the cache only grows: a model the
  engine has loaded answers every later request for its name.\<close>

lemma comp_serve_models_grow: "models_grow st (fst (comp_serve env generic st ms))"
proof (induction ms arbitrary: st)
  case Nil
  then show ?case by simp
next
  case (Cons m ms)
  obtain st1 out1 where h: "handle_received env generic st m = (st1, out1)" by fastforce
  have "models_grow st st1" using handle_received_grows [of st env generic m] h by simp
  then show ?case using Cons.IH [of st1] h models_grow_trans by (auto split: prod.split)
qed

text \<open>Each received message gives at most one output, a sent result or a logged
  exception.\<close>

lemma comp_serve_outputs: "length (snd (comp_serve env generic st ms)) \<le> length ms"
proof (induction ms arbitrary: st)
  case Nil
  then show ?case by simp
next
  case (Cons m ms)
  obtain st1 out1 where h: "handle_received env generic st m = (st1, out1)" by fastforce
  have "length out1 \<le> 1" using handle_received_out [of env generic st m] h by simp
  then show ?case using Cons.IH [of st1] h by (auto split: prod.split)
qed

end
