(* ===== verification/Indicator_Utils.thy ===== *)
theory Indicator_Utils
  imports MLMI Cross_Correlation
begin

text \<open>
  The helper functions of \<open>src/FuturesQuant/core/indicator/utils.py\<close>:
  \<open>calculate_atr\<close> (average true range of pandas series), \<open>calculate_rsi\<close> (the same
  body as the module function of the core manager), \<open>knn_predict\<close> (over the rows of
  a 2-D array) and \<open>calculate_standard_deviation\<close>. The three series of
  \<open>calculate_atr\<close> are taken with equal lengths and the same index. \<open>np.maximum\<close>
  propagates NaN.
\<close>

subsection \<open>Average true range\<close>

definition flt_max :: "flt \<Rightarrow> flt \<Rightarrow> flt" where
  "flt_max a b = (case (a, b) of (Some x, Some y) \<Rightarrow> Some (max x y) | _ \<Rightarrow> None)"

text \<open>\<open>close.shift(1)\<close>: NaN first, then the previous value.\<close>

definition shift1 :: "real list \<Rightarrow> series" where
  "shift1 xs = (case xs of [] \<Rightarrow> [] | _ \<Rightarrow> None # map Some (butlast xs))"

definition true_range :: "real \<Rightarrow> real \<Rightarrow> flt \<Rightarrow> flt" where
  "true_range h l pc =
     flt_max (Some (h - l)) (flt_max (flt_abs (flt_sub (Some h) pc)) (flt_abs (flt_sub (Some l) pc)))"

definition calculate_atr :: "real list \<Rightarrow> real list \<Rightarrow> real list \<Rightarrow> nat \<Rightarrow> series" where
  "calculate_atr high low close period =
     rolling_mean period (map2 (\<lambda>(h, l) pc. true_range h l pc) (zip high low) (shift1 close))"

subsection \<open>RSI\<close>

definition utils_calculate_rsi :: "series \<Rightarrow> nat \<Rightarrow> series" where
  "utils_calculate_rsi close period = calculate_rsi period close"

subsection \<open>Nearest neighbours\<close>

text \<open>\<open>np.linalg.norm(data - target, axis=1)\<close>: the Euclidean distance of each row to
  the target; rows of another length do not broadcast.\<close>

definition row_distances :: "real list list \<Rightarrow> real list \<Rightarrow> py_error + real list" where
  "row_distances rows target =
     (if list_all (\<lambda>r. length r = length target) rows
      then Inr (map (\<lambda>r. sqrt (sum_sq (map2 (-) r target))) rows)
      else Inl (ValueError ''operands could not be broadcast together''))"

text \<open>\<open>xs[:k]\<close> for an integer \<open>k\<close>; a negative \<open>k\<close> drops that many from the end.\<close>

definition py_take :: "int \<Rightarrow> 'a list \<Rightarrow> 'a list" where
  "py_take k xs = (if 0 \<le> k then take (nat k) xs else take (length xs - nat (- k)) xs)"

text \<open>\<open>np.mean(nearest_indices)\<close>: the mean of the positions of the nearest rows; NaN
  when there is none.\<close>

definition utils_knn_predict :: "real list list \<Rightarrow> real list \<Rightarrow> int \<Rightarrow> py_error + flt" where
  "utils_knn_predict rows target k =
     (case row_distances rows target of
        Inl e \<Rightarrow> Inl e
      | Inr ds \<Rightarrow>
          (let nearest = py_take k (argsort ds)
           in Inr (if nearest = [] then None else Some (mean (map real nearest)))))"

subsection \<open>Standard deviation\<close>

definition calculate_standard_deviation :: "real list \<Rightarrow> flt" where
  "calculate_standard_deviation xs =
     (if xs = [] then None else Some (sqrt (mean (map (\<lambda>x. (x - mean xs)\<^sup>2) xs))))"

declare flt_max_def [model_defs] shift1_def [model_defs] true_range_def [model_defs]
  calculate_atr_def [model_defs] utils_calculate_rsi_def [model_defs] row_distances_def [model_defs]
  py_take_def [model_defs] utils_knn_predict_def [model_defs] calculate_standard_deviation_def [model_defs]

subsection \<open>Facts\<close>

lemma true_range_nonneg: "true_range h l pc = Some r \<Longrightarrow> 0 \<le> r"
  by (auto simp: true_range_def flt_max_def flt_sub_def split: option.splits)

lemma rolling_mean_nonneg_defined:
  assumes "\<And>r. Some r \<in> set xs \<Longrightarrow> 0 \<le> r"
    and "rolling_mean p xs ! i = Some m" and "i < length xs"
  shows "0 \<le> m"
proof -
  obtain w where w: "those (window_at p xs i) = Some w" and m: "window_mean w = Some m"
    using rolling_apply_Some [OF assms(2) [unfolded rolling_mean_def] assms(3)] by blast
  have "\<forall>x \<in> set w. 0 \<le> x"
  proof
    fix x assume "x \<in> set w"
    then have "Some x \<in> set (window_at p xs i)" using w by (auto simp: those_Some_iff)
    then show "0 \<le> x" using set_window_at [of p xs i] assms(1) by blast
  qed
  moreover have "w \<noteq> []" and "m = mean w" using m by (simp_all add: window_mean_def split: if_splits)
  ultimately show ?thesis using mean_ge_bound [of w 0] by simp
qed

text \<open>Every defined value of the average true range is non-negative.\<close>

lemma calculate_atr_nonneg:
  assumes "calculate_atr high low close p ! i = Some a"
    and "i < length (map2 (\<lambda>(h, l) pc. true_range h l pc) (zip high low) (shift1 close))"
  shows "0 \<le> a"
proof (rule rolling_mean_nonneg_defined [OF _ assms(1) [unfolded calculate_atr_def] assms(2)])
  fix r assume "Some r \<in> set (map2 (\<lambda>(h, l) pc. true_range h l pc) (zip high low) (shift1 close))"
  then obtain h l pc where "true_range h l pc = Some r" by auto
  then show "0 \<le> r" by (rule true_range_nonneg)
qed

text \<open>The first true range is NaN (there is no previous close), so the average true
  range is NaN in the first \<open>period\<close> rows, one more than the window needs.\<close>

lemma calculate_atr_leading_nan:
  assumes "i < p" and "i < length close" and "length high = length close" and "length low = length close"
  shows "calculate_atr high low close p ! i = None"
proof -
  define tr where "tr = map2 (\<lambda>(h, l) pc. true_range h l pc) (zip high low) (shift1 close)"
  have len: "length tr = length close" using assms(3,4) by (cases close) (simp_all add: tr_def shift1_def)
  obtain c cs h hs l ls where cl: "close = c # cs" and hi: "high = h # hs" and lo: "low = l # ls"
    using assms(2-4) by (cases close; cases high; cases low) auto
  have "tr = true_range h l None # map2 (\<lambda>(h, l) pc. true_range h l pc) (zip hs ls) (map Some (butlast close))"
    by (simp add: tr_def shift1_def cl hi lo)
  then obtain rest where tr: "tr = None # rest"
    by (simp add: true_range_def flt_max_def flt_sub_def)
  show ?thesis
  proof (cases "Suc i < p")
    case True
    then show ?thesis using assms(2) len by (simp add: calculate_atr_def rolling_mean_def nth_rolling_apply tr_def [symmetric])
  next
    case False
    then have "Suc i = p" using assms(1) by simp
    then have "window_at p tr i = None # take i rest" by (auto simp: window_at_def tr)
    then show ?thesis using assms(2) len False
      by (simp add: calculate_atr_def rolling_mean_def nth_rolling_apply tr_def [symmetric])
  qed
qed

text \<open>\<open>knn_predict\<close> returns the mean of the positions of the nearest rows, never a
  value computed from the rows: with \<open>n\<close> rows its result lies in \<open>[0, n - 1]\<close>.\<close>

lemma utils_knn_predict_index_mean:
  assumes "utils_knn_predict rows target k = Inr (Some v)"
  shows "0 \<le> v \<and> v \<le> real (length rows) - 1"
proof -
  obtain ds where ds: "row_distances rows target = Inr ds"
    using assms by (cases "row_distances rows target") (simp_all add: utils_knn_predict_def)
  have lds: "length ds = length rows"
    using ds by (auto simp: row_distances_def split: if_splits)
  define nearest where "nearest = py_take k (argsort ds)"
  have ne: "nearest \<noteq> []" and v: "v = mean (map real nearest)"
    using assms ds by (simp_all add: utils_knn_predict_def nearest_def Let_def split: if_splits)
  have sub: "set nearest \<subseteq> {0..<length rows}"
  proof -
    have "set (argsort ds) = {0..<length ds}" by (simp add: argsort_def)
    moreover have "set nearest \<subseteq> set (argsort ds)"
      by (auto simp: nearest_def py_take_def dest: in_set_takeD)
    ultimately show ?thesis using lds by simp
  qed
  have "\<forall>x \<in> set (map real nearest). 0 \<le> x \<and> x \<le> real (length rows) - 1"
    using sub by fastforce
  moreover have "map real nearest \<noteq> []" using ne by simp
  ultimately have "0 \<le> mean (map real nearest) \<and> mean (map real nearest) \<le> real (length rows) - 1"
    using mean_ge_bound [of "map real nearest" 0] mean_le_bound [of "map real nearest" "real (length rows) - 1"]
    by blast
  then show ?thesis using v by simp
qed

lemma calculate_standard_deviation_np_std:
  "xs \<noteq> [] \<Longrightarrow> calculate_standard_deviation xs = Some (np_std xs)"
  by (simp add: calculate_standard_deviation_def np_std_def)

end
