(* ===== verification/Leverage.thy ===== *)
theory Leverage
  imports Prelude
begin

text \<open>
  \<open>LeverageAgent\<close> of \<open>src/FuturesQuant/FuturesQuantCopilotFiles/FuturesQuant_core_leverage_agent.py\<close>.
  The file ends inside \<open>calculate_position_size\<close>: after the docstring the body holds
  only the comment \<open># Base\<close>, so the method is valid Python that returns \<open>None\<close>
  instead of the pair \<open>(position_size, leverage_used)\<close> its signature and the spec's
  LeverageSizer promise.
\<close>

record risk_metrics =
  account_volatility :: real
  drawdown :: real
  sharpe :: real
  max_drawdown :: real

record leverage_agent =
  capital :: real
  max_leverage :: real
  default_risk_per_trade :: real
  vol_based_sizing :: bool
  la_positions :: "(string \<times> real) list"
  leverage_history :: "real list"
  la_risk_metrics :: risk_metrics

definition leverage_init :: "real \<Rightarrow> real \<Rightarrow> real \<Rightarrow> bool \<Rightarrow> leverage_agent" where
  "leverage_init initial_capital max_lev risk vol =
     \<lparr>capital = initial_capital, max_leverage = max_lev, default_risk_per_trade = risk,
      vol_based_sizing = vol, la_positions = [], leverage_history = [],
      la_risk_metrics = \<lparr>account_volatility = 0, drawdown = 0, sharpe = 0, max_drawdown = 0\<rparr>\<rparr>"

text \<open>The defaults of the constructor.\<close>

definition leverage_default :: leverage_agent where
  "leverage_default = leverage_init 100000 5 0.02 True"

definition leverage_calculate_position_size ::
  "leverage_agent \<Rightarrow> string \<Rightarrow> real \<Rightarrow> real \<Rightarrow> real \<Rightarrow> real \<Rightarrow> (real \<times> real) option" where
  "leverage_calculate_position_size a instrument signal_strength price volatility margin_requirement = None"

declare leverage_init_def [model_defs] leverage_default_def [model_defs]
  leverage_calculate_position_size_def [model_defs]

end
