(* ===== verification/Spec2Isabelle.thy ===== *)
theory Spec2Isabelle
  imports Aggregator Cross_Correlation MLMI Moving_Averages Copilot_Manager Engine Computation Entry_Points Web_Routes
    Core_Manager External_Clients Api_Endpoint Computation_Loop
    Signal_Agent Dashboard Indicator_Utils Leverage Web_Dashboard
begin

text \<open>
  \<^bold>\<open>A verification library for FuturesQuant.\<close>

  The repository is a Python trading system. Agents submit signals naming an
  indicator; the \<open>SignalAggregator\<close> runs each named indicator from a registry and
  summarizes the agents' actions, and the dashboard API serves that result. The
  indicators compute on pandas frames of prices: the divergence detector
  \<open>CrossCorrelationPair\<close> keeps bounded histories of correlation and spread; the
  momentum predictor \<open>MLMI\<close> trains a nearest-neighbour vote on crossovers of
  weighted moving averages; the classic indicators (SMA, EMA, RSI, MACD, Bollinger
  bands) appear in the core indicator manager, in a second manager of the Copilot
  files and as plain list functions. A trading engine runs strategies in a loop, a
  signal agent runs prediction models, and a WebSocket computation engine answers
  JSON messages with cached models.

  \<^bold>\<open>Theories and correspondence to the source.\<close>
  \<^item> \<open>Prelude\<close>: Python exceptions (\<open>py_error\<close>), floats with NaN (\<open>flt = real option\<close>,
    \<open>None\<close> is NaN, every comparison with NaN false), indexing with its
    \<open>IndexError\<close> (\<open>py_index\<close>), dictionaries in insertion order (\<open>dict_set\<close>,
    \<open>dict_del\<close>), trailing windows (\<open>last_n\<close>) and the mean.
  \<^item> \<open>Pandas\<close>: the pandas operations the indicators call, on series of \<open>flt\<close>:
    rolling windows with \<open>min_periods = window\<close>, rolling mean, sample deviation and
    Pearson correlation, \<open>pct_change\<close>, \<open>diff\<close>, \<open>where\<close>, \<open>ewm(adjust=False)\<close>; with
    the Cauchy-Schwarz inequality on lists.
  \<^item> \<open>Registry\<close>, \<open>Aggregator\<close>: \<open>core/indicator/manager.py\<close> (\<open>get_indicator\<close>,
    \<open>calculate\<close>) over any indicator type, as a map from names to instances with a
    step function \<open>calc\<close>; \<open>tournament/signal/SignalAggregator.py\<close>
    (\<open>aggregate_signals\<close>, \<open>summarize_signals\<close>).
  \<^item> \<open>Rolling_Buffer\<close>, \<open>Cross_Correlation\<close>: \<open>core/indicator/cross_correlation_pair.py\<close>,
    the state record \<open>ccp_state\<close> and \<open>ccp_calculate\<close>, which returns the updated state
    and the result.
  \<^item> \<open>Indicators\<close>: \<open>calculate_rsi\<close> and the five indicator classes of
    \<open>core/indicator/manager.py\<close>.
  \<^item> \<open>MLMI\<close>: \<open>core/indicator/mlmi.py\<close>, every method, with the state the class mutates
    before it raises. \<open>knn_predict\<close> is modelled twice, on float features as its
    signature says and on the whole series \<open>calculate\<close> passes: distances as aligned
    series, \<open>np.argsort\<close> of the array they form (\<open>ValueError\<close> when ragged, rows sorted
    otherwise), the first \<open>k\<close> rows, and the list subscript by a row that raises
    \<open>TypeError\<close> (none with \<open>k = 0\<close>, where the sum is \<open>0.0\<close>).
  \<^item> \<open>Moving_Averages\<close>: \<open>strategies/indicators/moving_averages.py\<close>.
  \<^item> \<open>Copilot_Manager\<close>: \<open>FuturesQuant_core_indicator_manager.py\<close>, the indicator
    classes as a datatype and \<open>IndicatorManager\<close> as an association list.
  \<^item> \<open>Engine\<close>: \<open>core/engine.py\<close> (\<open>TradingEngine\<close>) and \<open>BaseStrategy\<close> of
    \<open>FuturesQuant_strategies_base_strategy.py\<close>, with a reachability predicate.
  \<^item> \<open>Signal_Agent\<close>: \<open>src_agents_signal_agent.py\<close>.
  \<^item> \<open>Computation\<close>: \<open>src/src/computation/python/engine.py\<close>, JSON messages, the
    handlers, the model cache and the receive loop over a list of messages.
  \<^item> \<open>Computation_Loop\<close>: facts about that receive loop over any sequence of
    messages.
  \<^item> \<open>Dashboard\<close>: the endpoint of \<open>Dashboard/api/api/indicators.py\<close> and
    \<open>IBKRWrapper\<close>, modelled by the sequence of calls it issues to the \<open>ib_insync\<close>
    client, with the gateway's answers as parameters.
  \<^item> \<open>Core_Manager\<close>: the \<open>Indicator\<close> base class and \<open>IndicatorManager.__init__\<close> of
    \<open>core/indicator/manager.py\<close>: the registry of five instances, with \<open>MLMI\<close> and
    \<open>CrossCorrelationPair\<close> at their default arguments and the three classes whose
    modules are missing as parameters; the aggregator runs on it.
  \<^item> \<open>Indicator_Utils\<close>: \<open>core/indicator/utils.py\<close> (\<open>calculate_atr\<close>, \<open>calculate_rsi\<close>,
    \<open>knn_predict\<close>, \<open>calculate_standard_deviation\<close>); the module functions
    \<open>calculate_atr\<close> and \<open>knn_predict\<close> of \<open>core/indicator/manager.py\<close> have the same
    bodies.
  \<^item> \<open>Web_Dashboard\<close>: \<open>DashboardManager\<close> and the JSON endpoints of
    \<open>FuturesQuant_web_dashboard.py\<close>, with the manager's updates as a datatype of
    operations.
  \<^item> \<open>Leverage\<close>: the constructor of \<open>LeverageAgent\<close> and its truncated
    \<open>calculate_position_size\<close>, which returns \<open>None\<close>.
  \<^item> \<open>Market_Data\<close>: \<open>DataHandler\<close> of \<open>core/data_handler.py\<close> (stub methods) and
    \<open>DataFetcher\<close> of \<open>src/data/data_fetcher.py\<close>; Python's \<open>random\<close> is an explicit
    tape of draws in \<open>[0, 1)\<close> read at a position that every draw advances.
  \<^item> \<open>Entry_Points\<close>: \<open>load_config\<close> and \<open>main\<close> of \<open>FuturesQuant_main.py\<close> and
    \<open>main\<close> of the Copilot \<open>main.py\<close>. While \<open>main\<close> sets up its strategies they are
    objects in an explicit store (a list, references are positions) and the engine
    holds references, because \<open>strategy.start()\<close> runs after
    \<open>engine.add_strategy\<close> and must reach the engine's object; \<open>deref\<close> turns the
    result into the engine of \<open>Engine\<close>, which the strategies' run never mutates.
  \<^item> \<open>Py_Int\<close>: Python's \<open>int\<close> on a string and \<open>str\<close> on an integer.
  \<^item> \<open>Web_Routes\<close>: the routes of the web dashboard's blueprint under \<open>/dashboard\<close>,
    with the query arguments converted as Python's \<open>int\<close> does.
  \<^item> \<open>Api_Endpoint\<close>: the aggregated-signals endpoint of
    \<open>Dashboard/api/indicators.py\<close> (the same code as in \<open>Dashboard/api/api\<close>) and
    \<open>SignalAggregator\<close> on the decoded JSON of the request, where every subscript,
    iteration and membership test can raise.
  \<^item> \<open>External_Clients\<close>: \<open>src/config/config.py\<close> (environment, \<open>.env\<close> file and the
    validation at import) and the TwelveData client of
    \<open>src/data_sources/twelvedata_client.py\<close> with HTTP, pandas' reading of the rows
    and \<open>to_datetime\<close> as parameters.

  \<^bold>\<open>What the lemmas show.\<close> Each component theory ends with its properties, each
  introduced by a text naming its claim: the order and fail-fast behaviour of the
  aggregator and its counting contract; the invariant and FIFO refinement of the
  divergence detector's histories, its correlation and strength bounds and its
  signal rule; the RSI range and the Bollinger band order; the always-up labels,
  the \<open>IndexError\<close> and the exception of \<open>MLMI.calculate\<close>, the bound of the
  neighbour vote and its equality with a sorting-free reference (the labels of the
  samples of rank below \<open>k\<close>); the refinement of the list SMA by the
  pandas rolling mean, the EMA bounds, the reversed WMA weights and the guards of
  the list functions; the non-atomic batches of the aggregator; the answer of the
  endpoint on decoded JSON (one aggregated signal per request item, the summary of
  their string actions); registration (duplicates, with Python's equality of
  parameter values, refused), lookup and \<open>calculate_all\<close> of the Copilot
  manager with its reachable-state invariant; the bounded trade history of the
  web dashboard; the engine's non-returning loop, its
  stop on a bad interval, the isolation of strategies and the origin of every
  position event, with a reachable-state invariant; the position sizes, the model
  cache and the atomicity of failed messages of the computation engine. Lemmas
  without a claim record further behaviour: the average true range is never
  negative and is NaN one row longer than its window, the utilities'
  \<open>knn_predict\<close> returns a mean of row positions, every reachable signal agent is
  active and generates the signals of its non-raising models in order, and a
  non-market order of \<open>place_order\<close> raises \<open>NameError\<close>, the mock market data stay
  within their ranges (current price within 1\% and history within 1.5\% of the base
  price, volume and open interest within their \<open>randint\<close> bounds) and consume 65
  draws, \<open>fetch_latest_data\<close> ignores its sources, and \<open>main.py\<close> never passes a
  signal on; only market orders reach the broker, in the order requested, and a
  non-market order raises after qualifying its contract; Python's \<open>int\<close> reads back
  what \<open>str\<close> prints, a page of \<open>/api/trades\<close> holds at most \<open>limit\<close> trades unless a
  negative limit meets a non-negative offset, and only the toggle route changes
  the module; with the registry \<open>IndicatorManager()\<close> installs, every batch naming
  \<open>MLMI\<close> with 20 or more rows raises; the configuration import needs both keys.
  The endpoint on decoded JSON reads a signal's agent only after its indicator has
  run and raises on an unhashable action after all of them have; the time series
  of the TwelveData client is its rows sorted by datetime with the undated ones
  last, and an empty series raises; the computation engine's port is 8081 or the
  integer of its argument; over any sequence of received messages the computation
  engine's model cache only grows and each message gives at most one output.
  \<open>Entry_Points\<close> proves that the store of \<open>FuturesQuant_main\<close> refines the
  value model: the engine it starts runs exactly the started strategies. This theory
  adds the composition of the dashboard endpoint with the aggregator.

  \<^bold>\<open>Fuel and loops.\<close> Every loop of the source runs over a finite list and is a
  structural recursion, except \<open>TradingEngine.start\<close> and the receive loop of the
  computation engine. \<open>start\<close> is modelled with fuel, one unit per iteration:
  out of fuel the result is \<open>Running\<close> with the trace so far, so that the theorem that
  \<open>start\<close> never returns with a valid interval is stated for every amount of fuel,
  and the theorem that it returns with a negative interval needs one unit. The
  receive loop blocks on the socket between messages; it is modelled over the finite
  list of messages received so far.

  \<^bold>\<open>Not modelled.\<close> Logging, printing and sleeping have no effect in the model
  beyond the events named above. Outside the program: the HTTP layer, the broker
  gateway's answers, the HTML template of the web dashboard, Flask's automatic
  \<open>HEAD\<close>/\<open>OPTIONS\<close> handling and redirects, \<open>jsonify\<close>, the shapes of JSON that
  \<open>pd.DataFrame\<close> accepts, timestamps and their ISO formatting, logging set-up and
  \<open>KeyboardInterrupt\<close>. Argument parsing with \<open>argparse\<close> in \<open>FuturesQuant_main.py\<close>
  (abbreviated and combined options, \<open>--opt=value\<close>, help and usage errors) is
  library behaviour left out; \<open>main\<close> is modelled from the configuration it loads.
  \<open>src/strategies/base copy.py\<close> has only \<open>pass\<close> bodies and nothing imports it. The modules
  the entry points import but the repository lacks (the Cathie Wood strategy, the
  portfolio manager, the trading strategy) are parameters of the model.
  The spec's LeverageSizer algorithm has no code: the leverage agent's
  \<open>calculate_position_size\<close> is cut off after its docstring. The
  core manager's constructor instantiates \<open>SuperTrendAI\<close>, \<open>SuperTrend\<close> and
  \<open>Scalping\<close>, whose modules are not in the repository; the registry is therefore
  generic in its instances, and \<open>Core_Manager\<close> makes those three parameters.
  \<open>mlmi.py\<close> and \<open>cross_correlation_pair.py\<close> import their base class from a module
  \<open>.base\<close> the repository also lacks (line 9 of each); the model takes it to be the
  \<open>Indicator\<close> of \<open>manager.py\<close>, whose constructor only records a name and
  parameters that neither class reads again. \<open>MLMI.calculate_ema\<close> (only reached after an
  exception, on series that may hold NaN) and the Copilot manager's \<open>__str__\<close>
  (which prints floats with Python's shortest-repr algorithm) are not modelled. The computation
  engine's module does not parse (garbled lines 23, 26 and 215-223); its methods
  and the port of its \<open>__main__\<close> block are modelled as written. Hash values of
  parameter sets are taken as injective on sets that Python finds unequal (\<open>20\<close>
  and \<open>20.0\<close> are one value, as \<open>pval_num\<close> records). Python's \<open>str.lower\<close> is modelled on ASCII.
\<close>

subsection \<open>The dashboard endpoint composed with the aggregator\<close>

text \<open>C40: When the dashboard's \<open>/api/aggregated-signals\<close> endpoint answers, its
  \<open>sentiment_summary\<close> counts the actions of the request's agent signals (each
  \<open>BUY\<close>, \<open>SELL\<close> and \<open>HOLD\<close> once, anything else not at all) and its
  \<open>aggregated_signals\<close> list the submitting agents in request order.\<close>

theorem api_summary_counts_request_actions:
  assumes "snd (Dashboard.get_aggregated_signals calc m (Some ss)) = Inr resp"
  shows "sentiment_summary resp = summary_spec (map action ss)
         \<and> map agg_agent (aggregated_signals resp) = map agent ss"
proof -
  obtain m' rs where len: "length rs = length ss"
    and ags: "aggregated_signals resp = map2 make_aggregated ss rs"
    and sum: "sentiment_summary resp = summarize_signals (aggregated_signals resp)"
    using get_aggregated_signals_Inr [OF assms] by blast
  have fields: "map agg_agent (aggregated_signals resp) = map agent ss"
    "map agg_action (aggregated_signals resp) = map (\<lambda>s. Some (action s)) ss"
    using map2_make_aggregated [OF len [symmetric]] ags by simp_all
  have "map action_or_hold (aggregated_signals resp)
        = map (case_option ''HOLD'' (\<lambda>a. a)) (map agg_action (aggregated_signals resp))"
    by (simp add: action_or_hold_def comp_def)
  then have acts: "map action_or_hold (aggregated_signals resp) = map action ss"
    using fields(2) by (simp add: comp_def)
  have "summarize_signals (aggregated_signals resp) = summary_spec (map action ss)"
    using foldl_summary_bump_spec [of "[]" "aggregated_signals resp"] acts
    by (simp add: summarize_signals_def empty_summary_spec)
  then show ?thesis using sum fields(1) by simp
qed

theorem api_summary_counts_request_actions_witness:
  "sentiment_summary (projr (snd (Dashboard.get_aggregated_signals (\<lambda>(i::nat) (d::nat). (Suc i, Inr (d + i)))
      [''MLMI'' \<mapsto> 0]
      (Some [\<lparr>agent = ''A'', action = ''BUY'', indicator = ''MLMI'', data = 1\<rparr>,
             \<lparr>agent = ''B'', action = ''WAIT'', indicator = ''MLMI'', data = 2\<rparr>]))))
   = \<lparr>buy_count = 1, sell_count = 0, hold_count = 0\<rparr>"
proof -
  have r: "snd (Dashboard.get_aggregated_signals (\<lambda>(i::nat) (d::nat). (Suc i, Inr (d + i)))
      [''MLMI'' \<mapsto> 0]
      (Some [\<lparr>agent = ''A'', action = ''BUY'', indicator = ''MLMI'', data = 1\<rparr>,
             \<lparr>agent = ''B'', action = ''WAIT'', indicator = ''MLMI'', data = 2::nat\<rparr>]))
    = Inr \<lparr>aggregated_signals = [\<lparr>agg_agent = ''A'', agg_action = Some ''BUY'', indicator_signal = 1\<rparr>,
                                  \<lparr>agg_agent = ''B'', agg_action = Some ''WAIT'', indicator_signal = 3\<rparr>],
           sentiment_summary = \<lparr>buy_count = 1, sell_count = 0, hold_count = 0\<rparr>\<rparr>"
    by (simp add: get_aggregated_signals_def aggregate_signals_def make_aggregated_def
                  summarize_signals_def summary_bump_def empty_summary_def action_or_hold_def)
  show ?thesis using api_summary_counts_request_actions [OF r] r by (simp add: summary_spec_def)
qed

end
